theory Spec2Isabelle
  imports Complex_Main
begin

section \<open>Floating-point values\<close>

text \<open>
  The model's numbers are Python/NumPy \<open>float64\<close> values. They are embedded as exact reals
  together with the three IEEE special values, so that a division by zero is a value of the
  model exactly as it is in pandas (\<open>0/0\<close> is NaN, \<open>x/0\<close> is an infinity) and not an
  exception. Arithmetic on finite values of this type is exact: rounding, overflow, underflow
  and the sign of zero are not modelled in it. Equality of two \<open>pyfloat\<close>s is identity of
  the datum. The rounding of float64 is modelled apart, by \<open>round64\<close> below, for the scalar
  arithmetic of \<open>TT_model_rum\<close>: what is proved over \<open>pyfloat\<close> holds in exact arithmetic,
  and where the rounded arithmetic departs from it, this is shown on \<open>round64\<close>.
\<close>

datatype pyfloat = Fin real | PInf | NInf | NaN

instantiation pyfloat :: "{zero, one, plus, minus, times, inverse}"
begin

definition zero_pyfloat :: pyfloat where
  "zero_pyfloat = Fin 0"

definition one_pyfloat :: pyfloat where
  "one_pyfloat = Fin 1"

fun plus_pyfloat :: "pyfloat \<Rightarrow> pyfloat \<Rightarrow> pyfloat" where
  "plus_pyfloat (Fin a) (Fin b) = Fin (a + b)"
| "plus_pyfloat NaN y = NaN"
| "plus_pyfloat x NaN = NaN"
| "plus_pyfloat PInf NInf = NaN"
| "plus_pyfloat NInf PInf = NaN"
| "plus_pyfloat PInf y = PInf"
| "plus_pyfloat x PInf = PInf"
| "plus_pyfloat NInf y = NInf"
| "plus_pyfloat x NInf = NInf"

fun minus_pyfloat :: "pyfloat \<Rightarrow> pyfloat \<Rightarrow> pyfloat" where
  "minus_pyfloat (Fin a) (Fin b) = Fin (a - b)"
| "minus_pyfloat NaN y = NaN"
| "minus_pyfloat x NaN = NaN"
| "minus_pyfloat PInf PInf = NaN"
| "minus_pyfloat NInf NInf = NaN"
| "minus_pyfloat PInf y = PInf"
| "minus_pyfloat x PInf = NInf"
| "minus_pyfloat NInf y = NInf"
| "minus_pyfloat x NInf = PInf"

fun times_pyfloat :: "pyfloat \<Rightarrow> pyfloat \<Rightarrow> pyfloat" where
  "times_pyfloat (Fin a) (Fin b) = Fin (a * b)"
| "times_pyfloat NaN y = NaN"
| "times_pyfloat x NaN = NaN"
| "times_pyfloat PInf (Fin b) = (if b = 0 then NaN else if 0 < b then PInf else NInf)"
| "times_pyfloat NInf (Fin b) = (if b = 0 then NaN else if 0 < b then NInf else PInf)"
| "times_pyfloat (Fin a) PInf = (if a = 0 then NaN else if 0 < a then PInf else NInf)"
| "times_pyfloat (Fin a) NInf = (if a = 0 then NaN else if 0 < a then NInf else PInf)"
| "times_pyfloat PInf PInf = PInf"
| "times_pyfloat NInf NInf = PInf"
| "times_pyfloat PInf NInf = NInf"
| "times_pyfloat NInf PInf = NInf"

fun divide_pyfloat :: "pyfloat \<Rightarrow> pyfloat \<Rightarrow> pyfloat" where
  "divide_pyfloat (Fin a) (Fin b) =
     (if b = 0 then (if a = 0 then NaN else if 0 < a then PInf else NInf) else Fin (a / b))"
| "divide_pyfloat NaN y = NaN"
| "divide_pyfloat x NaN = NaN"
| "divide_pyfloat (Fin a) PInf = Fin 0"
| "divide_pyfloat (Fin a) NInf = Fin 0"
| "divide_pyfloat PInf (Fin b) = (if 0 \<le> b then PInf else NInf)"
| "divide_pyfloat NInf (Fin b) = (if 0 \<le> b then NInf else PInf)"
| "divide_pyfloat PInf y = NaN"
| "divide_pyfloat NInf y = NaN"

definition inverse_pyfloat :: "pyfloat \<Rightarrow> pyfloat" where
  "inverse_pyfloat x =
     (case x of Fin b \<Rightarrow> (if b = 0 then PInf else Fin (1 / b))
      | PInf \<Rightarrow> Fin 0 | NInf \<Rightarrow> Fin 0 | NaN \<Rightarrow> NaN)"

instance ..

end

instance pyfloat :: comm_monoid_add
proof
  fix a b c :: pyfloat
  show "a + b + c = a + (b + c)"
    by (cases a; cases b; cases c; simp)
  show "a + b = b + a"
    by (cases a; cases b; simp)
  show "0 + a = a"
    by (cases a; simp add: zero_pyfloat_def)
qed

definition is_fin :: "pyfloat \<Rightarrow> bool" where
  "is_fin x = (case x of Fin r \<Rightarrow> True | _ \<Rightarrow> False)"

definition is_nan :: "pyfloat \<Rightarrow> bool" where
  "is_nan x = (x = NaN)"

definition nonneg :: "pyfloat \<Rightarrow> bool" where
  "nonneg x = (case x of Fin r \<Rightarrow> 0 \<le> r | _ \<Rightarrow> False)"

text \<open>The real number a finite float stands for.\<close>

definition val :: "pyfloat \<Rightarrow> real" where
  "val x = (case x of Fin r \<Rightarrow> r | _ \<Rightarrow> 0)"

section \<open>NumPy and pandas primitives\<close>

datatype error = ValueError

text \<open>
  A DataFrame with the columns \<open>delay\<close> and \<open>frequency\<close> is the list of its rows, in index
  order.
\<close>

type_synonym dataframe = "(int \<times> pyfloat) list"

definition delay :: "dataframe \<Rightarrow> int list" where
  "delay df = map fst df"

definition frequency :: "dataframe \<Rightarrow> pyfloat list" where
  "frequency df = map snd df"

text \<open>
  \<open>pd.DataFrame({'delay': s, 'frequency': arr})\<close> with a Series \<open>s\<close> and an array \<open>arr\<close>:
  the index is the one of \<open>s\<close>, and an array of another length is a \<open>ValueError\<close>.
\<close>

definition DataFrame :: "int list \<Rightarrow> pyfloat list \<Rightarrow> error + dataframe" where
  "DataFrame ds fs = (if length fs \<noteq> length ds then Inl ValueError else Inr (zip ds fs))"

text \<open>\<open>Series.sum()\<close> skips NaN (\<open>skipna=True\<close>); the sum of no value is 0.\<close>

definition pd_sum :: "pyfloat list \<Rightarrow> pyfloat" where
  "pd_sum xs = sum_list (filter (\<lambda>x. \<not> is_nan x) xs)"

text \<open>\<open>ndarray.sum()\<close> adds every entry, NaN included.\<close>

definition np_sum :: "pyfloat list \<Rightarrow> pyfloat" where
  "np_sum xs = sum_list xs"

text \<open>
  The full discrete convolution, \<open>full[k] = \<Sum> a[i] * v[k - i]\<close>, as the product of two
  polynomials given by their coefficient lists.
\<close>

fun padd :: "'a::plus list \<Rightarrow> 'a list \<Rightarrow> 'a list" where
  "padd [] ys = ys"
| "padd xs [] = xs"
| "padd (x # xs) (y # ys) = (x + y) # padd xs ys"

fun conv_full :: "'a::{zero,plus,times} list \<Rightarrow> 'a list \<Rightarrow> 'a list" where
  "conv_full [] v = []"
| "conv_full (x # xs) v = padd (map (\<lambda>y. x * y) v) (0 # conv_full xs v)"

text \<open>
  \<open>np.convolve(a, v, 'same')\<close>: an empty argument is a \<open>ValueError\<close>; the arguments are
  swapped when \<open>v\<close> is the longer one; the result has the length of the longer argument and
  starts at index \<open>(n - 1) div 2\<close> of the full convolution, \<open>n\<close> the length of the shorter.
\<close>

definition same_window :: "'a::{zero,plus,times} list \<Rightarrow> 'a list \<Rightarrow> 'a list" where
  "same_window a v = take (length a) (drop ((length v - 1) div 2) (conv_full a v))"

definition np_convolve_same :: "pyfloat list \<Rightarrow> pyfloat list \<Rightarrow> error + pyfloat list" where
  "np_convolve_same a v =
     (if a = [] \<or> v = [] then Inl ValueError
      else if length a < length v then Inr (same_window v a)
      else Inr (same_window a v))"

text \<open>\<open>np.arange(a, b, 1)\<close> on integers: \<open>a, a + 1, \<dots>, b - 1\<close>; the stop value is left out.\<close>

definition arange :: "int \<Rightarrow> int \<Rightarrow> int list" where
  "arange a b = [a..b - 1]"

section \<open>utils.py\<close>

text \<open>
  \<open>process_delay_column\<close> reads the text \<open>(a, b]\<close> of an interval and returns its mid point.
  The model takes the two end points as they are after \<open>int(float(x))\<close>.
\<close>

definition process_delay_column :: "int \<times> int \<Rightarrow> real" where
  "process_delay_column end_points =
     (real_of_int (fst end_points) + real_of_int (snd end_points)) / 2"

text \<open>
  \<open>process_TT_e2e_file\<close>, from the table read from the file: one row per interval, with its
  frequency. SciPy's \<open>interp1d(x, y, kind = 'cubic')\<close> is the parameter \<open>interp1d_cubic\<close>:
  it raises or returns the interpolant, which is then evaluated at the integer hours.
  \<open>min(x)\<close> of an empty column is a \<open>ValueError\<close>. The first normalisation is NumPy's (its
  sum adds NaN), the second one is pandas' (its sum skips NaN).
\<close>

definition process_TT_e2e_file ::
  "((real \<times> pyfloat) list \<Rightarrow> error + (int \<Rightarrow> pyfloat)) \<Rightarrow>
   ((int \<times> int) \<times> pyfloat) list \<Rightarrow> error + dataframe" where
  "process_TT_e2e_file interp1d_cubic table =
     (let e2e_df = map (\<lambda>row. (process_delay_column (fst row), snd row)) table;
          x = map fst e2e_df
      in if x = [] then Inl ValueError
         else
           (let x_new = arange \<lceil>Min (set x)\<rceil> \<lfloor>Max (set x)\<rfloor>
            in case interp1d_cubic e2e_df of
                 Inl e \<Rightarrow> Inl e
               | Inr f \<Rightarrow>
                   (let freq_new = map f x_new;
                        freq_new = map (\<lambda>y. y / np_sum freq_new) freq_new;
                        e2e_df = zip x_new freq_new
                    in Inr (map (\<lambda>row. (fst row, snd row / pd_sum (frequency e2e_df)))
                              e2e_df))))"

section \<open>parameters.py\<close>

text \<open>
  The branch \<open>option == 'he'\<close> of \<open>get_symptom_to_onward_vector\<close>. The two gamma
  distributions it starts from (\<open>get_serial_interval\<close>, \<open>get_incubation_period\<close>, built with
  SciPy's gamma density) are parameters.
\<close>

definition get_symptom_to_onward_vector_he :: "dataframe \<Rightarrow> dataframe \<Rightarrow> error + dataframe" where
  "get_symptom_to_onward_vector_he serial_interval_vector incubation_period_vector =
     (case np_convolve_same (frequency serial_interval_vector)
             (rev (frequency incubation_period_vector)) of
        Inl e \<Rightarrow> Inl e
      | Inr frequency0 \<Rightarrow>
          (case DataFrame (delay serial_interval_vector)
                  (map (\<lambda>y. y / np_sum frequency0) frequency0) of
             Inl e \<Rightarrow> Inl e
           | Inr symptom_to_onward_data \<Rightarrow>
               (let zeroed = map (\<lambda>row. (fst row, if fst row < - 2 * 24 then 0 else snd row))
                               symptom_to_onward_data
                in Inr (map (\<lambda>row. (fst row, snd row / pd_sum (frequency zeroed))) zeroed))))"

definition get_time_to_tertiary_infection :: "dataframe \<Rightarrow> dataframe \<Rightarrow> error + dataframe" where
  "get_time_to_tertiary_infection secondary_symptoms_to_tertiary symptoms_to_symptoms =
     (case np_convolve_same (frequency secondary_symptoms_to_tertiary)
             (frequency symptoms_to_symptoms) of
        Inl e \<Rightarrow> Inl e
      | Inr time_to_tertiary \<Rightarrow>
          DataFrame (delay secondary_symptoms_to_tertiary) time_to_tertiary)"

definition get_contact_isolation_impact :: "dataframe \<Rightarrow> dataframe \<Rightarrow> error + pyfloat" where
  "get_contact_isolation_impact time_to_tertiary_infection total_time_to_contact =
     (case np_convolve_same (frequency time_to_tertiary_infection)
             (rev (frequency total_time_to_contact)) of
        Inl e \<Rightarrow> Inl e
      | Inr diff_freq \<Rightarrow>
          (case DataFrame (delay time_to_tertiary_infection) diff_freq of
             Inl e \<Rightarrow> Inl e
           | Inr diff_df \<Rightarrow>
               Inr (pd_sum (frequency (filter (\<lambda>row. 0 < fst row) diff_df)))))"

text \<open>
  Lines 346 and 348 of \<open>get_symptom_and_contact_success\<close>: the frequency of every negative
  delay is set to 0, then the column is divided by its (NaN-skipping) sum.
\<close>

definition zero_negative_delays :: "dataframe \<Rightarrow> dataframe" where
  "zero_negative_delays df = map (\<lambda>row. (fst row, if fst row < 0 then 0 else snd row)) df"

definition renormalise :: "dataframe \<Rightarrow> dataframe" where
  "renormalise df = map (\<lambda>row. (fst row, snd row / pd_sum (frequency df))) df"

definition get_symptom_and_contact_success ::
  "pyfloat \<Rightarrow> pyfloat \<Rightarrow> pyfloat \<Rightarrow> pyfloat \<Rightarrow> pyfloat \<Rightarrow>
   dataframe \<Rightarrow> dataframe \<Rightarrow> dataframe \<Rightarrow> error + pyfloat" where
  "get_symptom_and_contact_success symptom_isolation_success symptomatic_rate
     symptomatic_ascertainment_rate compliance_with_contact_isolation percentage_notified
     secondary_symptoms_to_tertiary serial_interval total_time_to_contact =
     (case get_time_to_tertiary_infection
             (renormalise (zero_negative_delays secondary_symptoms_to_tertiary))
             serial_interval of
        Inl e \<Rightarrow> Inl e
      | Inr time_to_tertiary_infection \<Rightarrow>
          (case get_contact_isolation_impact time_to_tertiary_infection total_time_to_contact of
             Inl e \<Rightarrow> Inl e
           | Inr conditional_contact_impact \<Rightarrow>
               Inr (symptom_isolation_success * symptomatic_rate *
                    symptomatic_ascertainment_rate * percentage_notified *
                    compliance_with_contact_isolation * conditional_contact_impact)))"

section \<open>model.py\<close>

text \<open>The result is a Python dict from metric names to floats.\<close>

type_synonym contributions = "string \<rightharpoonup> pyfloat"

definition TT_model_rum ::
  "pyfloat \<Rightarrow> pyfloat \<Rightarrow> pyfloat \<Rightarrow> pyfloat \<Rightarrow> pyfloat \<Rightarrow> pyfloat \<Rightarrow>
   dataframe \<Rightarrow> dataframe \<Rightarrow> dataframe \<Rightarrow> dataframe \<Rightarrow> error + contributions" where
  "TT_model_rum symptomatic_ascertainment_rate symptomatic_rate percentage_notified
     compliance_with_symptom_isolation_test compliance_with_symptom_isolation_no_test
     compliance_with_contact_isolation serial_interval secondary_symptoms_to_tertiary
     time_to_tertiary_infection total_time_to_contact =
     (let adherence_symptom_isolation =
            symptomatic_rate * symptomatic_ascertainment_rate *
              compliance_with_symptom_isolation_test +
            (1 - symptomatic_ascertainment_rate) * symptomatic_rate *
              compliance_with_symptom_isolation_no_test;
          adherence_symptom_isolation_impact =
            pd_sum (frequency (filter (\<lambda>row. 0 \<le> fst row) secondary_symptoms_to_tertiary));
          symptom_isolation_success =
            adherence_symptom_isolation_impact * adherence_symptom_isolation;
          primary_tested = symptomatic_rate * symptomatic_ascertainment_rate;
          proportion_contacts_reached = primary_tested * percentage_notified;
          proportion_contacts_reached_compliant =
            proportion_contacts_reached * compliance_with_contact_isolation
      in case get_contact_isolation_impact time_to_tertiary_infection total_time_to_contact of
           Inl e \<Rightarrow> Inl e
         | Inr adherence_contact_isolation_impact \<Rightarrow>
             (let proportion_transmission_pre_contact = 1 - adherence_contact_isolation_impact;
                  transmission_occuring_pre_symptom = 1 - adherence_symptom_isolation_impact;
                  contact_isolation_success =
                    proportion_contacts_reached_compliant * adherence_contact_isolation_impact
              in case get_symptom_and_contact_success symptom_isolation_success
                        symptomatic_rate symptomatic_ascertainment_rate
                        compliance_with_contact_isolation percentage_notified
                        secondary_symptoms_to_tertiary serial_interval total_time_to_contact of
                   Inl e \<Rightarrow> Inl e
                 | Inr symptom_and_contact_success \<Rightarrow>
                     (let overall_success =
                            symptom_isolation_success + contact_isolation_success -
                            symptom_and_contact_success;
                          marginal_impact = overall_success - symptom_isolation_success
                      in Inr [''primary_tested'' \<mapsto> primary_tested,
                              ''adherence_symptom_isolation'' \<mapsto> adherence_symptom_isolation,
                              ''adherence_symptom_isolation_impact'' \<mapsto>
                                adherence_symptom_isolation_impact,
                              ''symptom_isolation_success'' \<mapsto> symptom_isolation_success,
                              ''proportion_contacts_reached'' \<mapsto> proportion_contacts_reached,
                              ''proportion_contacts_reached_compliant'' \<mapsto>
                                proportion_contacts_reached_compliant,
                              ''adherence_contact_isolation_impact'' \<mapsto>
                                adherence_contact_isolation_impact,
                              ''contact_isolation_success'' \<mapsto> contact_isolation_success,
                              ''transmission_pre_contact'' \<mapsto>
                                proportion_transmission_pre_contact,
                              ''transmission_occuring_pre_symptom'' \<mapsto>
                                transmission_occuring_pre_symptom,
                              ''transmission_averted'' \<mapsto> overall_success,
                              ''marginal_impact'' \<mapsto> marginal_impact,
                              ''symptom_and_contact_success'' \<mapsto>
                                symptom_and_contact_success])))"

section \<open>The specification's quantities\<close>

text \<open>The total frequency mass of a PMF, \<open>\<Sum> frequency\<close>.\<close>

definition total_mass :: "dataframe \<Rightarrow> pyfloat" where
  "total_mass df = sum_list (frequency df)"

text \<open>
  The tail probability as the specification words it: the \<open>'same'\<close>-mode convolution of the
  frequencies of \<open>dist_a\<close> with the reversed frequencies of \<open>dist_b\<close>, summed over the
  positions whose delay is strictly greater than 0.
\<close>

definition tail_probability_positive_spec :: "dataframe \<Rightarrow> dataframe \<Rightarrow> pyfloat" where
  "tail_probability_positive_spec dist_a dist_b =
     (\<Sum>i\<leftarrow>[0..<length dist_a].
        if 0 < delay dist_a ! i
        then same_window (frequency dist_a) (rev (frequency dist_b)) ! i else 0)"

text \<open>The metric names of the Result Record, as the specification enumerates them.\<close>

definition result_record_names :: "string set" where
  "result_record_names =
     {''primary_tested'', ''adherence_symptom_isolation'',
      ''adherence_symptom_isolation_impact'', ''symptom_isolation_success'',
      ''proportion_contacts_reached'', ''proportion_contacts_reached_compliant'',
      ''adherence_contact_isolation_impact'', ''contact_isolation_success'',
      ''transmission_pre_contact'', ''transmission_occuring_pre_symptom'',
      ''transmission_averted'', ''marginal_impact'', ''symptom_and_contact_success''}"

definition metric_count :: "contributions \<Rightarrow> nat" where
  "metric_count r = card (dom r)"

section \<open>Auxiliary notions\<close>

text \<open>
  What follows is not code of the repository: these are the notions the statements and
  proofs below are written with. A frame is finite when none of its frequencies is NaN or
  an infinity, non-negative when its frequencies are finite and at least 0, and on the
  canonical axis when its delays are \<open>-B, \<dots>, B\<close> in this order.
\<close>

definition fin_frame :: "dataframe \<Rightarrow> bool" where
  "fin_frame df = list_all is_fin (frequency df)"

definition nonneg_frame :: "dataframe \<Rightarrow> bool" where
  "nonneg_frame df = list_all nonneg (frequency df)"

definition canonical_axis :: "dataframe \<Rightarrow> bool" where
  "canonical_axis df = (delay df = [- (int (length df) div 2) .. int (length df) div 2])"

text \<open>An entry of the result of a scenario evaluation; none if the evaluation raised.\<close>

definition metric :: "string \<Rightarrow> error + contributions \<Rightarrow> pyfloat option" where
  "metric name res = (case res of Inl e \<Rightarrow> None | Inr r \<Rightarrow> r name)"

text \<open>
  The real-valued reading of a finite frame: its frequencies, its frequencies after the
  hard-zeroing of the negative delays, and the sum of a frequency list over the positive
  delays.
\<close>

definition vals :: "dataframe \<Rightarrow> real list" where
  "vals df = map val (frequency df)"

definition zeroed :: "dataframe \<Rightarrow> real list" where
  "zeroed df = map (\<lambda>row. if fst row < 0 then 0 else val (snd row)) df"

definition tail_sum :: "int list \<Rightarrow> real list \<Rightarrow> real" where
  "tail_sum ds xs = sum_list (map snd (filter (\<lambda>row. 0 < fst row) (zip ds xs)))"

text \<open>
  The conditional contact impact of \<open>get_symptom_and_contact_success\<close> on non-negative
  frames, as a real number: 0 when the hard-zeroed mass is 0 (the NaN case of the code).
\<close>

definition conditional_impact :: "dataframe \<Rightarrow> dataframe \<Rightarrow> dataframe \<Rightarrow> real" where
  "conditional_impact s2t si ttc =
     (if sum_list (zeroed s2t) = 0 then 0
      else tail_sum (delay s2t)
             (same_window
                (same_window (map (\<lambda>x. x / sum_list (zeroed s2t)) (zeroed s2t)) (vals si))
                (rev (vals ttc))))"

section \<open>float64 rounding of the scalar arithmetic\<close>

text \<open>
  The exact arithmetic of \<open>pyfloat\<close> is an idealisation: on float64 every operation rounds
  its exact result to the nearest representable number, ties to the even significand.
  \<open>round64\<close> is that rounding for a significand of 53 bits, with the subnormal numbers
  (multiples of \<open>2 powi -1074\<close>); overflow to an infinity is not modelled, it needs a
  magnitude of \<open>2 powi 1024\<close>. The operations \<open>+\<close>, \<open>-\<close> and \<open>*\<close> of Python on two floats are
  the rounded exact operations.
\<close>

definition round_half_even :: "real \<Rightarrow> int" where
  "round_half_even y =
     (let f = \<lfloor>y\<rfloor>; d = y - of_int f
      in if d < 1 / 2 then f else if 1 / 2 < d then f + 1 else if even f then f else f + 1)"

definition round64 :: "real \<Rightarrow> real" where
  "round64 x =
     (if x = 0 then 0
      else let k = max (\<lfloor>log 2 \<bar>x\<bar>\<rfloor> - 52) (- 1074)
           in of_int (round_half_even (x / 2 powi k)) * 2 powi k)"

text \<open>The exponent of the unit in the last place of the float64 values around \<open>x\<close>.\<close>

definition ulp_exp :: "real \<Rightarrow> int" where
  "ulp_exp x = max (\<lfloor>log 2 \<bar>x\<bar>\<rfloor> - 52) (- 1074)"

definition f64_add :: "real \<Rightarrow> real \<Rightarrow> real" where
  "f64_add x y = round64 (x + y)"

definition f64_sub :: "real \<Rightarrow> real \<Rightarrow> real" where
  "f64_sub x y = round64 (x - y)"

definition f64_mul :: "real \<Rightarrow> real \<Rightarrow> real" where
  "f64_mul x y = round64 (x * y)"

text \<open>
  Lines 56 to 61 of \<open>TT_model_rum\<close> on float64: Python evaluates the products from left to
  right, then the sum.
\<close>

definition adherence_symptom_isolation_f64 :: "real \<Rightarrow> real \<Rightarrow> real \<Rightarrow> real \<Rightarrow> real" where
  "adherence_symptom_isolation_f64 symptomatic_ascertainment_rate symptomatic_rate
     compliance_with_symptom_isolation_test compliance_with_symptom_isolation_no_test =
     f64_add
       (f64_mul (f64_mul symptomatic_rate symptomatic_ascertainment_rate)
          compliance_with_symptom_isolation_test)
       (f64_mul (f64_mul (f64_sub 1 symptomatic_ascertainment_rate) symptomatic_rate)
          compliance_with_symptom_isolation_no_test)"

text \<open>
  Lines 70 to 89 of \<open>TT_model_rum\<close> on float64: \<open>contact_isolation_success\<close>, as a function
  of the four parameters it depends on and of \<open>adherence_contact_isolation_impact\<close>, the
  value \<open>get_contact_isolation_impact\<close> returned.
\<close>

definition contact_isolation_success_f64 :: "real \<Rightarrow> real \<Rightarrow> real \<Rightarrow> real \<Rightarrow> real \<Rightarrow> real" where
  "contact_isolation_success_f64 symptomatic_ascertainment_rate symptomatic_rate
     percentage_notified compliance_with_contact_isolation adherence_contact_isolation_impact =
     (let primary_tested = f64_mul symptomatic_rate symptomatic_ascertainment_rate;
          proportion_contacts_reached = f64_mul primary_tested percentage_notified;
          proportion_contacts_reached_compliant =
            f64_mul proportion_contacts_reached compliance_with_contact_isolation
      in f64_mul proportion_contacts_reached_compliant adherence_contact_isolation_impact)"

text \<open>
  The scalar steps of \<open>TT_model_rum\<close> (lines 56 to 111) and of
  \<open>get_symptom_and_contact_success\<close> (lines 356 to 361) on float64, up to
  \<open>transmission_averted\<close>. The three quantities that come out of the distributions (through
  NumPy and pandas reductions, whose order of summation the source does not fix) are
  arguments: \<open>adherence_symptom_isolation_impact\<close>, \<open>adherence_contact_isolation_impact\<close> and
  the conditional contact impact.
\<close>

definition transmission_averted_f64 ::
  "real \<Rightarrow> real \<Rightarrow> real \<Rightarrow> real \<Rightarrow> real \<Rightarrow> real \<Rightarrow> real \<Rightarrow> real \<Rightarrow> real \<Rightarrow> real" where
  "transmission_averted_f64 symptomatic_ascertainment_rate symptomatic_rate percentage_notified
     compliance_with_symptom_isolation_test compliance_with_symptom_isolation_no_test
     compliance_with_contact_isolation adherence_symptom_isolation_impact
     adherence_contact_isolation_impact conditional_contact_impact =
     (let adherence_symptom_isolation =
            adherence_symptom_isolation_f64 symptomatic_ascertainment_rate symptomatic_rate
              compliance_with_symptom_isolation_test compliance_with_symptom_isolation_no_test;
          symptom_isolation_success =
            f64_mul adherence_symptom_isolation_impact adherence_symptom_isolation;
          primary_tested = f64_mul symptomatic_rate symptomatic_ascertainment_rate;
          proportion_contacts_reached = f64_mul primary_tested percentage_notified;
          proportion_contacts_reached_compliant =
            f64_mul proportion_contacts_reached compliance_with_contact_isolation;
          contact_isolation_success =
            f64_mul proportion_contacts_reached_compliant adherence_contact_isolation_impact;
          symptom_and_contact_success =
            f64_mul
              (f64_mul
                 (f64_mul
                    (f64_mul (f64_mul symptom_isolation_success symptomatic_rate)
                       symptomatic_ascertainment_rate)
                    percentage_notified)
                 compliance_with_contact_isolation)
              conditional_contact_impact
      in f64_sub (f64_add symptom_isolation_success contact_isolation_success)
           symptom_and_contact_success)"

text \<open>
  The expression of the specification,
  \<open>symptomatic_rate * (ascertainment * compl_test + (1 - ascertainment) * compl_no_test)\<close>,
  evaluated on float64.
\<close>

definition adherence_formula_f64 :: "real \<Rightarrow> real \<Rightarrow> real \<Rightarrow> real \<Rightarrow> real" where
  "adherence_formula_f64 symptomatic_ascertainment_rate symptomatic_rate
     compliance_with_symptom_isolation_test compliance_with_symptom_isolation_no_test =
     f64_mul symptomatic_rate
       (f64_add
          (f64_mul symptomatic_ascertainment_rate compliance_with_symptom_isolation_test)
          (f64_mul (f64_sub 1 symptomatic_ascertainment_rate)
             compliance_with_symptom_isolation_no_test))"

section \<open>Floats: finite values and NaN\<close>

lemma is_fin_simps [simp]:
  "is_fin (Fin r)" "\<not> is_fin NaN" "\<not> is_fin PInf" "\<not> is_fin NInf"
  by (simp_all add: is_fin_def)

lemma is_nan_simps [simp]:
  "\<not> is_nan (Fin r)" "is_nan NaN" "\<not> is_nan PInf" "\<not> is_nan NInf"
  by (simp_all add: is_nan_def)

lemma val_Fin [simp]: "val (Fin r) = r"
  by (simp add: val_def)

lemma is_fin_val: "is_fin x \<Longrightarrow> Fin (val x) = x"
  by (cases x) simp_all

lemma all_fin_map_val: "\<forall>x\<in>set xs. is_fin x \<Longrightarrow> map Fin (map val xs) = xs"
  by (induction xs) (simp_all add: is_fin_val)

lemma sum_list_Fin: "sum_list (map Fin xs) = Fin (sum_list xs)"
  by (induction xs) (simp_all add: zero_pyfloat_def)

lemma pd_sum_Fin: "pd_sum (map Fin xs) = Fin (sum_list xs)"
proof -
  have "filter (\<lambda>x. \<not> is_nan x) (map Fin xs) = map Fin xs"
    by (induction xs) simp_all
  then show ?thesis by (simp add: pd_sum_def sum_list_Fin)
qed

lemma padd_Fin: "padd (map Fin xs) (map Fin ys) = map Fin (padd xs ys)"
  by (induction xs ys rule: padd.induct) simp_all

lemma conv_full_Fin: "conv_full (map Fin a) (map Fin v) = map Fin (conv_full a v)"
proof (induction a)
  case Nil
  then show ?case by simp
next
  case (Cons x xs)
  have 1: "map (\<lambda>y. Fin x * y) (map Fin v) = map Fin (map (\<lambda>y. x * y) v)"
    by simp
  have 2: "0 # map Fin (conv_full xs v) = map Fin (0 # conv_full xs v)"
    by (simp add: zero_pyfloat_def)
  have "conv_full (map Fin (x # xs)) (map Fin v) =
        padd (map (\<lambda>y. Fin x * y) (map Fin v)) (0 # conv_full (map Fin xs) (map Fin v))"
    by simp
  also have "\<dots> = padd (map Fin (map (\<lambda>y. x * y) v)) (map Fin (0 # conv_full xs v))"
    unfolding Cons.IH 1 2 ..
  also have "\<dots> = map Fin (conv_full (x # xs) v)"
    by (simp only: padd_Fin conv_full.simps)
  finally show ?case .
qed

lemma same_window_Fin: "same_window (map Fin a) (map Fin v) = map Fin (same_window a v)"
  by (simp add: same_window_def conv_full_Fin take_map drop_map)

text \<open>NaN poisons a convolution.\<close>

lemma padd_all_nan:
  "\<forall>x\<in>set xs. x = NaN \<Longrightarrow> \<forall>y\<in>set (drop (length xs) ys). y = NaN \<Longrightarrow>
   \<forall>z\<in>set (padd xs ys). z = (NaN::pyfloat)"
  by (induction xs ys rule: padd.induct) auto

lemma conv_full_all_nan:
  "\<forall>x\<in>set a. x = NaN \<Longrightarrow> v \<noteq> [] \<Longrightarrow> \<forall>z\<in>set (conv_full a v). z = (NaN::pyfloat)"
proof (induction a)
  case Nil
  then show ?case by simp
next
  case (Cons x xs)
  then have x: "x = NaN" and xs: "\<forall>z\<in>set (conv_full xs v). z = NaN"
    by auto
  have 1: "\<forall>y\<in>set (map (\<lambda>y. x * y) v). y = NaN"
    using x by simp
  have "set (drop (length v) (0 # conv_full xs v)) \<subseteq> set (conv_full xs v)"
    using Cons.prems(2) by (cases v) (auto dest: in_set_dropD)
  then have 2: "\<forall>y\<in>set (drop (length (map (\<lambda>y. x * y) v)) (0 # conv_full xs v)). y = NaN"
    using xs by auto
  show ?case
    unfolding conv_full.simps by (rule padd_all_nan [OF 1 2])
qed

lemma same_window_all_nan:
  "\<forall>x\<in>set a. x = NaN \<Longrightarrow> v \<noteq> [] \<Longrightarrow> \<forall>z\<in>set (same_window a v). z = (NaN::pyfloat)"
  using conv_full_all_nan [of a v]
  by (auto simp: same_window_def dest!: in_set_takeD in_set_dropD)

lemma pd_sum_all_nan: "\<forall>x\<in>set xs. x = NaN \<Longrightarrow> pd_sum xs = Fin 0"
proof -
  assume "\<forall>x\<in>set xs. x = NaN"
  then have "filter (\<lambda>x. \<not> is_nan x) xs = []"
    by (induction xs) simp_all
  then show ?thesis by (simp add: pd_sum_def zero_pyfloat_def)
qed


section \<open>When the functions return\<close>

lemma length_padd: "length (padd xs ys) = max (length xs) (length ys)"
  by (induction xs ys rule: padd.induct) auto

lemma length_conv_full:
  "v \<noteq> [] \<Longrightarrow> length (conv_full a v) = (if a = [] then 0 else length a + length v - 1)"
  by (induction a) (cases v; auto simp: length_padd)+

lemma length_same_window:
  "v \<noteq> [] \<Longrightarrow> length v \<le> length a \<Longrightarrow> length (same_window a v) = length a"
proof (cases "a = []")
  case True
  then show ?thesis by (simp add: same_window_def)
next
  case False
  assume v: "v \<noteq> []" and le: "length v \<le> length a"
  from v have "0 < length v" by simp
  then have "(length v - 1) div 2 \<le> length v - 1" by simp
  then have "length a \<le> length a + length v - 1 - (length v - 1) div 2"
    using \<open>0 < length v\<close> by linarith
  then show ?thesis
    using False v by (simp add: same_window_def length_conv_full)
qed

lemma np_convolve_same_Inr:
  "a \<noteq> [] \<Longrightarrow> v \<noteq> [] \<Longrightarrow> length v \<le> length a \<Longrightarrow>
   np_convolve_same a v = Inr (same_window a v)"
  by (simp add: np_convolve_same_def)

lemma get_time_to_tertiary_infection_Inr:
  assumes "b \<noteq> []" "length b \<le> length a"
  shows "get_time_to_tertiary_infection a b =
         Inr (zip (delay a) (same_window (frequency a) (frequency b)))"
proof -
  have "a \<noteq> []" using assms by auto
  then show ?thesis
    using assms
    by (simp add: get_time_to_tertiary_infection_def np_convolve_same_Inr DataFrame_def
        length_same_window frequency_def delay_def)
qed

lemma get_contact_isolation_impact_Inr:
  assumes "b \<noteq> []" "length b \<le> length a"
  shows "get_contact_isolation_impact a b =
         Inr (pd_sum (frequency (filter (\<lambda>row. 0 < fst row)
                (zip (delay a) (same_window (frequency a) (rev (frequency b)))))))"
proof -
  have "a \<noteq> []" using assms by auto
  then show ?thesis
    using assms
    by (simp add: get_contact_isolation_impact_def np_convolve_same_Inr DataFrame_def
        length_same_window frequency_def delay_def)
qed

lemma TT_model_rum_InrD:
  assumes "TT_model_rum asr sr pn ct cnt c si s2t ttti ttc = Inr r"
  shows "\<exists>aci sacs.
    get_contact_isolation_impact ttti ttc = Inr aci \<and>
    get_symptom_and_contact_success
       (pd_sum (frequency (filter (\<lambda>row. 0 \<le> fst row) s2t)) *
          (sr * asr * ct + (1 - asr) * sr * cnt))
       sr asr c pn s2t si ttc = Inr sacs \<and>
    r = [''primary_tested'' \<mapsto> sr * asr,
         ''adherence_symptom_isolation'' \<mapsto> sr * asr * ct + (1 - asr) * sr * cnt,
         ''adherence_symptom_isolation_impact'' \<mapsto>
           pd_sum (frequency (filter (\<lambda>row. 0 \<le> fst row) s2t)),
         ''symptom_isolation_success'' \<mapsto>
           pd_sum (frequency (filter (\<lambda>row. 0 \<le> fst row) s2t)) *
             (sr * asr * ct + (1 - asr) * sr * cnt),
         ''proportion_contacts_reached'' \<mapsto> sr * asr * pn,
         ''proportion_contacts_reached_compliant'' \<mapsto> sr * asr * pn * c,
         ''adherence_contact_isolation_impact'' \<mapsto> aci,
         ''contact_isolation_success'' \<mapsto> sr * asr * pn * c * aci,
         ''transmission_pre_contact'' \<mapsto> 1 - aci,
         ''transmission_occuring_pre_symptom'' \<mapsto>
           1 - pd_sum (frequency (filter (\<lambda>row. 0 \<le> fst row) s2t)),
         ''transmission_averted'' \<mapsto>
           pd_sum (frequency (filter (\<lambda>row. 0 \<le> fst row) s2t)) *
             (sr * asr * ct + (1 - asr) * sr * cnt) + sr * asr * pn * c * aci - sacs,
         ''marginal_impact'' \<mapsto>
           pd_sum (frequency (filter (\<lambda>row. 0 \<le> fst row) s2t)) *
             (sr * asr * ct + (1 - asr) * sr * cnt) + sr * asr * pn * c * aci - sacs -
           pd_sum (frequency (filter (\<lambda>row. 0 \<le> fst row) s2t)) *
             (sr * asr * ct + (1 - asr) * sr * cnt),
         ''symptom_and_contact_success'' \<mapsto> sacs]"
  using assms
  unfolding TT_model_rum_def Let_def
  by (simp split: sum.splits)


lemma TT_model_rum_InrE:
  assumes "TT_model_rum asr sr pn ct cnt c si s2t ttti ttc = Inr r"
  obtains aci sacs where
    "get_contact_isolation_impact ttti ttc = Inr aci"
    "get_symptom_and_contact_success
       (pd_sum (frequency (filter (\<lambda>row. 0 \<le> fst row) s2t)) *
          (sr * asr * ct + (1 - asr) * sr * cnt))
       sr asr c pn s2t si ttc = Inr sacs"
    "r ''primary_tested'' = Some (sr * asr)"
    "r ''adherence_symptom_isolation'' = Some (sr * asr * ct + (1 - asr) * sr * cnt)"
    "r ''adherence_symptom_isolation_impact'' =
       Some (pd_sum (frequency (filter (\<lambda>row. 0 \<le> fst row) s2t)))"
    "r ''symptom_isolation_success'' =
       Some (pd_sum (frequency (filter (\<lambda>row. 0 \<le> fst row) s2t)) *
             (sr * asr * ct + (1 - asr) * sr * cnt))"
    "r ''proportion_contacts_reached'' = Some (sr * asr * pn)"
    "r ''proportion_contacts_reached_compliant'' = Some (sr * asr * pn * c)"
    "r ''adherence_contact_isolation_impact'' = Some aci"
    "r ''contact_isolation_success'' = Some (sr * asr * pn * c * aci)"
    "r ''transmission_pre_contact'' = Some (1 - aci)"
    "r ''transmission_occuring_pre_symptom'' =
       Some (1 - pd_sum (frequency (filter (\<lambda>row. 0 \<le> fst row) s2t)))"
    "r ''transmission_averted'' =
       Some (pd_sum (frequency (filter (\<lambda>row. 0 \<le> fst row) s2t)) *
             (sr * asr * ct + (1 - asr) * sr * cnt) + sr * asr * pn * c * aci - sacs)"
    "r ''marginal_impact'' =
       Some (pd_sum (frequency (filter (\<lambda>row. 0 \<le> fst row) s2t)) *
             (sr * asr * ct + (1 - asr) * sr * cnt) + sr * asr * pn * c * aci - sacs -
             pd_sum (frequency (filter (\<lambda>row. 0 \<le> fst row) s2t)) *
             (sr * asr * ct + (1 - asr) * sr * cnt))"
    "r ''symptom_and_contact_success'' = Some sacs"
proof -
  from TT_model_rum_InrD [OF assms] obtain aci sacs where
    1: "get_contact_isolation_impact ttti ttc = Inr aci"
    and 2: "get_symptom_and_contact_success
       (pd_sum (frequency (filter (\<lambda>row. 0 \<le> fst row) s2t)) *
          (sr * asr * ct + (1 - asr) * sr * cnt))
       sr asr c pn s2t si ttc = Inr sacs"
    and r: "r = [''primary_tested'' \<mapsto> sr * asr,
         ''adherence_symptom_isolation'' \<mapsto> sr * asr * ct + (1 - asr) * sr * cnt,
         ''adherence_symptom_isolation_impact'' \<mapsto>
           pd_sum (frequency (filter (\<lambda>row. 0 \<le> fst row) s2t)),
         ''symptom_isolation_success'' \<mapsto>
           pd_sum (frequency (filter (\<lambda>row. 0 \<le> fst row) s2t)) *
             (sr * asr * ct + (1 - asr) * sr * cnt),
         ''proportion_contacts_reached'' \<mapsto> sr * asr * pn,
         ''proportion_contacts_reached_compliant'' \<mapsto> sr * asr * pn * c,
         ''adherence_contact_isolation_impact'' \<mapsto> aci,
         ''contact_isolation_success'' \<mapsto> sr * asr * pn * c * aci,
         ''transmission_pre_contact'' \<mapsto> 1 - aci,
         ''transmission_occuring_pre_symptom'' \<mapsto>
           1 - pd_sum (frequency (filter (\<lambda>row. 0 \<le> fst row) s2t)),
         ''transmission_averted'' \<mapsto>
           pd_sum (frequency (filter (\<lambda>row. 0 \<le> fst row) s2t)) *
             (sr * asr * ct + (1 - asr) * sr * cnt) + sr * asr * pn * c * aci - sacs,
         ''marginal_impact'' \<mapsto>
           pd_sum (frequency (filter (\<lambda>row. 0 \<le> fst row) s2t)) *
             (sr * asr * ct + (1 - asr) * sr * cnt) + sr * asr * pn * c * aci - sacs -
           pd_sum (frequency (filter (\<lambda>row. 0 \<le> fst row) s2t)) *
             (sr * asr * ct + (1 - asr) * sr * cnt),
         ''symptom_and_contact_success'' \<mapsto> sacs]"
    by blast
  show thesis
    by (rule that [OF 1 2]) (simp_all add: r)
qed

lemma get_symptom_and_contact_success_Inr:
  assumes "s2t \<noteq> []" "length si = length s2t" "length ttc = length s2t"
  shows "\<exists>t cci.
    get_time_to_tertiary_infection (renormalise (zero_negative_delays s2t)) si = Inr t \<and>
    get_contact_isolation_impact t ttc = Inr cci \<and>
    get_symptom_and_contact_success sis sr asr c pn s2t si ttc =
      Inr (sis * sr * asr * pn * c * cci)"
proof -
  let ?n = "renormalise (zero_negative_delays s2t)"
  have len: "length ?n = length s2t"
    by (simp add: renormalise_def zero_negative_delays_def)
  have si: "si \<noteq> []" "length si \<le> length ?n"
    using assms len by auto
  let ?t = "zip (delay ?n) (same_window (frequency ?n) (frequency si))"
  have t: "get_time_to_tertiary_infection ?n si = Inr ?t"
    by (rule get_time_to_tertiary_infection_Inr [OF si])
  have "length ?t = length s2t"
    using si len by (simp add: delay_def frequency_def length_same_window)
  then have ttc: "ttc \<noteq> []" "length ttc \<le> length ?t"
    using assms by auto
  show ?thesis
    using t get_contact_isolation_impact_Inr [OF ttc]
    by (simp add: get_symptom_and_contact_success_def)
qed

lemma TT_model_rum_returns:
  assumes "s2t \<noteq> []" "length si = length s2t" "length ttc = length s2t"
    "length ttti = length s2t"
  shows "\<exists>r. TT_model_rum asr sr pn ct cnt c si s2t ttti ttc = Inr r"
proof -
  have "ttc \<noteq> []" "length ttc \<le> length ttti"
    using assms by auto
  from get_contact_isolation_impact_Inr [OF this]
  obtain aci where 1: "get_contact_isolation_impact ttti ttc = Inr aci"
    by blast
  from get_symptom_and_contact_success_Inr [OF assms(1-3)]
  obtain sacs where 2: "get_symptom_and_contact_success
       (pd_sum (frequency (filter (\<lambda>row. 0 \<le> fst row) s2t)) *
          (sr * asr * ct + (1 - asr) * sr * cnt))
       sr asr c pn s2t si ttc = Inr sacs"
    by blast
  show ?thesis
    unfolding TT_model_rum_def Let_def by (simp add: 1 2)
qed

section \<open>The result record\<close>

text \<open>
  C1. Whatever the six scenario parameters and the four distributions are, the record that
  \<open>TT_model_rum\<close> returns has \<open>transmission_averted\<close> equal to its own
  \<open>symptom_isolation_success + contact_isolation_success - symptom_and_contact_success\<close>,
  and \<open>marginal_impact\<close> equal to its own
  \<open>transmission_averted - symptom_isolation_success\<close>.
\<close>

theorem transmission_averted_inclusion_exclusion:
  assumes "TT_model_rum symptomatic_ascertainment_rate symptomatic_rate percentage_notified
             compliance_with_symptom_isolation_test compliance_with_symptom_isolation_no_test
             compliance_with_contact_isolation serial_interval secondary_symptoms_to_tertiary
             time_to_tertiary_infection total_time_to_contact = Inr r"
  shows "\<exists>sis cis sacs ta.
           r ''symptom_isolation_success'' = Some sis \<and>
           r ''contact_isolation_success'' = Some cis \<and>
           r ''symptom_and_contact_success'' = Some sacs \<and>
           r ''transmission_averted'' = Some ta \<and>
           ta = sis + cis - sacs \<and>
           r ''marginal_impact'' = Some (ta - sis)"
  using assms by (rule TT_model_rum_InrE) simp

theorem transmission_averted_inclusion_exclusion_witness:
  "\<exists>r. TT_model_rum (Fin (1/2)) (Fin (7/10)) (Fin (3/5)) (Fin (9/10)) (Fin (3/10)) (Fin (4/5))
          [(- 1, Fin 0), (0, Fin (1/2)), (1, Fin (1/2))]
          [(- 1, Fin (1/4)), (0, Fin (1/2)), (1, Fin (1/4))]
          [(- 1, Fin (1/8)), (0, Fin (3/8)), (1, Fin (3/8))]
          [(- 1, Fin 0), (0, Fin 1), (1, Fin 0)] = Inr r \<and>
        (\<exists>sis cis sacs ta.
           r ''symptom_isolation_success'' = Some sis \<and>
           r ''contact_isolation_success'' = Some cis \<and>
           r ''symptom_and_contact_success'' = Some sacs \<and>
           r ''transmission_averted'' = Some ta \<and>
           ta = sis + cis - sacs \<and>
           r ''marginal_impact'' = Some (ta - sis))"
proof -
  obtain r where r: "TT_model_rum (Fin (1/2)) (Fin (7/10)) (Fin (3/5)) (Fin (9/10))
          (Fin (3/10)) (Fin (4/5))
          [(- 1, Fin 0), (0, Fin (1/2)), (1, Fin (1/2))]
          [(- 1, Fin (1/4)), (0, Fin (1/2)), (1, Fin (1/4))]
          [(- 1, Fin (1/8)), (0, Fin (3/8)), (1, Fin (3/8))]
          [(- 1, Fin 0), (0, Fin 1), (1, Fin 0)] = Inr r"
    using TT_model_rum_returns [of "[(- 1, Fin (1/4)), (0, Fin (1/2)), (1, Fin (1/4))]"]
    by force
  show ?thesis
    using r transmission_averted_inclusion_exclusion [OF r] by blast
qed

lemma card_result_record_names: "card result_record_names = 13"
proof -
  have "result_record_names = set [''primary_tested'', ''adherence_symptom_isolation'',
      ''adherence_symptom_isolation_impact'', ''symptom_isolation_success'',
      ''proportion_contacts_reached'', ''proportion_contacts_reached_compliant'',
      ''adherence_contact_isolation_impact'', ''contact_isolation_success'',
      ''transmission_pre_contact'', ''transmission_occuring_pre_symptom'',
      ''transmission_averted'', ''marginal_impact'', ''symptom_and_contact_success'']"
    unfolding result_record_names_def by (simp only: list.set)
  moreover have d: "distinct [''primary_tested'', ''adherence_symptom_isolation'',
      ''adherence_symptom_isolation_impact'', ''symptom_isolation_success'',
      ''proportion_contacts_reached'', ''proportion_contacts_reached_compliant'',
      ''adherence_contact_isolation_impact'', ''contact_isolation_success'',
      ''transmission_pre_contact'', ''transmission_occuring_pre_symptom'',
      ''transmission_averted'', ''marginal_impact'', ''symptom_and_contact_success'']"
    by simp
  ultimately show ?thesis
    using distinct_card [OF d] by (simp del: distinct.simps list.set)
qed

lemma TT_model_rum_dom:
  assumes "TT_model_rum asr sr pn ct cnt c si s2t ttti ttc = Inr r"
  shows "dom r = result_record_names"
proof -
  from TT_model_rum_InrD [OF assms] obtain aci sacs where
    "r = [''primary_tested'' \<mapsto> sr * asr,
         ''adherence_symptom_isolation'' \<mapsto> sr * asr * ct + (1 - asr) * sr * cnt,
         ''adherence_symptom_isolation_impact'' \<mapsto>
           pd_sum (frequency (filter (\<lambda>row. 0 \<le> fst row) s2t)),
         ''symptom_isolation_success'' \<mapsto>
           pd_sum (frequency (filter (\<lambda>row. 0 \<le> fst row) s2t)) *
             (sr * asr * ct + (1 - asr) * sr * cnt),
         ''proportion_contacts_reached'' \<mapsto> sr * asr * pn,
         ''proportion_contacts_reached_compliant'' \<mapsto> sr * asr * pn * c,
         ''adherence_contact_isolation_impact'' \<mapsto> aci,
         ''contact_isolation_success'' \<mapsto> sr * asr * pn * c * aci,
         ''transmission_pre_contact'' \<mapsto> 1 - aci,
         ''transmission_occuring_pre_symptom'' \<mapsto>
           1 - pd_sum (frequency (filter (\<lambda>row. 0 \<le> fst row) s2t)),
         ''transmission_averted'' \<mapsto>
           pd_sum (frequency (filter (\<lambda>row. 0 \<le> fst row) s2t)) *
             (sr * asr * ct + (1 - asr) * sr * cnt) + sr * asr * pn * c * aci - sacs,
         ''marginal_impact'' \<mapsto>
           pd_sum (frequency (filter (\<lambda>row. 0 \<le> fst row) s2t)) *
             (sr * asr * ct + (1 - asr) * sr * cnt) + sr * asr * pn * c * aci - sacs -
           pd_sum (frequency (filter (\<lambda>row. 0 \<le> fst row) s2t)) *
             (sr * asr * ct + (1 - asr) * sr * cnt),
         ''symptom_and_contact_success'' \<mapsto> sacs]"
    by blast
  then have "dom r = {''symptom_and_contact_success'', ''marginal_impact'',
              ''transmission_averted'', ''transmission_occuring_pre_symptom'',
              ''transmission_pre_contact'', ''contact_isolation_success'',
              ''adherence_contact_isolation_impact'',
              ''proportion_contacts_reached_compliant'',
              ''proportion_contacts_reached'', ''symptom_isolation_success'',
              ''adherence_symptom_isolation_impact'',
              ''adherence_symptom_isolation'', ''primary_tested''}"
    by (simp only: dom_fun_upd dom_empty option.simps if_False)
  also have "\<dots> = result_record_names"
    unfolding result_record_names_def
    by (simp only: insert_commute insert_absorb2)
  finally show ?thesis .
qed

text \<open>
  C8 (as amended). The record that \<open>TT_model_rum\<close> returns has exactly the metric names the
  specification enumerates for the Result Record as its keys; they are 13, not 12.
\<close>

theorem result_record_has_thirteen_metrics:
  assumes "TT_model_rum symptomatic_ascertainment_rate symptomatic_rate percentage_notified
             compliance_with_symptom_isolation_test compliance_with_symptom_isolation_no_test
             compliance_with_contact_isolation serial_interval secondary_symptoms_to_tertiary
             time_to_tertiary_infection total_time_to_contact = Inr r"
  shows "dom r = result_record_names \<and> metric_count r = 13"
  using TT_model_rum_dom [OF assms] card_result_record_names
  by (simp add: metric_count_def)

theorem result_record_has_thirteen_metrics_witness:
  "\<exists>r. TT_model_rum (Fin (1/2)) (Fin (7/10)) (Fin (3/5)) (Fin (9/10)) (Fin (3/10)) (Fin (4/5))
          [(- 1, Fin 0), (0, Fin (1/2)), (1, Fin (1/2))]
          [(- 1, Fin (1/4)), (0, Fin (1/2)), (1, Fin (1/4))]
          [(- 1, Fin (1/8)), (0, Fin (3/8)), (1, Fin (3/8))]
          [(- 1, Fin 0), (0, Fin 1), (1, Fin 0)] = Inr r \<and>
        dom r = result_record_names \<and> metric_count r = 13"
proof -
  obtain r where r: "TT_model_rum (Fin (1/2)) (Fin (7/10)) (Fin (3/5)) (Fin (9/10))
          (Fin (3/10)) (Fin (4/5))
          [(- 1, Fin 0), (0, Fin (1/2)), (1, Fin (1/2))]
          [(- 1, Fin (1/4)), (0, Fin (1/2)), (1, Fin (1/4))]
          [(- 1, Fin (1/8)), (0, Fin (3/8)), (1, Fin (3/8))]
          [(- 1, Fin 0), (0, Fin 1), (1, Fin 0)] = Inr r"
    using TT_model_rum_returns [of "[(- 1, Fin (1/4)), (0, Fin (1/2)), (1, Fin (1/4))]"]
    by force
  show ?thesis
    using r result_record_has_thirteen_metrics [OF r] by blast
qed

text \<open>
  C8 as the specification states it does not hold: on a concrete scenario the record has
  13 entries.
\<close>

theorem result_record_not_twelve_metrics:
  "map_sum id metric_count
     (TT_model_rum (Fin (1/2)) (Fin (7/10)) (Fin (3/5)) (Fin (9/10)) (Fin (3/10)) (Fin (4/5))
        [(- 1, Fin 0), (0, Fin (1/2)), (1, Fin (1/2))]
        [(- 1, Fin (1/4)), (0, Fin (1/2)), (1, Fin (1/4))]
        [(- 1, Fin (1/8)), (0, Fin (3/8)), (1, Fin (3/8))]
        [(- 1, Fin 0), (0, Fin 1), (1, Fin 0)]) = Inr 13 \<and>
   map_sum id metric_count
     (TT_model_rum (Fin (1/2)) (Fin (7/10)) (Fin (3/5)) (Fin (9/10)) (Fin (3/10)) (Fin (4/5))
        [(- 1, Fin 0), (0, Fin (1/2)), (1, Fin (1/2))]
        [(- 1, Fin (1/4)), (0, Fin (1/2)), (1, Fin (1/4))]
        [(- 1, Fin (1/8)), (0, Fin (3/8)), (1, Fin (3/8))]
        [(- 1, Fin 0), (0, Fin 1), (1, Fin 0)]) \<noteq> Inr 12"
proof -
  obtain r where r: "TT_model_rum (Fin (1/2)) (Fin (7/10)) (Fin (3/5)) (Fin (9/10))
          (Fin (3/10)) (Fin (4/5))
          [(- 1, Fin 0), (0, Fin (1/2)), (1, Fin (1/2))]
          [(- 1, Fin (1/4)), (0, Fin (1/2)), (1, Fin (1/4))]
          [(- 1, Fin (1/8)), (0, Fin (3/8)), (1, Fin (3/8))]
          [(- 1, Fin 0), (0, Fin 1), (1, Fin 0)] = Inr r"
    using TT_model_rum_returns [of "[(- 1, Fin (1/4)), (0, Fin (1/2)), (1, Fin (1/4))]"]
    by force
  have "metric_count r = 13"
    using TT_model_rum_dom [OF r] card_result_record_names by (simp add: metric_count_def)
  then show ?thesis
    by (simp add: r)
qed

text \<open>
  C10. In the record that \<open>TT_model_rum\<close> returns, \<open>transmission_pre_contact\<close> is 1 minus the
  record's \<open>adherence_contact_isolation_impact\<close>, and \<open>transmission_occuring_pre_symptom\<close> is
  1 minus the record's \<open>adherence_symptom_isolation_impact\<close>.
\<close>

theorem complement_identities:
  assumes "TT_model_rum symptomatic_ascertainment_rate symptomatic_rate percentage_notified
             compliance_with_symptom_isolation_test compliance_with_symptom_isolation_no_test
             compliance_with_contact_isolation serial_interval secondary_symptoms_to_tertiary
             time_to_tertiary_infection total_time_to_contact = Inr r"
  shows "\<exists>aci asi.
           r ''adherence_contact_isolation_impact'' = Some aci \<and>
           r ''transmission_pre_contact'' = Some (1 - aci) \<and>
           r ''adherence_symptom_isolation_impact'' = Some asi \<and>
           r ''transmission_occuring_pre_symptom'' = Some (1 - asi)"
  using assms by (rule TT_model_rum_InrE) simp

theorem complement_identities_witness:
  "\<exists>r. TT_model_rum (Fin (1/2)) (Fin (7/10)) (Fin (3/5)) (Fin (9/10)) (Fin (3/10)) (Fin (4/5))
          [(- 1, Fin 0), (0, Fin (1/2)), (1, Fin (1/2))]
          [(- 1, Fin (1/4)), (0, Fin (1/2)), (1, Fin (1/4))]
          [(- 1, Fin (1/8)), (0, Fin (3/8)), (1, Fin (3/8))]
          [(- 1, Fin 0), (0, Fin 1), (1, Fin 0)] = Inr r \<and>
        (\<exists>aci asi.
           r ''adherence_contact_isolation_impact'' = Some aci \<and>
           r ''transmission_pre_contact'' = Some (1 - aci) \<and>
           r ''adherence_symptom_isolation_impact'' = Some asi \<and>
           r ''transmission_occuring_pre_symptom'' = Some (1 - asi))"
proof -
  obtain r where r: "TT_model_rum (Fin (1/2)) (Fin (7/10)) (Fin (3/5)) (Fin (9/10))
          (Fin (3/10)) (Fin (4/5))
          [(- 1, Fin 0), (0, Fin (1/2)), (1, Fin (1/2))]
          [(- 1, Fin (1/4)), (0, Fin (1/2)), (1, Fin (1/4))]
          [(- 1, Fin (1/8)), (0, Fin (3/8)), (1, Fin (3/8))]
          [(- 1, Fin 0), (0, Fin 1), (1, Fin 0)] = Inr r"
    using TT_model_rum_returns [of "[(- 1, Fin (1/4)), (0, Fin (1/2)), (1, Fin (1/4))]"]
    by force
  show ?thesis
    using r complement_identities [OF r] by blast
qed

section \<open>Evaluating the float64 arithmetic\<close>

lemma round64_eqI:
  assumes "2 powi e \<le> \<bar>x\<bar>" "\<bar>x\<bar> < 2 powi (e + 1)"
    and "u = 2 powi (max (e - 52) (- 1074))"
    and "x = y * u" "round_half_even y = n" "r = of_int n * u"
  shows "round64 x = r"
proof -
  have u: "0 < u"
    unfolding assms(3) by simp
  have "(0::real) < 2 powi e"
    by simp
  then have pos: "0 < \<bar>x\<bar>"
    using assms(1) by linarith
  have "(2::real) powr real_of_int e = 2 powi e"
    and "(2::real) powr (real_of_int e + 1) = 2 powi (e + 1)"
    using powr_real_of_int' [of "2::real" e] powr_real_of_int' [of "2::real" "e + 1"]
    by simp_all
  then have "2 powr real_of_int e \<le> \<bar>x\<bar>" "\<bar>x\<bar> < 2 powr (real_of_int e + 1)"
    using assms(1,2) by simp_all
  then have "\<lfloor>log 2 \<bar>x\<bar>\<rfloor> = e"
    using pos by (simp add: floor_log_eq_powr_iff)
  moreover have "x / u = y"
    using u assms(4) by simp
  ultimately show ?thesis
    using pos assms(3,5,6) by (simp add: round64_def)
qed

lemma round64_0: "round64 0 = 0"
  by (simp add: round64_def)

text \<open>The roundings met on the two float64 evaluations below.\<close>

lemma round64_at_1:
  "round64 (12980742146337070512478121581609 / 1298074214633706907132624082305024) =
   1441151880758559 / 144115188075855872"
  by (rule round64_eqI [where e = "-7" and u = "1 / 576460752303423488"
        and y = "12980742146337070512478121581609 / 2251799813685248" and n = "5764607523034236"])
    (simp_all add: round_half_even_def power_int_minus Let_def)

lemma round64_at_2:
  "round64 (5192296858534828925567189011923 / 2596148429267413814265248164610048) =
   4611686018427389 / 2305843009213693952"
  by (rule round64_eqI [where e = "-9" and u = "1 / 2305843009213693952"
        and y = "5192296858534828925567189011923 / 1125899906842624" and n = "4611686018427389"])
    (simp_all add: round_half_even_def power_int_minus Let_def)

lemma round64_at_3:
  "round64 (32425917317067571 / 36028797018963968) =
   8106479329266893 / 9007199254740992"
  by (rule round64_eqI [where e = "-1" and u = "1 / 9007199254740992"
        and y = "32425917317067571 / 4" and n = "8106479329266893"])
    (simp_all add: round_half_even_def power_int_minus Let_def)

lemma round64_at_4:
  "round64 (29206669829258407752355848084521 / 324518553658426726783156020576256) =
   6485183463413515 / 72057594037927936"
  by (rule round64_eqI [where e = "-4" and u = "1 / 72057594037927936"
        and y = "29206669829258407752355848084521 / 4503599627370496" and n = "6485183463413515"])
    (simp_all add: round_half_even_def power_int_minus Let_def)

lemma round64_at_5:
  "round64 (23365335863406728363612499605455 / 2596148429267413814265248164610048) =
   1297036692682703 / 144115188075855872"
  by (rule round64_eqI [where e = "-7" and u = "1 / 576460752303423488"
        and y = "23365335863406728363612499605455 / 4503599627370496" and n = "5188146770730812"])
    (simp_all add: round_half_even_def power_int_minus Let_def)

lemma round64_at_6:
  "round64 (25364273101350637 / 2305843009213693952) =
   6341068275337659 / 576460752303423488"
  by (rule round64_eqI [where e = "-7" and u = "1 / 576460752303423488"
        and y = "25364273101350637 / 4" and n = "6341068275337659"])
    (simp_all add: round_half_even_def power_int_minus Let_def)

lemma round64_at_7:
  "round64 (12980742146337070512478121581609 / 649037107316853453566312041152512) =
   1441151880758559 / 72057594037927936"
  by (rule round64_eqI [where e = "-6" and u = "1 / 288230376151711744"
        and y = "12980742146337070512478121581609 / 2251799813685248" and n = "5764607523034236"])
    (simp_all add: round_half_even_def power_int_minus Let_def)

lemma round64_at_8:
  "round64 (3963167672086037 / 36028797018963968) =
   3963167672086037 / 36028797018963968"
  by (rule round64_eqI [where e = "-4" and u = "1 / 72057594037927936"
        and y = "7926335344172074" and n = "7926335344172074"])
    (simp_all add: round_half_even_def power_int_minus Let_def)

lemma round64_at_9:
  "round64 (14278816360970778644589844308689 / 1298074214633706907132624082305024) =
   1585267068834415 / 144115188075855872"
  by (rule round64_eqI [where e = "-7" and u = "1 / 576460752303423488"
        and y = "14278816360970778644589844308689 / 2251799813685248" and n = "6341068275337660"])
    (simp_all add: round_half_even_def power_int_minus Let_def)

lemma round64_at_10:
  "round64 (3602879701896397 / 36028797018963968) =
   3602879701896397 / 36028797018963968"
  by (rule round64_eqI [where e = "-4" and u = "1 / 72057594037927936"
        and y = "7205759403792794" and n = "7205759403792794"])
    (simp_all add: round_half_even_def power_int_minus Let_def)

lemma round64_at_11:
  "round64 (3602879701896397 / 18014398509481984) =
   3602879701896397 / 18014398509481984"
  by (rule round64_eqI [where e = "-3" and u = "1 / 36028797018963968"
        and y = "7205759403792794" and n = "7205759403792794"])
    (simp_all add: round_half_even_def power_int_minus Let_def)

lemma round64_at_12:
  "round64 (1) =
   1"
  by (rule round64_eqI [where e = "0" and u = "1 / 4503599627370496"
        and y = "4503599627370496" and n = "4503599627370496"])
    (simp_all add: round_half_even_def power_int_minus Let_def)

lemma round64_at_13:
  "round64 (21617278211378381 / 18014398509481984) =
   5404319552844595 / 4503599627370496"
  by (rule round64_eqI [where e = "0" and u = "1 / 4503599627370496"
        and y = "21617278211378381 / 4" and n = "5404319552844595"])
    (simp_all add: round_half_even_def power_int_minus Let_def)

lemma round64_at_14:
  "round64 (18014398509481983 / 18014398509481984) =
   1"
  by (rule round64_eqI [where e = "-1" and u = "1 / 9007199254740992"
        and y = "18014398509481983 / 2" and n = "9007199254740992"])
    (simp_all add: round_half_even_def power_int_minus Let_def)

lemma round64_at_15:
  "round64 (8106479329266893 / 9007199254740992) =
   8106479329266893 / 9007199254740992"
  by (rule round64_eqI [where e = "-1" and u = "1 / 9007199254740992"
        and y = "8106479329266893" and n = "8106479329266893"])
    (simp_all add: round_half_even_def power_int_minus Let_def)

lemma round64_at_16:
  "round64 (17113678584007885 / 9007199254740992) =
   4278419646001971 / 2251799813685248"
  by (rule round64_eqI [where e = "0" and u = "1 / 4503599627370496"
        and y = "17113678584007885 / 2" and n = "8556839292003942"])
    (simp_all add: round_half_even_def power_int_minus Let_def)

lemma round64_at_17:
  "round64 (9007199254740991 / 9007199254740992) =
   9007199254740991 / 9007199254740992"
  by (rule round64_eqI [where e = "-1" and u = "1 / 9007199254740992"
        and y = "9007199254740991" and n = "9007199254740991"])
    (simp_all add: round_half_even_def power_int_minus Let_def)

lemma adherence_f64_value:
  "adherence_symptom_isolation_f64 (3602879701896397 / 36028797018963968) (3602879701896397 / 36028797018963968)
     (3602879701896397 / 18014398509481984) (3602879701896397 / 36028797018963968) =
   6341068275337659 / 576460752303423488"
proof -
  have s1: "f64_mul (3602879701896397 / 36028797018963968) (3602879701896397 / 36028797018963968) =
        1441151880758559 / 144115188075855872"
  proof -
    have "(3602879701896397 / 36028797018963968) * (3602879701896397 / 36028797018963968) =
          (12980742146337070512478121581609 / 1298074214633706907132624082305024 :: real)"
      by simp
    then show ?thesis
      by (simp only: f64_mul_def round64_at_1)
  qed
  have s2: "f64_mul (1441151880758559 / 144115188075855872) (3602879701896397 / 18014398509481984) =
        4611686018427389 / 2305843009213693952"
  proof -
    have "(1441151880758559 / 144115188075855872) * (3602879701896397 / 18014398509481984) =
          (5192296858534828925567189011923 / 2596148429267413814265248164610048 :: real)"
      by simp
    then show ?thesis
      by (simp only: f64_mul_def round64_at_2)
  qed
  have s3: "f64_sub 1 (3602879701896397 / 36028797018963968) =
        8106479329266893 / 9007199254740992"
  proof -
    have "1 - (3602879701896397 / 36028797018963968) =
          (32425917317067571 / 36028797018963968 :: real)"
      by simp
    then show ?thesis
      by (simp only: f64_sub_def round64_at_3)
  qed
  have s4: "f64_mul (8106479329266893 / 9007199254740992) (3602879701896397 / 36028797018963968) =
        6485183463413515 / 72057594037927936"
  proof -
    have "(8106479329266893 / 9007199254740992) * (3602879701896397 / 36028797018963968) =
          (29206669829258407752355848084521 / 324518553658426726783156020576256 :: real)"
      by simp
    then show ?thesis
      by (simp only: f64_mul_def round64_at_4)
  qed
  have s5: "f64_mul (6485183463413515 / 72057594037927936) (3602879701896397 / 36028797018963968) =
        1297036692682703 / 144115188075855872"
  proof -
    have "(6485183463413515 / 72057594037927936) * (3602879701896397 / 36028797018963968) =
          (23365335863406728363612499605455 / 2596148429267413814265248164610048 :: real)"
      by simp
    then show ?thesis
      by (simp only: f64_mul_def round64_at_5)
  qed
  have s6: "f64_add (4611686018427389 / 2305843009213693952) (1297036692682703 / 144115188075855872) =
        6341068275337659 / 576460752303423488"
  proof -
    have "(4611686018427389 / 2305843009213693952) + (1297036692682703 / 144115188075855872) =
          (25364273101350637 / 2305843009213693952 :: real)"
      by simp
    then show ?thesis
      by (simp only: f64_add_def round64_at_6)
  qed
  note s1 s2 s3 s4 s5 s6
  then show ?thesis
    unfolding adherence_symptom_isolation_f64_def by (simp only:)
qed

lemma adherence_formula_f64_value:
  "adherence_formula_f64 (3602879701896397 / 36028797018963968) (3602879701896397 / 36028797018963968)
     (3602879701896397 / 18014398509481984) (3602879701896397 / 36028797018963968) =
   1585267068834415 / 144115188075855872"
proof -
  have s1: "f64_mul (3602879701896397 / 36028797018963968) (3602879701896397 / 18014398509481984) =
        1441151880758559 / 72057594037927936"
  proof -
    have "(3602879701896397 / 36028797018963968) * (3602879701896397 / 18014398509481984) =
          (12980742146337070512478121581609 / 649037107316853453566312041152512 :: real)"
      by simp
    then show ?thesis
      by (simp only: f64_mul_def round64_at_7)
  qed
  have s2: "f64_sub 1 (3602879701896397 / 36028797018963968) =
        8106479329266893 / 9007199254740992"
  proof -
    have "1 - (3602879701896397 / 36028797018963968) =
          (32425917317067571 / 36028797018963968 :: real)"
      by simp
    then show ?thesis
      by (simp only: f64_sub_def round64_at_3)
  qed
  have s3: "f64_mul (8106479329266893 / 9007199254740992) (3602879701896397 / 36028797018963968) =
        6485183463413515 / 72057594037927936"
  proof -
    have "(8106479329266893 / 9007199254740992) * (3602879701896397 / 36028797018963968) =
          (29206669829258407752355848084521 / 324518553658426726783156020576256 :: real)"
      by simp
    then show ?thesis
      by (simp only: f64_mul_def round64_at_4)
  qed
  have s4: "f64_add (1441151880758559 / 72057594037927936) (6485183463413515 / 72057594037927936) =
        3963167672086037 / 36028797018963968"
  proof -
    have "(1441151880758559 / 72057594037927936) + (6485183463413515 / 72057594037927936) =
          (3963167672086037 / 36028797018963968 :: real)"
      by simp
    then show ?thesis
      by (simp only: f64_add_def round64_at_8)
  qed
  have s5: "f64_mul (3602879701896397 / 36028797018963968) (3963167672086037 / 36028797018963968) =
        1585267068834415 / 144115188075855872"
  proof -
    have "(3602879701896397 / 36028797018963968) * (3963167672086037 / 36028797018963968) =
          (14278816360970778644589844308689 / 1298074214633706907132624082305024 :: real)"
      by simp
    then show ?thesis
      by (simp only: f64_mul_def round64_at_9)
  qed
  note s1 s2 s3 s4 s5
  then show ?thesis
    unfolding adherence_formula_f64_def by (simp only:)
qed

lemma transmission_averted_f64_low:
  "transmission_averted_f64 1 1 1 1 1 (3602879701896397 / 18014398509481984) 1 1 1 = 1"
proof -
  have s1: "f64_mul 1 1 =
        1"
  proof -
    have "1 * 1 =
          (1 :: real)"
      by simp
    then show ?thesis
      by (simp only: f64_mul_def round64_at_12)
  qed
  have s2: "f64_sub 1 1 =
        0"
  proof -
    have "1 - 1 =
          (0 :: real)"
      by simp
    then show ?thesis
      by (simp only: f64_sub_def round64_0)
  qed
  have s3: "f64_mul 0 1 =
        0"
  proof -
    have "0 * 1 =
          (0 :: real)"
      by simp
    then show ?thesis
      by (simp only: f64_mul_def round64_0)
  qed
  have s4: "f64_add 1 0 =
        1"
  proof -
    have "1 + 0 =
          (1 :: real)"
      by simp
    then show ?thesis
      by (simp only: f64_add_def round64_at_12)
  qed
  have s5: "f64_mul 1 (3602879701896397 / 18014398509481984) =
        3602879701896397 / 18014398509481984"
  proof -
    have "1 * (3602879701896397 / 18014398509481984) =
          (3602879701896397 / 18014398509481984 :: real)"
      by simp
    then show ?thesis
      by (simp only: f64_mul_def round64_at_11)
  qed
  have s6: "f64_mul (3602879701896397 / 18014398509481984) 1 =
        3602879701896397 / 18014398509481984"
  proof -
    have "(3602879701896397 / 18014398509481984) * 1 =
          (3602879701896397 / 18014398509481984 :: real)"
      by simp
    then show ?thesis
      by (simp only: f64_mul_def round64_at_11)
  qed
  have s7: "f64_add 1 (3602879701896397 / 18014398509481984) =
        5404319552844595 / 4503599627370496"
  proof -
    have "1 + (3602879701896397 / 18014398509481984) =
          (21617278211378381 / 18014398509481984 :: real)"
      by simp
    then show ?thesis
      by (simp only: f64_add_def round64_at_13)
  qed
  have s8: "f64_sub (5404319552844595 / 4503599627370496) (3602879701896397 / 18014398509481984) =
        1"
  proof -
    have "(5404319552844595 / 4503599627370496) - (3602879701896397 / 18014398509481984) =
          (18014398509481983 / 18014398509481984 :: real)"
      by simp
    then show ?thesis
      by (simp only: f64_sub_def round64_at_14)
  qed
  note s1 s2 s3 s4 s5 s6 s7 s8
  then show ?thesis
    unfolding transmission_averted_f64_def adherence_symptom_isolation_f64_def Let_def
    by (simp only:)
qed

lemma transmission_averted_f64_high:
  "transmission_averted_f64 1 1 1 1 1 (8106479329266893 / 9007199254740992) 1 1 1 =
   9007199254740991 / 9007199254740992"
proof -
  have s1: "f64_mul 1 1 =
        1"
  proof -
    have "1 * 1 =
          (1 :: real)"
      by simp
    then show ?thesis
      by (simp only: f64_mul_def round64_at_12)
  qed
  have s2: "f64_sub 1 1 =
        0"
  proof -
    have "1 - 1 =
          (0 :: real)"
      by simp
    then show ?thesis
      by (simp only: f64_sub_def round64_0)
  qed
  have s3: "f64_mul 0 1 =
        0"
  proof -
    have "0 * 1 =
          (0 :: real)"
      by simp
    then show ?thesis
      by (simp only: f64_mul_def round64_0)
  qed
  have s4: "f64_add 1 0 =
        1"
  proof -
    have "1 + 0 =
          (1 :: real)"
      by simp
    then show ?thesis
      by (simp only: f64_add_def round64_at_12)
  qed
  have s5: "f64_mul 1 (8106479329266893 / 9007199254740992) =
        8106479329266893 / 9007199254740992"
  proof -
    have "1 * (8106479329266893 / 9007199254740992) =
          (8106479329266893 / 9007199254740992 :: real)"
      by simp
    then show ?thesis
      by (simp only: f64_mul_def round64_at_15)
  qed
  have s6: "f64_mul (8106479329266893 / 9007199254740992) 1 =
        8106479329266893 / 9007199254740992"
  proof -
    have "(8106479329266893 / 9007199254740992) * 1 =
          (8106479329266893 / 9007199254740992 :: real)"
      by simp
    then show ?thesis
      by (simp only: f64_mul_def round64_at_15)
  qed
  have s7: "f64_add 1 (8106479329266893 / 9007199254740992) =
        4278419646001971 / 2251799813685248"
  proof -
    have "1 + (8106479329266893 / 9007199254740992) =
          (17113678584007885 / 9007199254740992 :: real)"
      by simp
    then show ?thesis
      by (simp only: f64_add_def round64_at_16)
  qed
  have s8: "f64_sub (4278419646001971 / 2251799813685248) (8106479329266893 / 9007199254740992) =
        9007199254740991 / 9007199254740992"
  proof -
    have "(4278419646001971 / 2251799813685248) - (8106479329266893 / 9007199254740992) =
          (9007199254740991 / 9007199254740992 :: real)"
      by simp
    then show ?thesis
      by (simp only: f64_sub_def round64_at_17)
  qed
  note s1 s2 s3 s4 s5 s6 s7 s8
  then show ?thesis
    unfolding transmission_averted_f64_def adherence_symptom_isolation_f64_def Let_def
    by (simp only:)
qed

section \<open>Rounding errors of the float64 arithmetic\<close>

text \<open>
  Rounding to the nearest integer is off by at most a half and is monotone; so \<open>round64\<close>
  is off by at most half a unit in the last place, is monotone on the non-negative reals
  and leaves the powers of two where they are.
\<close>

lemma rhe_error: "\<bar>real_of_int (round_half_even y) - y\<bar> \<le> 1 / 2"
  unfolding round_half_even_def Let_def by (auto; linarith)

lemma rhe_le: "y \<le> real_of_int n \<Longrightarrow> round_half_even y \<le> n"
proof -
  assume a: "y \<le> real_of_int n"
  have f: "\<lfloor>y\<rfloor> \<le> n" using a by (simp add: floor_le_iff)
  show ?thesis
  proof (cases "\<lfloor>y\<rfloor> = n")
    case True
    then have "y = of_int \<lfloor>y\<rfloor>" using a of_int_floor_le [of y] by linarith
    then have "y - of_int \<lfloor>y\<rfloor> = 0" by simp
    then show ?thesis using True unfolding round_half_even_def Let_def by simp
  next
    case False
    then have "\<lfloor>y\<rfloor> + 1 \<le> n" using f by simp
    then show ?thesis unfolding round_half_even_def Let_def by auto
  qed
qed

lemma rhe_ge: "real_of_int n \<le> y \<Longrightarrow> n \<le> round_half_even y"
proof -
  assume "real_of_int n \<le> y"
  then have "n \<le> \<lfloor>y\<rfloor>" by (simp add: le_floor_iff)
  then show ?thesis unfolding round_half_even_def Let_def by auto
qed

lemma rhe_mono: "x \<le> y \<Longrightarrow> round_half_even x \<le> round_half_even y"
proof -
  assume a: "x \<le> y"
  then have f: "\<lfloor>x\<rfloor> \<le> \<lfloor>y\<rfloor>" by (rule floor_mono)
  show ?thesis
  proof (cases "\<lfloor>x\<rfloor> = \<lfloor>y\<rfloor>")
    case True
    then have "x - of_int \<lfloor>x\<rfloor> \<le> y - of_int \<lfloor>y\<rfloor>" using a by simp
    then show ?thesis using True unfolding round_half_even_def Let_def by auto
  next
    case False
    then have "\<lfloor>x\<rfloor> + 1 \<le> \<lfloor>y\<rfloor>" using f by simp
    moreover have "round_half_even x \<le> \<lfloor>x\<rfloor> + 1" unfolding round_half_even_def Let_def by auto
    moreover have "\<lfloor>y\<rfloor> \<le> round_half_even y" unfolding round_half_even_def Let_def by auto
    ultimately show ?thesis by linarith
  qed
qed

lemma round64_ulp:
  "x \<noteq> 0 \<Longrightarrow>
   round64 x = of_int (round_half_even (x / 2 powi ulp_exp x)) * 2 powi ulp_exp x"
  by (simp add: round64_def ulp_exp_def Let_def)

lemma ulp_exp_pos: "0 < x \<Longrightarrow> ulp_exp x = max (\<lfloor>log 2 x\<rfloor> - 52) (- 1074)"
  by (simp add: ulp_exp_def)

lemma floor_log2_bounds:
  assumes "0 < x"
  shows "2 powi \<lfloor>log 2 x\<rfloor> \<le> x" and "x < 2 powi (\<lfloor>log 2 x\<rfloor> + 1)"
proof -
  have "2 powr real_of_int \<lfloor>log 2 x\<rfloor> \<le> x \<and> x < 2 powr real_of_int (\<lfloor>log 2 x\<rfloor> + 1)"
    using floor_log_eq_powr_iff [of x 2 "\<lfloor>log 2 x\<rfloor>"] assms by simp
  moreover have "(2::real) powr real_of_int \<lfloor>log 2 x\<rfloor> = 2 powi \<lfloor>log 2 x\<rfloor>"
    using powr_real_of_int' [of "2::real" "\<lfloor>log 2 x\<rfloor>"] by simp
  moreover have "(2::real) powr real_of_int (\<lfloor>log 2 x\<rfloor> + 1) = 2 powi (\<lfloor>log 2 x\<rfloor> + 1)"
    using powr_real_of_int' [of "2::real" "\<lfloor>log 2 x\<rfloor> + 1"] by simp
  ultimately show "2 powi \<lfloor>log 2 x\<rfloor> \<le> x" and "x < 2 powi (\<lfloor>log 2 x\<rfloor> + 1)"
    by simp_all
qed

lemma floor_log2_mono:
  assumes "0 < x" "x \<le> y"
  shows "\<lfloor>log 2 x\<rfloor> \<le> \<lfloor>log 2 y\<rfloor>"
  using assms by (intro floor_mono log_mono) simp_all

lemma ulp_exp_mono:
  assumes "0 < x" "x \<le> y"
  shows "ulp_exp x \<le> ulp_exp y"
  using floor_log2_mono [OF assms] assms unfolding ulp_exp_def by simp

lemma round64_nonneg:
  assumes "0 \<le> x"
  shows "0 \<le> round64 x"
proof (cases "x = 0")
  case True
  then show ?thesis by (simp add: round64_def)
next
  case False
  have "real_of_int 0 \<le> x / 2 powi ulp_exp x"
    using assms by simp
  then have "0 \<le> round_half_even (x / 2 powi ulp_exp x)"
    by (rule rhe_ge)
  then show ?thesis
    unfolding round64_ulp [OF False] by simp
qed

lemma round64_error:
  assumes "x \<noteq> 0"
  shows "\<bar>round64 x - x\<bar> \<le> 2 powi ulp_exp x / 2"
proof -
  define u :: real where "u = 2 powi ulp_exp x"
  have u: "0 < u"
    unfolding u_def by simp
  have "round64 x - x = (of_int (round_half_even (x / u)) - x / u) * u"
    unfolding round64_ulp [OF assms] u_def [symmetric] using u by (simp add: algebra_simps)
  then have "\<bar>round64 x - x\<bar> = \<bar>of_int (round_half_even (x / u)) - x / u\<bar> * u"
    using u by (simp add: abs_mult)
  also have "\<dots> \<le> 1 / 2 * u"
    using rhe_error [of "x / u"] u by (intro mult_right_mono) simp_all
  finally show ?thesis
    unfolding u_def by simp
qed

lemma ulp_le:
  assumes "0 < x"
  shows "2 powi ulp_exp x \<le> max (x / 2 ^ 52) (2 powi (- 1074))"
proof (cases "- 1074 \<le> \<lfloor>log 2 x\<rfloor> - 52")
  case True
  then have "ulp_exp x = \<lfloor>log 2 x\<rfloor> - 52"
    using assms unfolding ulp_exp_def by simp
  then have "(2::real) powi ulp_exp x = 2 powi \<lfloor>log 2 x\<rfloor> / 2 powi 52"
    by (simp add: power_int_diff)
  also have "\<dots> \<le> x / 2 powi 52"
    using floor_log2_bounds(1) [OF assms] by (intro divide_right_mono) simp_all
  finally show ?thesis
    by simp
next
  case False
  then have "ulp_exp x = - 1074"
    using assms unfolding ulp_exp_def by simp
  then show ?thesis
    by simp
qed

lemma round64_error_bound:
  assumes "0 \<le> x" "x \<le> B" "2 powi (- 1022) \<le> B"
  shows "\<bar>round64 x - x\<bar> \<le> B / 2 ^ 53"
proof (cases "x = 0")
  case True
  have "(0::real) < 2 powi (- 1022)"
    by simp
  then have "0 \<le> B"
    using assms(3) by linarith
  then show ?thesis
    using True by (simp add: round64_def)
next
  case False
  then have pos: "0 < x"
    using assms(1) by simp
  have "(2::real) powi (- 1074) = 2 powi (- 1022) / 2 powi 52"
    using power_int_diff [of "2::real" "- 1022" 52] by simp
  also have "\<dots> \<le> B / 2 powi 52"
    using assms(3) by (intro divide_right_mono) simp_all
  finally have 1: "(2::real) powi (- 1074) \<le> B / 2 ^ 52"
    by simp
  have 2: "x / 2 ^ 52 \<le> B / 2 ^ 52"
    using assms(2) by (intro divide_right_mono) simp_all
  have "2 powi ulp_exp x \<le> B / 2 ^ 52"
    using ulp_le [OF pos] 1 2 by linarith
  then have "2 powi ulp_exp x / 2 \<le> B / 2 ^ 52 / 2"
    by (intro divide_right_mono) simp_all
  then show ?thesis
    using round64_error [OF False] by simp
qed

lemma round64_le_pow:
  assumes "0 \<le> x" "x \<le> 2 powi m" "- 1074 \<le> m"
  shows "round64 x \<le> 2 powi m"
proof (cases "x = 0")
  case True
  then show ?thesis by (simp add: round64_def)
next
  case False
  then have pos: "0 < x"
    using assms(1) by simp
  have "(2::real) powi \<lfloor>log 2 x\<rfloor> \<le> 2 powi m"
    using floor_log2_bounds(1) [OF pos] assms(2) by linarith
  then have "\<lfloor>log 2 x\<rfloor> \<le> m"
    using power_int_strict_increasing [of m "\<lfloor>log 2 x\<rfloor>" "2::real"] by force
  then have k: "ulp_exp x \<le> m"
    using pos assms(3) unfolding ulp_exp_def by simp
  define d where "d = nat (m - ulp_exp x)"
  have m: "m = int d + ulp_exp x"
    unfolding d_def using k by simp
  have p: "(2::real) powi m = 2 ^ d * 2 powi ulp_exp x"
    unfolding m by (simp add: power_int_add)
  have "x / 2 powi ulp_exp x \<le> 2 powi m / 2 powi ulp_exp x"
    using assms(2) by (intro divide_right_mono) simp_all
  also have "\<dots> = real_of_int (2 ^ d)"
    unfolding p by simp
  finally have "round_half_even (x / 2 powi ulp_exp x) \<le> 2 ^ d"
    by (rule rhe_le)
  then have "real_of_int (round_half_even (x / 2 powi ulp_exp x)) \<le> 2 ^ d"
    using of_int_le_iff [of "round_half_even (x / 2 powi ulp_exp x)" "2 ^ d", where ?'a = real]
    by simp
  then have "real_of_int (round_half_even (x / 2 powi ulp_exp x)) * 2 powi ulp_exp x
             \<le> 2 ^ d * 2 powi ulp_exp x"
    by (intro mult_right_mono) simp_all
  then show ?thesis
    unfolding round64_ulp [OF False] p .
qed

lemma round64_ge_pow:
  assumes "0 < x" "- 1074 \<le> \<lfloor>log 2 x\<rfloor>"
  shows "2 powi \<lfloor>log 2 x\<rfloor> \<le> round64 x"
proof -
  have nz: "x \<noteq> 0"
    using assms(1) by simp
  define m where "m = \<lfloor>log 2 x\<rfloor>"
  have k: "ulp_exp x \<le> m"
    using assms unfolding ulp_exp_def m_def by simp
  define d where "d = nat (m - ulp_exp x)"
  have m: "m = int d + ulp_exp x"
    unfolding d_def using k by simp
  have p: "(2::real) powi m = 2 ^ d * 2 powi ulp_exp x"
    unfolding m by (simp add: power_int_add)
  have "2 powi m / 2 powi ulp_exp x \<le> x / 2 powi ulp_exp x"
    using floor_log2_bounds(1) [OF assms(1)] unfolding m_def
    by (intro divide_right_mono) simp_all
  moreover have "2 powi m / 2 powi ulp_exp x = real_of_int (2 ^ d)"
    unfolding p by simp
  ultimately have "real_of_int (2 ^ d) \<le> x / 2 powi ulp_exp x"
    by simp
  then have "2 ^ d \<le> round_half_even (x / 2 powi ulp_exp x)"
    by (rule rhe_ge)
  then have "2 ^ d \<le> real_of_int (round_half_even (x / 2 powi ulp_exp x))"
    using of_int_le_iff [of "2 ^ d" "round_half_even (x / 2 powi ulp_exp x)", where ?'a = real]
    by simp
  then have "2 ^ d * 2 powi ulp_exp x
             \<le> real_of_int (round_half_even (x / 2 powi ulp_exp x)) * 2 powi ulp_exp x"
    by (intro mult_right_mono) simp_all
  then show ?thesis
    unfolding round64_ulp [OF nz] p m_def [symmetric] .
qed

lemma round64_mono:
  assumes "0 \<le> x" "x \<le> y"
  shows "round64 x \<le> round64 y"
proof (cases "x = 0")
  case True
  then show ?thesis
    using round64_nonneg [of y] assms by (simp add: round64_def)
next
  case False
  then have x: "0 < x" and y: "0 < y" and nx: "x \<noteq> 0" and ny: "y \<noteq> 0"
    using assms by simp_all
  have e: "\<lfloor>log 2 x\<rfloor> \<le> \<lfloor>log 2 y\<rfloor>"
    using floor_log2_mono [OF x assms(2)] .
  show ?thesis
  proof (cases "ulp_exp x = ulp_exp y")
    case True
    have "x / 2 powi ulp_exp y \<le> y / 2 powi ulp_exp y"
      using assms(2) by (intro divide_right_mono) simp_all
    then have "round_half_even (x / 2 powi ulp_exp y) \<le> round_half_even (y / 2 powi ulp_exp y)"
      by (rule rhe_mono)
    then have "real_of_int (round_half_even (x / 2 powi ulp_exp y))
               \<le> real_of_int (round_half_even (y / 2 powi ulp_exp y))"
      by simp
    then have "real_of_int (round_half_even (x / 2 powi ulp_exp y)) * 2 powi ulp_exp y
               \<le> real_of_int (round_half_even (y / 2 powi ulp_exp y)) * 2 powi ulp_exp y"
      by (intro mult_right_mono) simp_all
    then show ?thesis
      unfolding round64_ulp [OF nx] round64_ulp [OF ny] True .
  next
    case False
    then have "max (\<lfloor>log 2 x\<rfloor> - 52) (- 1074) \<noteq> max (\<lfloor>log 2 y\<rfloor> - 52) (- 1074)"
      unfolding ulp_exp_pos [OF x] ulp_exp_pos [OF y] .
    then have lt: "\<lfloor>log 2 x\<rfloor> < \<lfloor>log 2 y\<rfloor>" and big: "- 1074 \<le> \<lfloor>log 2 y\<rfloor>"
      using e by linarith+
    define m where "m = max (\<lfloor>log 2 x\<rfloor> + 1) (- 1074)"
    have "(2::real) powi (\<lfloor>log 2 x\<rfloor> + 1) \<le> 2 powi m"
      unfolding m_def by (intro power_int_increasing) simp_all
    then have "x \<le> 2 powi m"
      using floor_log2_bounds(2) [OF x] by linarith
    moreover have "- 1074 \<le> m"
      unfolding m_def by simp
    ultimately have "round64 x \<le> 2 powi m"
      using assms(1) by (intro round64_le_pow)
    also have "\<dots> \<le> 2 powi \<lfloor>log 2 y\<rfloor>"
      using lt big unfolding m_def by (intro power_int_increasing) simp_all
    also have "\<dots> \<le> round64 y"
      using y big by (rule round64_ge_pow)
    finally show ?thesis .
  qed
qed

lemma f64_mul_nonneg: "0 \<le> x \<Longrightarrow> 0 \<le> y \<Longrightarrow> 0 \<le> f64_mul x y"
  unfolding f64_mul_def by (intro round64_nonneg mult_nonneg_nonneg)

lemma f64_mul_mono:
  assumes "0 \<le> x" "0 \<le> y" "y \<le> z"
  shows "f64_mul x y \<le> f64_mul x z"
  unfolding f64_mul_def using assms by (intro round64_mono mult_nonneg_nonneg mult_left_mono)

lemma f64_mul_mono_left:
  assumes "0 \<le> x" "x \<le> y" "0 \<le> z"
  shows "f64_mul x z \<le> f64_mul y z"
  unfolding f64_mul_def using assms by (intro round64_mono mult_nonneg_nonneg mult_right_mono)

lemma contact_isolation_success_f64_mono:
  assumes "0 \<le> asr" "0 \<le> sr" "0 \<le> pn" "0 \<le> c1" "c1 \<le> c2" "0 \<le> aci"
  shows "contact_isolation_success_f64 asr sr pn c1 aci
         \<le> contact_isolation_success_f64 asr sr pn c2 aci"
proof -
  have p: "0 \<le> f64_mul (f64_mul sr asr) pn"
    using assms(1,2,3) by (intro f64_mul_nonneg)
  have "f64_mul (f64_mul (f64_mul sr asr) pn) c1 \<le> f64_mul (f64_mul (f64_mul sr asr) pn) c2"
    using p assms(4,5) by (rule f64_mul_mono)
  moreover have "0 \<le> f64_mul (f64_mul (f64_mul sr asr) pn) c1"
    using p assms(4) by (rule f64_mul_nonneg)
  ultimately show ?thesis
    unfolding contact_isolation_success_f64_def Let_def using assms(6)
    by (intro f64_mul_mono_left)
qed

lemma round64_unit:
  assumes "0 \<le> x" "x \<le> 1"
  shows "0 \<le> round64 x" and "round64 x \<le> 1" and "\<bar>round64 x - x\<bar> \<le> 1 / 2 ^ 53"
proof -
  show "0 \<le> round64 x"
    using assms(1) by (rule round64_nonneg)
  have "x \<le> 2 powi 0"
    using assms(2) by simp
  with assms(1) have "round64 x \<le> 2 powi 0"
    by (rule round64_le_pow) simp
  then show "round64 x \<le> 1"
    by simp
  have "(2::real) powi (- 1022) \<le> 2 powi 0"
    by (intro power_int_increasing) simp_all
  then have "(2::real) powi (- 1022) \<le> 1"
    by simp
  with assms show "\<bar>round64 x - x\<bar> \<le> 1 / 2 ^ 53"
    by (rule round64_error_bound)
qed

lemma round64_two:
  assumes "0 \<le> x" "x \<le> 2"
  shows "0 \<le> round64 x" and "round64 x \<le> 2" and "\<bar>round64 x - x\<bar> \<le> 2 / 2 ^ 53"
proof -
  show "0 \<le> round64 x"
    using assms(1) by (rule round64_nonneg)
  have "x \<le> 2 powi 1"
    using assms(2) by simp
  with assms(1) have "round64 x \<le> 2 powi 1"
    by (rule round64_le_pow) simp
  then show "round64 x \<le> 2"
    by simp
  have "(2::real) powi (- 1022) \<le> 2 powi 1"
    by (intro power_int_increasing) simp_all
  then have "(2::real) powi (- 1022) \<le> 2"
    by simp
  with assms show "\<bar>round64 x - x\<bar> \<le> 2 / 2 ^ 53"
    by (rule round64_error_bound)
qed

lemma f64_mul_unit:
  assumes "0 \<le> x" "x \<le> 1" "0 \<le> y" "y \<le> 1"
  shows "0 \<le> f64_mul x y" and "f64_mul x y \<le> 1" and "\<bar>f64_mul x y - x * y\<bar> \<le> 1 / 2 ^ 53"
proof -
  have "0 \<le> x * y" "x * y \<le> 1"
    using assms by (simp_all add: mult_le_one)
  then show "0 \<le> f64_mul x y" and "f64_mul x y \<le> 1"
    and "\<bar>f64_mul x y - x * y\<bar> \<le> 1 / 2 ^ 53"
    unfolding f64_mul_def by (rule round64_unit)+
qed

lemma error_times:
  fixes p x e t :: real
  assumes "\<bar>p - x\<bar> \<le> e" "0 \<le> t" "t \<le> 1"
  shows "\<bar>p * t - x * t\<bar> \<le> e"
proof -
  have "p * t - x * t = (p - x) * t"
    by (simp add: algebra_simps)
  then have "\<bar>p * t - x * t\<bar> = \<bar>p - x\<bar> * \<bar>t\<bar>"
    by (simp only: abs_mult)
  then have "\<bar>p * t - x * t\<bar> = \<bar>p - x\<bar> * t"
    using assms(2) by simp
  also have "\<dots> \<le> \<bar>p - x\<bar> * 1"
    using assms(3) by (intro mult_left_mono) simp_all
  finally show ?thesis
    using assms(1) by simp
qed

lemma times_error:
  fixes p x e t :: real
  assumes "\<bar>p - x\<bar> \<le> e" "0 \<le> t" "t \<le> 1"
  shows "\<bar>t * p - t * x\<bar> \<le> e"
  using error_times [OF assms] by (simp only: mult.commute [of t])

lemma adherence_f64_error:
  assumes "0 \<le> a" "a \<le> 1" "0 \<le> s" "s \<le> 1" "0 \<le> t" "t \<le> 1" "0 \<le> n" "n \<le> 1"
  shows "\<bar>adherence_symptom_isolation_f64 a s t n - s * (a * t + (1 - a) * n)\<bar> \<le> 7 / 2 ^ 53"
proof -
  define p1 where "p1 = f64_mul s a"
  define p2 where "p2 = f64_mul p1 t"
  define q0 where "q0 = f64_sub 1 a"
  define q1 where "q1 = f64_mul q0 s"
  define q2 where "q2 = f64_mul q1 n"
  note P1 = f64_mul_unit [OF assms(3,4,1,2), folded p1_def]
  note P2 = f64_mul_unit [OF P1(1,2) assms(5,6), folded p2_def]
  have "0 \<le> 1 - a" "1 - a \<le> 1"
    using assms(1,2) by simp_all
  note Q0 = round64_unit [OF this, folded f64_sub_def, folded q0_def]
  note Q1 = f64_mul_unit [OF Q0(1,2) assms(3,4), folded q1_def]
  note Q2 = f64_mul_unit [OF Q1(1,2) assms(7,8), folded q2_def]
  have "0 \<le> p2 + q2" "p2 + q2 \<le> 2"
    using P2(1,2) Q2(1,2) by simp_all
  note R = round64_two [OF this, folded f64_add_def]
  have e1: "\<bar>p1 * t - s * a * t\<bar> \<le> 1 / 2 ^ 53"
    using P1(3) assms(5,6) by (rule error_times)
  have e2: "\<bar>q0 * s - (1 - a) * s\<bar> \<le> 1 / 2 ^ 53"
    using Q0(3) assms(3,4) by (rule error_times)
  have e3: "\<bar>q1 - (1 - a) * s\<bar> \<le> 2 / 2 ^ 53"
    using Q1(3) e2 by linarith
  have e4: "\<bar>q1 * n - (1 - a) * s * n\<bar> \<le> 2 / 2 ^ 53"
    using e3 assms(7,8) by (rule error_times)
  have "adherence_symptom_isolation_f64 a s t n = f64_add p2 q2"
    unfolding adherence_symptom_isolation_f64_def p1_def p2_def q0_def q1_def q2_def ..
  moreover have "s * (a * t + (1 - a) * n) = s * a * t + (1 - a) * s * n"
    by (simp add: algebra_simps)
  ultimately show ?thesis
    using R(3) P2(3) Q2(3) e1 e4 by linarith
qed

lemma adherence_formula_f64_error:
  assumes "0 \<le> a" "a \<le> 1" "0 \<le> s" "s \<le> 1" "0 \<le> t" "t \<le> 1" "0 \<le> n" "n \<le> 1"
  shows "\<bar>adherence_formula_f64 a s t n - s * (a * t + (1 - a) * n)\<bar> \<le> 7 / 2 ^ 53"
proof -
  define p where "p = f64_mul a t"
  define q0 where "q0 = f64_sub 1 a"
  define q where "q = f64_mul q0 n"
  define w where "w = f64_add p q"
  note P = f64_mul_unit [OF assms(1,2,5,6), folded p_def]
  have "0 \<le> 1 - a" "1 - a \<le> 1"
    using assms(1,2) by simp_all
  note Q0 = round64_unit [OF this, folded f64_sub_def, folded q0_def]
  note Q = f64_mul_unit [OF Q0(1,2) assms(7,8), folded q_def]
  have "0 \<le> p + q" "p + q \<le> 2"
    using P(1,2) Q(1,2) by simp_all
  note W = round64_two [OF this, folded f64_add_def, folded w_def]
  have e1: "\<bar>q0 * n - (1 - a) * n\<bar> \<le> 1 / 2 ^ 53"
    using Q0(3) assms(7,8) by (rule error_times)
  have e2: "\<bar>w - (a * t + (1 - a) * n)\<bar> \<le> 5 / 2 ^ 53"
    using W(3) P(3) Q(3) e1 by linarith
  have e3: "\<bar>s * w - s * (a * t + (1 - a) * n)\<bar> \<le> 5 / 2 ^ 53"
    using e2 assms(3,4) by (rule times_error)
  have "0 \<le> s * w"
    using assms(3) W(1) by (rule mult_nonneg_nonneg)
  moreover have "s * w \<le> 1 * 2"
    using assms(3,4) W(1,2) by (intro mult_mono) simp_all
  then have "s * w \<le> 2"
    by simp
  ultimately have V: "\<bar>round64 (s * w) - s * w\<bar> \<le> 2 / 2 ^ 53"
    by (rule round64_two)
  have "adherence_formula_f64 a s t n = round64 (s * w)"
    unfolding adherence_formula_f64_def p_def q0_def q_def w_def f64_mul_def [of s] ..
  then show ?thesis
    using V e3 by linarith
qed

section \<open>The symptom-isolation adherence\<close>

text \<open>
  C5 (as amended). In exact arithmetic, for finite parameter values (in particular values in
  \<open>[0,1]\<close>), the \<open>adherence_symptom_isolation\<close> entry of the record is
  \<open>symptomatic_rate * (ascertainment * compliance_test + (1 - ascertainment) * compliance_no_test)\<close>.
  On float64 the code's expression,
  \<open>symptomatic_rate * ascertainment * compliance_test +
   (1 - ascertainment) * symptomatic_rate * compliance_no_test\<close>
  with a rounding after every operation, is for parameters in \<open>[0,1]\<close> within \<open>7 / 2 ^ 53\<close> of
  that real number and within \<open>7 / 2 ^ 52\<close> of the float64 value of the specification's
  expression; the two float64 values need not be equal.
\<close>

theorem adherence_symptom_isolation_formula:
  assumes "TT_model_rum (Fin symptomatic_ascertainment_rate) (Fin symptomatic_rate)
             percentage_notified
             (Fin compliance_with_symptom_isolation_test)
             (Fin compliance_with_symptom_isolation_no_test)
             compliance_with_contact_isolation serial_interval secondary_symptoms_to_tertiary
             time_to_tertiary_infection total_time_to_contact = Inr r"
  shows "r ''adherence_symptom_isolation'' =
           Some (Fin (symptomatic_rate *
                   (symptomatic_ascertainment_rate * compliance_with_symptom_isolation_test +
                    (1 - symptomatic_ascertainment_rate) *
                      compliance_with_symptom_isolation_no_test))) \<and>
         (0 \<le> symptomatic_ascertainment_rate \<and> symptomatic_ascertainment_rate \<le> 1 \<and>
          0 \<le> symptomatic_rate \<and> symptomatic_rate \<le> 1 \<and>
          0 \<le> compliance_with_symptom_isolation_test \<and>
          compliance_with_symptom_isolation_test \<le> 1 \<and>
          0 \<le> compliance_with_symptom_isolation_no_test \<and>
          compliance_with_symptom_isolation_no_test \<le> 1 \<longrightarrow>
          \<bar>adherence_symptom_isolation_f64 symptomatic_ascertainment_rate symptomatic_rate
             compliance_with_symptom_isolation_test compliance_with_symptom_isolation_no_test -
           symptomatic_rate *
             (symptomatic_ascertainment_rate * compliance_with_symptom_isolation_test +
              (1 - symptomatic_ascertainment_rate) *
                compliance_with_symptom_isolation_no_test)\<bar> \<le> 7 / 2 ^ 53 \<and>
          \<bar>adherence_symptom_isolation_f64 symptomatic_ascertainment_rate symptomatic_rate
             compliance_with_symptom_isolation_test compliance_with_symptom_isolation_no_test -
           adherence_formula_f64 symptomatic_ascertainment_rate symptomatic_rate
             compliance_with_symptom_isolation_test compliance_with_symptom_isolation_no_test\<bar>
          \<le> 7 / 2 ^ 52)"
proof (intro conjI impI; (elim conjE)?)
  show "r ''adherence_symptom_isolation'' =
           Some (Fin (symptomatic_rate *
                   (symptomatic_ascertainment_rate * compliance_with_symptom_isolation_test +
                    (1 - symptomatic_ascertainment_rate) *
                      compliance_with_symptom_isolation_no_test)))"
    using assms by (rule TT_model_rum_InrE) (simp add: one_pyfloat_def algebra_simps)
next
  assume b: "0 \<le> symptomatic_ascertainment_rate" "symptomatic_ascertainment_rate \<le> 1"
    "0 \<le> symptomatic_rate" "symptomatic_rate \<le> 1"
    "0 \<le> compliance_with_symptom_isolation_test" "compliance_with_symptom_isolation_test \<le> 1"
    "0 \<le> compliance_with_symptom_isolation_no_test"
    "compliance_with_symptom_isolation_no_test \<le> 1"
  then show "\<bar>adherence_symptom_isolation_f64 symptomatic_ascertainment_rate symptomatic_rate
             compliance_with_symptom_isolation_test compliance_with_symptom_isolation_no_test -
           symptomatic_rate *
             (symptomatic_ascertainment_rate * compliance_with_symptom_isolation_test +
              (1 - symptomatic_ascertainment_rate) *
                compliance_with_symptom_isolation_no_test)\<bar> \<le> 7 / 2 ^ 53"
    by (rule adherence_f64_error)
next
  assume b: "0 \<le> symptomatic_ascertainment_rate" "symptomatic_ascertainment_rate \<le> 1"
    "0 \<le> symptomatic_rate" "symptomatic_rate \<le> 1"
    "0 \<le> compliance_with_symptom_isolation_test" "compliance_with_symptom_isolation_test \<le> 1"
    "0 \<le> compliance_with_symptom_isolation_no_test"
    "compliance_with_symptom_isolation_no_test \<le> 1"
  have h: "(7::real) / 2 ^ 53 + 7 / 2 ^ 53 = 7 / 2 ^ 52"
    by simp
  show "\<bar>adherence_symptom_isolation_f64 symptomatic_ascertainment_rate symptomatic_rate
             compliance_with_symptom_isolation_test compliance_with_symptom_isolation_no_test -
           adherence_formula_f64 symptomatic_ascertainment_rate symptomatic_rate
             compliance_with_symptom_isolation_test compliance_with_symptom_isolation_no_test\<bar>
          \<le> 7 / 2 ^ 52"
    using adherence_f64_error [OF b] adherence_formula_f64_error [OF b] h by linarith
qed

theorem adherence_symptom_isolation_formula_witness:
  "\<exists>r. TT_model_rum (Fin (1/2)) (Fin (7/10)) (Fin (3/5)) (Fin (9/10)) (Fin (3/10)) (Fin (4/5))
          [(- 1, Fin 0), (0, Fin (1/2)), (1, Fin (1/2))]
          [(- 1, Fin (1/4)), (0, Fin (1/2)), (1, Fin (1/4))]
          [(- 1, Fin (1/8)), (0, Fin (3/8)), (1, Fin (3/8))]
          [(- 1, Fin 0), (0, Fin 1), (1, Fin 0)] = Inr r \<and>
        r ''adherence_symptom_isolation'' = Some (Fin (21/50)) \<and>
        \<bar>adherence_symptom_isolation_f64 (1/2) (7/10) (9/10) (3/10) - 21/50\<bar> \<le> 7 / 2 ^ 53 \<and>
        \<bar>adherence_symptom_isolation_f64 (1/2) (7/10) (9/10) (3/10) -
         adherence_formula_f64 (1/2) (7/10) (9/10) (3/10)\<bar> \<le> 7 / 2 ^ 52"
proof -
  obtain r where r: "TT_model_rum (Fin (1/2)) (Fin (7/10)) (Fin (3/5)) (Fin (9/10))
          (Fin (3/10)) (Fin (4/5))
          [(- 1, Fin 0), (0, Fin (1/2)), (1, Fin (1/2))]
          [(- 1, Fin (1/4)), (0, Fin (1/2)), (1, Fin (1/4))]
          [(- 1, Fin (1/8)), (0, Fin (3/8)), (1, Fin (3/8))]
          [(- 1, Fin 0), (0, Fin 1), (1, Fin 0)] = Inr r"
    using TT_model_rum_returns [of "[(- 1, Fin (1/4)), (0, Fin (1/2)), (1, Fin (1/4))]"]
    by force
  have "r ''adherence_symptom_isolation'' = Some (Fin (21/50)) \<and>
        \<bar>adherence_symptom_isolation_f64 (1/2) (7/10) (9/10) (3/10) - 21/50\<bar> \<le> 7 / 2 ^ 53 \<and>
        \<bar>adherence_symptom_isolation_f64 (1/2) (7/10) (9/10) (3/10) -
         adherence_formula_f64 (1/2) (7/10) (9/10) (3/10)\<bar> \<le> 7 / 2 ^ 52"
    using adherence_symptom_isolation_formula [OF r] by simp
  then show ?thesis
    using r by blast
qed

text \<open>
  C5 as the specification states it does not hold on float64: for the parameters 0.1, 0.1,
  0.2 and 0.1 (all float64 values in \<open>[0,1]\<close>) the code computes 0.011000000000000001, the
  expression of the specification evaluates to 0.011000000000000003, and neither is the
  real number the expression stands for.
\<close>

theorem adherence_formula_differs_on_float64:
  "round64 (3602879701896397 / 36028797018963968) = 3602879701896397 / 36028797018963968 \<and>
   round64 (3602879701896397 / 18014398509481984) = 3602879701896397 / 18014398509481984 \<and>
   adherence_symptom_isolation_f64 (3602879701896397 / 36028797018963968) (3602879701896397 / 36028797018963968)
     (3602879701896397 / 18014398509481984) (3602879701896397 / 36028797018963968) =
     6341068275337659 / 576460752303423488 \<and>
   adherence_formula_f64 (3602879701896397 / 36028797018963968) (3602879701896397 / 36028797018963968)
     (3602879701896397 / 18014398509481984) (3602879701896397 / 36028797018963968) =
     1585267068834415 / 144115188075855872 \<and>
   adherence_symptom_isolation_f64 (3602879701896397 / 36028797018963968) (3602879701896397 / 36028797018963968)
     (3602879701896397 / 18014398509481984) (3602879701896397 / 36028797018963968) \<noteq>
   adherence_formula_f64 (3602879701896397 / 36028797018963968) (3602879701896397 / 36028797018963968)
     (3602879701896397 / 18014398509481984) (3602879701896397 / 36028797018963968) \<and>
   adherence_symptom_isolation_f64 (3602879701896397 / 36028797018963968) (3602879701896397 / 36028797018963968)
     (3602879701896397 / 18014398509481984) (3602879701896397 / 36028797018963968) \<noteq>
   3602879701896397 / 36028797018963968 *
     (3602879701896397 / 36028797018963968 * (3602879701896397 / 18014398509481984) +
      (1 - 3602879701896397 / 36028797018963968) * (3602879701896397 / 36028797018963968))"
  unfolding adherence_f64_value adherence_formula_f64_value round64_at_10 round64_at_11
  by simp

section \<open>Frames with finite frequencies\<close>

lemma pd_sum_Fin_comp: "pd_sum (map (Fin \<circ> f) xs) = Fin (sum_list (map f xs))"
  using pd_sum_Fin [of "map f xs"] by simp

lemma nonneg_is_fin: "nonneg x \<Longrightarrow> is_fin x"
  by (cases x) (simp_all add: nonneg_def)

lemma nonneg_val: "nonneg x \<Longrightarrow> 0 \<le> val x"
  by (cases x) (simp_all add: nonneg_def)

lemma nonneg_frame_fin: "nonneg_frame df \<Longrightarrow> fin_frame df"
  by (auto simp: nonneg_frame_def fin_frame_def list_all_iff nonneg_is_fin)

lemma frequency_fin: "fin_frame df \<Longrightarrow> frequency df = map Fin (vals df)"
  using all_fin_map_val [of "frequency df"]
  by (simp add: fin_frame_def vals_def list_all_iff)

lemma length_vals [simp]: "length (vals df) = length df"
  by (simp add: vals_def frequency_def)

lemma length_zeroed [simp]: "length (zeroed df) = length df"
  by (simp add: zeroed_def)

lemma delay_zero_negative_delays [simp]: "delay (zero_negative_delays df) = delay df"
  by (simp add: delay_def zero_negative_delays_def comp_def)

lemma delay_renormalise [simp]: "delay (renormalise df) = delay df"
  by (simp add: delay_def renormalise_def comp_def)

lemma frequency_zero_negative_delays:
  "fin_frame df \<Longrightarrow> frequency (zero_negative_delays df) = map Fin (zeroed df)"
  by (induction df)
    (auto simp: fin_frame_def frequency_def zero_negative_delays_def zeroed_def
      zero_pyfloat_def is_fin_val)

lemma frequency_renormalise:
  "frequency (renormalise df) = map (\<lambda>f. f / pd_sum (frequency df)) (frequency df)"
  by (simp add: frequency_def renormalise_def comp_def)

lemma frequency_zip: "length ds = length fs \<Longrightarrow> frequency (zip ds fs) = fs"
  by (simp add: frequency_def)

lemma delay_zip: "length ds = length fs \<Longrightarrow> delay (zip ds fs) = ds"
  by (simp add: delay_def)

lemma filter_zip_Fin:
  "frequency (filter (\<lambda>row. P (fst row)) (zip ds (map Fin xs))) =
   map Fin (map snd (filter (\<lambda>row. P (fst row)) (zip ds xs)))"
  by (induction ds xs rule: list_induct2') (simp_all add: frequency_def)

lemma sum_zeroed:
  "fin_frame df \<Longrightarrow>
   pd_sum (frequency (filter (\<lambda>row. 0 \<le> fst row) df)) = Fin (sum_list (zeroed df))"
proof -
  assume "fin_frame df"
  then have "frequency (filter (\<lambda>row. 0 \<le> fst row) df) =
             map Fin (map (\<lambda>row. val (snd row)) (filter (\<lambda>row. 0 \<le> fst row) df))"
    by (induction df) (auto simp: fin_frame_def frequency_def is_fin_val)
  moreover have "sum_list (map (\<lambda>row. val (snd row)) (filter (\<lambda>row. 0 \<le> fst row) df)) =
                 sum_list (zeroed df)"
    by (induction df) (auto simp: zeroed_def)
  ultimately show ?thesis
    using pd_sum_Fin [of "map (\<lambda>row. val (snd row)) (filter (\<lambda>row. 0 \<le> fst row) df)"]
    by (simp only:)
qed

lemma gcii_fin:
  assumes "b \<noteq> []" "length b \<le> length a"
    and a: "frequency a = map Fin xs" and b: "frequency b = map Fin ys"
  shows "get_contact_isolation_impact a b =
         Inr (Fin (tail_sum (delay a) (same_window xs (rev ys))))"
proof -
  have "same_window (frequency a) (rev (frequency b)) = map Fin (same_window xs (rev ys))"
    unfolding a b using same_window_Fin [of xs "rev ys"] by (simp only: rev_map)
  then show ?thesis
    unfolding get_contact_isolation_impact_Inr [OF assms(1,2)]
    by (simp add: filter_zip_Fin pd_sum_Fin_comp tail_sum_def)
qed

lemma gcii_nan:
  assumes "b \<noteq> []" "length b \<le> length a"
    and a: "\<forall>f\<in>set (frequency a). f = NaN"
  shows "get_contact_isolation_impact a b = Inr (Fin 0)"
proof -
  have "rev (frequency b) \<noteq> []"
    using assms(1) by (simp add: frequency_def)
  from same_window_all_nan [OF a this]
  have "\<forall>z\<in>set (same_window (frequency a) (rev (frequency b))). z = NaN" .
  then have "\<forall>z\<in>set (frequency (filter (\<lambda>row. 0 < fst row)
               (zip (delay a) (same_window (frequency a) (rev (frequency b)))))). z = NaN"
    by (auto simp: frequency_def dest: set_zip_rightD)
  then show ?thesis
    unfolding get_contact_isolation_impact_Inr [OF assms(1,2)]
    by (simp add: pd_sum_all_nan)
qed

lemma renormalise_regular:
  assumes "fin_frame df" "sum_list (zeroed df) \<noteq> 0"
  shows "frequency (renormalise (zero_negative_delays df)) =
         map Fin (map (\<lambda>x. x / sum_list (zeroed df)) (zeroed df))"
  using assms
  by (simp add: frequency_renormalise frequency_zero_negative_delays pd_sum_Fin)

lemma sum_list_all_zero: "\<forall>x\<in>set xs. x = (0::real) \<Longrightarrow> sum_list xs = 0"
  by (induction xs) simp_all

lemma renormalise_degenerate:
  assumes "fin_frame df" "\<forall>x\<in>set (zeroed df). x = 0"
  shows "\<forall>f\<in>set (frequency (renormalise (zero_negative_delays df))). f = NaN"
proof -
  have "sum_list (zeroed df) = 0"
    using assms(2) by (rule sum_list_all_zero)
  then show ?thesis
    using assms
    by (auto simp: frequency_renormalise frequency_zero_negative_delays pd_sum_Fin)
qed

lemma gsacs_degenerate:
  assumes "s2t \<noteq> []" "length si = length s2t" "length ttc = length s2t"
    and "fin_frame s2t" "\<forall>x\<in>set (zeroed s2t). x = 0"
  shows "get_symptom_and_contact_success sis sr asr c pn s2t si ttc =
         Inr (sis * sr * asr * pn * c * Fin 0)"
proof -
  let ?n = "renormalise (zero_negative_delays s2t)"
  have len: "length ?n = length s2t"
    by (simp add: renormalise_def zero_negative_delays_def)
  have si: "si \<noteq> []" "length si \<le> length ?n"
    using assms len by auto
  let ?t = "zip (delay ?n) (same_window (frequency ?n) (frequency si))"
  have t: "get_time_to_tertiary_infection ?n si = Inr ?t"
    by (rule get_time_to_tertiary_infection_Inr [OF si])
  have lt: "length (delay ?n) = length (same_window (frequency ?n) (frequency si))"
    using si len by (simp add: delay_def frequency_def length_same_window)
  then have ttc: "ttc \<noteq> []" "length ttc \<le> length ?t"
    using assms len by (auto simp: delay_def)
  have "frequency si \<noteq> []"
    using si by (simp add: frequency_def)
  from same_window_all_nan [OF renormalise_degenerate [OF assms(4,5)] this]
  have "\<forall>f\<in>set (frequency ?t). f = NaN"
    unfolding frequency_zip [OF lt] .
  from gcii_nan [OF ttc this] t show ?thesis
    by (simp add: get_symptom_and_contact_success_def)
qed

lemma gsacs_regular:
  assumes "s2t \<noteq> []" "length si = length s2t" "length ttc = length s2t"
    and "fin_frame s2t" "fin_frame si" "fin_frame ttc" "sum_list (zeroed s2t) \<noteq> 0"
  shows "get_symptom_and_contact_success sis sr asr c pn s2t si ttc =
         Inr (sis * sr * asr * pn * c *
              Fin (tail_sum (delay s2t)
                     (same_window
                        (same_window (map (\<lambda>x. x / sum_list (zeroed s2t)) (zeroed s2t))
                           (vals si))
                        (rev (vals ttc)))))"
proof -
  let ?n = "renormalise (zero_negative_delays s2t)"
  let ?w = "same_window (map (\<lambda>x. x / sum_list (zeroed s2t)) (zeroed s2t)) (vals si)"
  have len: "length ?n = length s2t"
    by (simp add: renormalise_def zero_negative_delays_def)
  have si: "si \<noteq> []" "length si \<le> length ?n"
    using assms len by auto
  let ?t = "zip (delay ?n) (same_window (frequency ?n) (frequency si))"
  have t: "get_time_to_tertiary_infection ?n si = Inr ?t"
    by (rule get_time_to_tertiary_infection_Inr [OF si])
  have lt: "length (delay ?n) = length (same_window (frequency ?n) (frequency si))"
    using si len by (simp add: delay_def frequency_def length_same_window)
  then have ttc: "ttc \<noteq> []" "length ttc \<le> length ?t"
    using assms len by (auto simp: delay_def)
  have "same_window (frequency ?n) (frequency si) = map Fin ?w"
    by (simp only: renormalise_regular [OF assms(4,7)] frequency_fin [OF assms(5)]
        same_window_Fin)
  then have ft: "frequency ?t = map Fin ?w"
    using frequency_zip [OF lt] by simp
  have dt: "delay ?t = delay s2t"
    using delay_zip [OF lt] by simp
  from gcii_fin [OF ttc ft frequency_fin [OF assms(6)]] t dt show ?thesis
    by (simp add: get_symptom_and_contact_success_def)
qed

section \<open>A secondary-symptoms-to-tertiary PMF without mass; nobody notified\<close>

lemma zeroed_nonneg: "nonneg_frame df \<Longrightarrow> \<forall>x\<in>set (zeroed df). 0 \<le> x"
  by (auto simp: nonneg_frame_def zeroed_def frequency_def list_all_iff nonneg_val)

lemma zeroed_all_zero:
  assumes "nonneg_frame df" "sum_list (zeroed df) = 0"
  shows "\<forall>x\<in>set (zeroed df). x = 0"
  using zeroed_nonneg [OF assms(1)] assms(2)
  by (simp add: sum_list_nonneg_eq_0_iff)

lemma mass_zeroed:
  "fin_frame df \<Longrightarrow> pd_sum (frequency (zero_negative_delays df)) = Fin (sum_list (zeroed df))"
  by (simp add: frequency_zero_negative_delays pd_sum_Fin)

subsection \<open>A NaN in the first row\<close>

lemma padd_nth_nan_left:
  "k < length xs \<Longrightarrow> xs ! k = NaN \<Longrightarrow> padd xs ys ! k = (NaN::pyfloat)"
proof (induction xs ys arbitrary: k rule: padd.induct)
  case (1 ys)
  then show ?case by simp
next
  case (2 x xs)
  then show ?case by simp
next
  case (3 x xs y ys)
  then show ?case by (cases k) simp_all
qed

lemma padd_nth_nan_right:
  "k < length ys \<Longrightarrow> ys ! k = NaN \<Longrightarrow> padd xs ys ! k = (NaN::pyfloat)"
proof (induction xs ys arbitrary: k rule: padd.induct)
  case (1 ys)
  then show ?case by simp
next
  case (2 x xs)
  then show ?case by simp
next
  case (3 x xs y ys)
  show ?case
  proof (cases k)
    case 0
    then show ?thesis
      using 3 by (cases x) simp_all
  next
    case (Suc k')
    then show ?thesis
      using 3 by simp
  qed
qed

lemma conv_full_nth_nan:
  "p < length a \<Longrightarrow> a ! p = NaN \<Longrightarrow> j < length v \<Longrightarrow>
   conv_full a v ! (p + j) = (NaN::pyfloat)"
proof (induction a arbitrary: p)
  case Nil
  then show ?case by simp
next
  case (Cons x xs)
  show ?case
  proof (cases p)
    case 0
    then have "map (\<lambda>y. x * y) v ! j = NaN"
      using Cons.prems by simp
    then show ?thesis
      using 0 Cons.prems(3) by (simp add: padd_nth_nan_left)
  next
    case (Suc p')
    then have p': "p' < length xs" "xs ! p' = NaN"
      using Cons.prems by simp_all
    have v: "v \<noteq> []"
      using Cons.prems(3) by auto
    have "xs \<noteq> []"
      using p' by auto
    then have "p' + j < length (conv_full xs v)"
      using p' Cons.prems(3) by (simp add: length_conv_full [OF v])
    moreover have "conv_full xs v ! (p' + j) = NaN"
      by (rule Cons.IH [OF p' Cons.prems(3)])
    ultimately have "Suc (p' + j) < length (0 # conv_full xs v)"
      and "(0 # conv_full xs v) ! Suc (p' + j) = NaN"
      by simp_all
    then show ?thesis
      unfolding Suc conv_full.simps add_Suc by (rule padd_nth_nan_right)
  qed
qed

lemma same_window_nth:
  assumes "v \<noteq> []" "length v \<le> length a" "i < length a"
  shows "same_window a v ! i = conv_full a v ! (i + (length v - 1) div 2)"
proof -
  have "a \<noteq> []"
    using assms(3) by auto
  moreover have "(length v - 1) div 2 \<le> length v - 1" "0 < length v"
    using assms(1) by simp_all
  moreover from this have "i + (length v - 1) div 2 < length a + length v - 1"
    using assms(3) by linarith
  ultimately have "i + (length v - 1) div 2 < length (conv_full a v)"
    using assms(1) by (simp add: length_conv_full)
  then show ?thesis
    using assms(3) by (simp add: same_window_def add.commute)
qed

text \<open>
  A NaN in the first position of a PMF reaches every position of the difference
  distribution that \<open>get_contact_isolation_impact\<close> sums.
\<close>

lemma same_window_hd_nan:
  assumes "length v = length a" "a \<noteq> []" "a ! 0 = NaN"
    and "i + (length a - 1) div 2 < length a"
  shows "same_window a v ! i = (NaN::pyfloat)"
proof -
  have v: "v \<noteq> []" "length v \<le> length a"
    using assms(1,2) by auto
  have i: "i < length a"
    using assms(4) by simp
  have "conv_full a v ! (0 + (i + (length v - 1) div 2)) = NaN"
    using assms by (intro conv_full_nth_nan) simp_all
  then show ?thesis
    by (simp add: same_window_nth [OF v i])
qed

lemma same_window_twice_nan:
  assumes "length v = length a" "length w = length a" "a \<noteq> []" "a ! 0 = NaN"
  shows "\<forall>z\<in>set (same_window (same_window a v) w). z = (NaN::pyfloat)"
proof -
  let ?n = "length a" and ?s = "(length a - 1) div 2"
  let ?t = "same_window a v"
  have n: "0 < ?n"
    using assms(3) by simp
  have v: "v \<noteq> []" "length v \<le> length a"
    using assms(1,3) by auto
  have lt: "length ?t = ?n"
    by (rule length_same_window [OF v])
  have w: "w \<noteq> []" "length w \<le> length ?t"
    using assms(2,3) lt by auto
  have lg: "length (same_window ?t w) = ?n"
    using length_same_window [OF w] lt by simp
  have nan: "same_window ?t w ! i = NaN" if i: "i < ?n" for i
  proof -
    have i': "i < length ?t"
      using i lt by simp
    define p where "p = (i + ?s) - (?n - 1)"
    define j where "j = i + ?s - p"
    have s2: "2 * ?s \<le> ?n - 1"
      by simp
    have p: "p + ?s < ?n"
      using i n s2 unfolding p_def by linarith
    have j: "j < length w" "p + j = i + ?s"
      using i n assms(2) unfolding j_def p_def by linarith+
    have "?t ! p = NaN"
      using assms(1,3,4) p by (intro same_window_hd_nan) simp_all
    moreover have "p < length ?t"
      using p lt by simp
    ultimately have "conv_full ?t w ! (p + j) = NaN"
      using j(1) by (intro conv_full_nth_nan)
    then show ?thesis
      using same_window_nth [OF w i'] j(2) assms(2) by simp
  qed
  show ?thesis
    unfolding all_set_conv_all_nth lg using nan by blast
qed

lemma gcii_window_nan:
  assumes "b \<noteq> []" "length b \<le> length a"
    and "\<forall>z\<in>set (same_window (frequency a) (rev (frequency b))). z = NaN"
  shows "get_contact_isolation_impact a b = Inr (Fin 0)"
proof -
  have "\<forall>z\<in>set (frequency (filter (\<lambda>row. 0 < fst row)
               (zip (delay a) (same_window (frequency a) (rev (frequency b)))))). z = NaN"
    using assms(3) by (auto simp: frequency_def dest: set_zip_rightD)
  then show ?thesis
    unfolding get_contact_isolation_impact_Inr [OF assms(1,2)]
    by (simp add: pd_sum_all_nan)
qed

lemma gsacs_poisoned:
  assumes "s2t \<noteq> []" "length si = length s2t" "length ttc = length s2t"
    and "fin_frame s2t" "sum_list (zeroed s2t) = 0" "hd (zeroed s2t) = 0"
  shows "get_symptom_and_contact_success sis sr asr c pn s2t si ttc =
         Inr (sis * sr * asr * pn * c * Fin 0)"
proof -
  let ?n = "renormalise (zero_negative_delays s2t)"
  have len: "length ?n = length s2t"
    by (simp add: renormalise_def zero_negative_delays_def)
  have si: "si \<noteq> []" "length si \<le> length ?n"
    using assms len by auto
  let ?t = "zip (delay ?n) (same_window (frequency ?n) (frequency si))"
  have t: "get_time_to_tertiary_infection ?n si = Inr ?t"
    by (rule get_time_to_tertiary_infection_Inr [OF si])
  have lt: "length (delay ?n) = length (same_window (frequency ?n) (frequency si))"
    using si len by (simp add: delay_def frequency_def length_same_window)
  then have ttc: "ttc \<noteq> []" "length ttc \<le> length ?t"
    using assms len by (auto simp: delay_def)
  have fn: "frequency ?n = map (\<lambda>x. Fin x / Fin 0) (zeroed s2t)"
    by (simp add: frequency_renormalise frequency_zero_negative_delays [OF assms(4)]
        pd_sum_Fin assms(5) comp_def)
  have z: "zeroed s2t \<noteq> []"
    using assms(1) by (simp add: zeroed_def)
  then obtain z0 zs where zz: "zeroed s2t = z0 # zs"
    by (cases "zeroed s2t") auto
  then have "z0 = 0"
    using assms(6) by simp
  then have nan: "frequency ?n ! 0 = NaN"
    unfolding fn zz by simp
  have "\<forall>z\<in>set (same_window (same_window (frequency ?n) (frequency si))
                    (rev (frequency ttc))). z = NaN"
    using assms(1-3) z nan len
    by (intro same_window_twice_nan) (auto simp: frequency_def)
  then have "\<forall>z\<in>set (same_window (frequency ?t) (rev (frequency ttc))). z = NaN"
    unfolding frequency_zip [OF lt] .
  from gcii_window_nan [OF ttc this] t show ?thesis
    by (simp add: get_symptom_and_contact_success_def)
qed

lemma canonical_hd_zeroed:
  assumes "canonical_axis df" "sum_list (zeroed df) = 0"
  shows "hd (zeroed df) = 0"
proof (cases df)
  case Nil
  then show ?thesis
    using assms(1) by (simp add: canonical_axis_def delay_def)
next
  case (Cons row rest)
  show ?thesis
  proof (cases rest)
    case Nil
    then show ?thesis
      using assms(2) Cons by (simp add: zeroed_def)
  next
    case (Cons row' rest')
    have "1 \<le> int (length df) div 2"
      using \<open>df = row # rest\<close> Cons by simp
    moreover from this have "hd [- (int (length df) div 2) .. int (length df) div 2] =
          - (int (length df) div 2)"
      by (subst upto_rec1) simp_all
    moreover have "hd (delay df) = fst row"
      using \<open>df = row # rest\<close> by (simp add: delay_def)
    ultimately have "fst row < 0"
      using assms(1) by (simp add: canonical_axis_def)
    then show ?thesis
      using \<open>df = row # rest\<close> by (simp add: zeroed_def)
  qed
qed

lemma zero_mass_hd_zeroed:
  assumes "canonical_axis df \<or> nonneg_frame df" "df \<noteq> []" "sum_list (zeroed df) = 0"
  shows "hd (zeroed df) = 0"
  using assms(1)
proof
  assume "canonical_axis df"
  then show ?thesis
    using assms(3) by (rule canonical_hd_zeroed)
next
  assume "nonneg_frame df"
  have "zeroed df \<noteq> []"
    using assms(2) by (simp add: zeroed_def)
  then have "hd (zeroed df) \<in> set (zeroed df)"
    by (rule hd_in_set)
  with zeroed_all_zero [OF \<open>nonneg_frame df\<close> assms(3)] show ?thesis
    by blast
qed

lemma gsacs_fin:
  assumes "s2t \<noteq> []" "length si = length s2t" "length ttc = length s2t"
    and "fin_frame s2t" "fin_frame si" "fin_frame ttc"
    and "sum_list (zeroed s2t) \<noteq> 0 \<or> canonical_axis s2t \<or> nonneg_frame s2t"
  shows "\<exists>k. \<forall>sis sr asr c pn.
           get_symptom_and_contact_success sis sr asr c pn s2t si ttc =
             Inr (sis * sr * asr * pn * c * Fin k)"
proof (cases "sum_list (zeroed s2t) = 0")
  case True
  then have "canonical_axis s2t \<or> nonneg_frame s2t"
    using assms(7) by simp
  from gsacs_poisoned [OF assms(1-4) True zero_mass_hd_zeroed [OF this assms(1) True]]
  show ?thesis by blast
next
  case False
  from gsacs_regular [OF assms(1-6) False] show ?thesis by blast
qed

text \<open>
  C7 (as amended). When hard-zeroing the negative delays of the secondary-symptoms-to-tertiary
  PMF (finite entries, on the canonical axis \<open>-B, \<dots>, B\<close> or non-negative) leaves total
  mass zero, the scenario evaluation raises nothing:
  the renormalisation divides 0 by 0, the NaN frequencies go through both convolutions, the
  NaN-skipping sum makes the conditional contact impact 0, and the record is returned with
  \<open>symptom_and_contact_success = 0\<close>.
\<close>

theorem zero_mass_gives_zero_not_error:
  assumes "secondary_symptoms_to_tertiary \<noteq> []"
    and "length serial_interval = length secondary_symptoms_to_tertiary"
    and "length total_time_to_contact = length secondary_symptoms_to_tertiary"
    and "length time_to_tertiary_infection = length secondary_symptoms_to_tertiary"
    and "fin_frame secondary_symptoms_to_tertiary"
    and "canonical_axis secondary_symptoms_to_tertiary \<or>
         nonneg_frame secondary_symptoms_to_tertiary"
    and "pd_sum (frequency (zero_negative_delays secondary_symptoms_to_tertiary)) = Fin 0"
  shows "metric ''symptom_and_contact_success''
           (TT_model_rum (Fin symptomatic_ascertainment_rate) (Fin symptomatic_rate)
              (Fin percentage_notified) (Fin compliance_with_symptom_isolation_test)
              (Fin compliance_with_symptom_isolation_no_test)
              (Fin compliance_with_contact_isolation) serial_interval
              secondary_symptoms_to_tertiary time_to_tertiary_infection
              total_time_to_contact) = Some (Fin 0)"
proof -
  note fin = assms(5)
  have zero: "sum_list (zeroed secondary_symptoms_to_tertiary) = 0"
    using assms(7) by (simp add: mass_zeroed [OF fin])
  note g = gsacs_poisoned [OF assms(1-3) fin zero
      zero_mass_hd_zeroed [OF assms(6) assms(1) zero]]
  from TT_model_rum_returns [OF assms(1-4)] obtain r where
    r: "TT_model_rum (Fin symptomatic_ascertainment_rate) (Fin symptomatic_rate)
              (Fin percentage_notified) (Fin compliance_with_symptom_isolation_test)
              (Fin compliance_with_symptom_isolation_no_test)
              (Fin compliance_with_contact_isolation) serial_interval
              secondary_symptoms_to_tertiary time_to_tertiary_infection
              total_time_to_contact = Inr r"
    by blast
  have "r ''symptom_and_contact_success'' = Some (Fin 0)"
    using r
    by (rule TT_model_rum_InrE) (simp add: g sum_zeroed [OF fin] one_pyfloat_def)
  then show ?thesis
    by (simp add: metric_def r)
qed

lemmas eval_defs =
  metric_def TT_model_rum_def get_symptom_and_contact_success_def
  get_contact_isolation_impact_def get_time_to_tertiary_infection_def np_convolve_same_def
  same_window_def DataFrame_def delay_def frequency_def pd_sum_def renormalise_def
  zero_negative_delays_def zero_pyfloat_def one_pyfloat_def Let_def

theorem zero_mass_gives_zero_not_error_witness:
  "metric ''symptom_and_contact_success''
     (TT_model_rum (Fin (1/2)) (Fin (7/10)) (Fin (3/5)) (Fin (9/10)) (Fin (3/10)) (Fin (4/5))
        [(- 1, Fin 0), (0, Fin (1/2)), (1, Fin (1/2))]
        [(- 1, Fin 1), (0, Fin 0), (1, Fin 0)]
        [(- 1, Fin (1/2)), (0, Fin (1/2)), (1, Fin 0)]
        [(- 1, Fin 0), (0, Fin 1), (1, Fin 0)]) = Some (Fin 0)"
proof (rule zero_mass_gives_zero_not_error)
  show "canonical_axis [(- 1, Fin 1), (0, Fin 0), (1, Fin 0)] \<or>
        nonneg_frame [(- 1, Fin 1), (0, Fin 0), (1, Fin 0)]"
    by (rule disjI2) (simp add: nonneg_frame_def nonneg_def frequency_def)
qed (simp_all add: fin_frame_def frequency_def pd_sum_def zero_negative_delays_def
    zero_pyfloat_def)

text \<open>
  C7 as the specification states it does not hold: a PMF with all its mass at a negative
  delay has no mass left after the hard-zeroing, and the scenario evaluation returns a
  record, with \<open>symptom_and_contact_success = 0\<close>.
\<close>

theorem zero_mass_raises_no_error:
  "pd_sum (frequency (zero_negative_delays [(- 1, Fin 1), (0, Fin 0), (1, Fin 0)])) = Fin 0 \<and>
   \<not> isl (TT_model_rum (Fin (1/2)) (Fin (7/10)) (Fin (3/5)) (Fin (9/10)) (Fin (3/10))
            (Fin (4/5))
            [(- 1, Fin 0), (0, Fin (1/2)), (1, Fin (1/2))]
            [(- 1, Fin 1), (0, Fin 0), (1, Fin 0)]
            [(- 1, Fin (1/2)), (0, Fin (1/2)), (1, Fin 0)]
            [(- 1, Fin 0), (0, Fin 1), (1, Fin 0)]) \<and>
   metric ''symptom_and_contact_success''
     (TT_model_rum (Fin (1/2)) (Fin (7/10)) (Fin (3/5)) (Fin (9/10)) (Fin (3/10)) (Fin (4/5))
        [(- 1, Fin 0), (0, Fin (1/2)), (1, Fin (1/2))]
        [(- 1, Fin 1), (0, Fin 0), (1, Fin 0)]
        [(- 1, Fin (1/2)), (0, Fin (1/2)), (1, Fin 0)]
        [(- 1, Fin 0), (0, Fin 1), (1, Fin 0)]) = Some (Fin 0)"
  by (simp add: eval_defs)

text \<open>
  C4. With \<open>percentage_notified = 0\<close>, finite parameters and aligned distributions with
  finite entries (the secondary-symptoms-to-tertiary PMF being on the canonical axis
  \<open>-B, \<dots>, B\<close>, or non-negative, or of non-zero hard-zeroed mass), the record has
  \<open>proportion_contacts_reached\<close>, \<open>proportion_contacts_reached_compliant\<close>,
  \<open>contact_isolation_success\<close> and
  \<open>symptom_and_contact_success\<close> equal to 0, \<open>transmission_averted\<close> equal to
  \<open>symptom_isolation_success\<close>, and \<open>marginal_impact\<close> equal to 0.
\<close>

theorem nobody_notified:
  assumes "secondary_symptoms_to_tertiary \<noteq> []"
    and "length serial_interval = length secondary_symptoms_to_tertiary"
    and "length total_time_to_contact = length secondary_symptoms_to_tertiary"
    and "length time_to_tertiary_infection = length secondary_symptoms_to_tertiary"
    and "fin_frame serial_interval" "fin_frame secondary_symptoms_to_tertiary"
    and "fin_frame time_to_tertiary_infection" "fin_frame total_time_to_contact"
    and "pd_sum (frequency (zero_negative_delays secondary_symptoms_to_tertiary)) \<noteq> Fin 0 \<or>
         canonical_axis secondary_symptoms_to_tertiary \<or>
         nonneg_frame secondary_symptoms_to_tertiary"
    and "res = TT_model_rum (Fin symptomatic_ascertainment_rate) (Fin symptomatic_rate)
              (Fin 0) (Fin compliance_with_symptom_isolation_test)
              (Fin compliance_with_symptom_isolation_no_test)
              (Fin compliance_with_contact_isolation) serial_interval
              secondary_symptoms_to_tertiary time_to_tertiary_infection
              total_time_to_contact"
  shows "metric ''proportion_contacts_reached'' res = Some (Fin 0) \<and>
         metric ''proportion_contacts_reached_compliant'' res = Some (Fin 0) \<and>
         metric ''contact_isolation_success'' res = Some (Fin 0) \<and>
         metric ''symptom_and_contact_success'' res = Some (Fin 0) \<and>
         (\<exists>sis. metric ''symptom_isolation_success'' res = Some (Fin sis) \<and>
                metric ''transmission_averted'' res = Some (Fin sis)) \<and>
         metric ''marginal_impact'' res = Some (Fin 0)"
proof -
  let ?s2t = secondary_symptoms_to_tertiary
  have "sum_list (zeroed ?s2t) \<noteq> 0 \<or> canonical_axis ?s2t \<or> nonneg_frame ?s2t"
    using assms(9) by (simp add: mass_zeroed [OF assms(6)])
  from gsacs_fin [OF assms(1-3) assms(6) assms(5) assms(8) this]
  obtain k where k: "\<And>sis sr asr c pn.
      get_symptom_and_contact_success sis sr asr c pn ?s2t serial_interval
        total_time_to_contact = Inr (sis * sr * asr * pn * c * Fin k)"
    by blast
  have ttc: "total_time_to_contact \<noteq> []"
    "length total_time_to_contact \<le> length time_to_tertiary_infection"
    using assms(1,3,4) by auto
  note a = gcii_fin [OF ttc frequency_fin [OF assms(7)] frequency_fin [OF assms(8)]]
  from TT_model_rum_returns [OF assms(1-4)] obtain r where r: "res = Inr r"
    unfolding assms(10) by blast
  show ?thesis
    using r [unfolded assms(10)] unfolding r
    by (rule TT_model_rum_InrE)
      (auto simp add: metric_def k a sum_zeroed [OF assms(6)] one_pyfloat_def)
qed

theorem nobody_notified_witness:
  "metric ''proportion_contacts_reached''
     (TT_model_rum (Fin (1/2)) (Fin (7/10)) (Fin 0) (Fin (9/10)) (Fin (3/10)) (Fin (4/5))
        [(- 1, Fin 0), (0, Fin (1/2)), (1, Fin (1/2))]
        [(- 1, Fin (1/4)), (0, Fin (1/2)), (1, Fin (1/4))]
        [(- 1, Fin (1/8)), (0, Fin (3/8)), (1, Fin (3/8))]
        [(- 1, Fin 0), (0, Fin 1), (1, Fin 0)]) = Some (Fin 0) \<and>
   metric ''symptom_and_contact_success''
     (TT_model_rum (Fin (1/2)) (Fin (7/10)) (Fin 0) (Fin (9/10)) (Fin (3/10)) (Fin (4/5))
        [(- 1, Fin 0), (0, Fin (1/2)), (1, Fin (1/2))]
        [(- 1, Fin (1/4)), (0, Fin (1/2)), (1, Fin (1/4))]
        [(- 1, Fin (1/8)), (0, Fin (3/8)), (1, Fin (3/8))]
        [(- 1, Fin 0), (0, Fin 1), (1, Fin 0)]) = Some (Fin 0) \<and>
   metric ''marginal_impact''
     (TT_model_rum (Fin (1/2)) (Fin (7/10)) (Fin 0) (Fin (9/10)) (Fin (3/10)) (Fin (4/5))
        [(- 1, Fin 0), (0, Fin (1/2)), (1, Fin (1/2))]
        [(- 1, Fin (1/4)), (0, Fin (1/2)), (1, Fin (1/4))]
        [(- 1, Fin (1/8)), (0, Fin (3/8)), (1, Fin (3/8))]
        [(- 1, Fin 0), (0, Fin 1), (1, Fin 0)]) = Some (Fin 0)"
proof -
  have "[(- 1, Fin (1/4)), (0, Fin (1/2)), (1, Fin (1/4))] \<noteq> ([]::dataframe)"
    and "length [(- 1::int, Fin 0), (0, Fin (1/2)), (1, Fin (1/2))] =
         length [(- 1::int, Fin (1/4)), (0, Fin (1/2)), (1, Fin (1/4))]"
    and "length [(- 1::int, Fin 0), (0, Fin 1), (1, Fin 0)] =
         length [(- 1::int, Fin (1/4)), (0, Fin (1/2)), (1, Fin (1/4))]"
    and "length [(- 1::int, Fin (1/8)), (0, Fin (3/8)), (1, Fin (3/8))] =
         length [(- 1::int, Fin (1/4)), (0, Fin (1/2)), (1, Fin (1/4))]"
    and "fin_frame [(- 1, Fin 0), (0, Fin (1/2)), (1, Fin (1/2))]"
    and "fin_frame [(- 1, Fin (1/4)), (0, Fin (1/2)), (1, Fin (1/4))]"
    and "fin_frame [(- 1, Fin (1/8)), (0, Fin (3/8)), (1, Fin (3/8))]"
    and "fin_frame [(- 1, Fin 0), (0, Fin 1), (1, Fin 0)]"
    and "pd_sum (frequency (zero_negative_delays
            [(- 1, Fin (1/4)), (0, Fin (1/2)), (1, Fin (1/4))])) \<noteq> Fin 0 \<or>
         canonical_axis [(- 1, Fin (1/4)), (0, Fin (1/2)), (1, Fin (1/4))] \<or>
         nonneg_frame [(- 1, Fin (1/4)), (0, Fin (1/2)), (1, Fin (1/4))]"
    by (simp_all add: fin_frame_def frequency_def pd_sum_def
        zero_negative_delays_def zero_pyfloat_def)
  from nobody_notified [OF this refl, of "1/2" "7/10" "9/10" "3/10" "4/5"]
  show ?thesis by blast
qed

section \<open>The tail probability\<close>

lemma zip_as_map_nth:
  "length ds = length xs \<Longrightarrow> zip ds xs = map (\<lambda>i. (ds ! i, xs ! i)) [0..<length xs]"
proof (rule nth_equalityI)
  assume "length ds = length xs"
  then show "length (zip ds xs) = length (map (\<lambda>i. (ds ! i, xs ! i)) [0..<length xs])"
    by simp
next
  fix i
  assume "length ds = length xs" "i < length (zip ds xs)"
  then show "zip ds xs ! i = map (\<lambda>i. (ds ! i, xs ! i)) [0..<length xs] ! i"
    by simp
qed

lemma tail_sum_index:
  assumes "length ds = length xs"
  shows "tail_sum ds xs = (\<Sum>i\<leftarrow>[0..<length xs]. if 0 < ds ! i then xs ! i else 0)"
proof -
  have "tail_sum ds xs =
        sum_list (map (\<lambda>row. if 0 < fst row then snd row else 0) (zip ds xs))"
    unfolding tail_sum_def by (rule sum_list_map_filter') 
  also have "\<dots> = (\<Sum>i\<leftarrow>[0..<length xs]. if 0 < ds ! i then xs ! i else 0)"
    unfolding zip_as_map_nth [OF assms] by (simp add: comp_def cong: if_cong)
  finally show ?thesis .
qed

lemma sum_list_Fin_if:
  "(\<Sum>i\<leftarrow>is. if P i then Fin (f i) else 0) = Fin (\<Sum>i\<leftarrow>is. if P i then f i else 0)"
  by (induction "is") (simp_all add: zero_pyfloat_def)

text \<open>
  C6. For two PMFs of the same length with finite frequencies,
  \<open>get_contact_isolation_impact\<close> returns the sum, over the positions whose delay is strictly
  greater than 0, of the \<open>'same'\<close>-mode convolution of the first PMF's frequencies with the
  reversed frequencies of the second; the position of delay 0 does not contribute.
\<close>

theorem contact_isolation_impact_is_positive_tail:
  assumes "dist_b \<noteq> []" "length dist_b = length dist_a"
    and "fin_frame dist_a" "fin_frame dist_b"
  shows "get_contact_isolation_impact dist_a dist_b =
         Inr (tail_probability_positive_spec dist_a dist_b)"
proof -
  let ?w = "same_window (vals dist_a) (rev (vals dist_b))"
  have le: "length dist_b \<le> length dist_a"
    using assms(2) by simp
  have "rev (vals dist_b) \<noteq> []" "length (rev (vals dist_b)) \<le> length (vals dist_a)"
    using assms(1,2) by (simp_all add: vals_def frequency_def)
  then have len: "length ?w = length dist_a"
    by (simp add: length_same_window)
  have w: "same_window (frequency dist_a) (rev (frequency dist_b)) = map Fin ?w"
    unfolding frequency_fin [OF assms(3)] frequency_fin [OF assms(4)]
    using same_window_Fin [of "vals dist_a" "rev (vals dist_b)"] by (simp only: rev_map)
  have "tail_probability_positive_spec dist_a dist_b =
        (\<Sum>i\<leftarrow>[0..<length dist_a]. if 0 < delay dist_a ! i then Fin (?w ! i) else 0)"
    unfolding tail_probability_positive_spec_def w
    by (rule arg_cong [where f = sum_list]) (simp add: len)
  also have "\<dots> = Fin (tail_sum (delay dist_a) ?w)"
    using tail_sum_index [of "delay dist_a" ?w]
    by (simp add: sum_list_Fin_if len delay_def)
  finally show ?thesis
    using gcii_fin [OF assms(1) le frequency_fin [OF assms(3)] frequency_fin [OF assms(4)]]
    by simp
qed

theorem contact_isolation_impact_is_positive_tail_witness:
  "get_contact_isolation_impact
     [(- 1, Fin (1/8)), (0, Fin (3/8)), (1, Fin (1/2))]
     [(- 1, Fin (1/4)), (0, Fin (3/4)), (1, Fin 0)] =
   Inr (tail_probability_positive_spec
     [(- 1, Fin (1/8)), (0, Fin (3/8)), (1, Fin (1/2))]
     [(- 1, Fin (1/4)), (0, Fin (3/4)), (1, Fin 0)]) \<and>
   tail_probability_positive_spec
     [(- 1, Fin (1/8)), (0, Fin (3/8)), (1, Fin (1/2))]
     [(- 1, Fin (1/4)), (0, Fin (3/4)), (1, Fin 0)] = Fin (15/32)"
proof -
  have "get_contact_isolation_impact
     [(- 1, Fin (1/8)), (0, Fin (3/8)), (1, Fin (1/2))]
     [(- 1, Fin (1/4)), (0, Fin (3/4)), (1, Fin 0)] =
   Inr (tail_probability_positive_spec
     [(- 1, Fin (1/8)), (0, Fin (3/8)), (1, Fin (1/2))]
     [(- 1, Fin (1/4)), (0, Fin (3/4)), (1, Fin 0)])"
    by (rule contact_isolation_impact_is_positive_tail)
      (simp_all add: fin_frame_def frequency_def)
  moreover have "get_contact_isolation_impact
     [(- 1, Fin (1/8)), (0, Fin (3/8)), (1, Fin (1/2))]
     [(- 1, Fin (1/4)), (0, Fin (3/4)), (1, Fin 0)] = Inr (Fin (15/32))"
    by (simp add: eval_defs)
  ultimately show ?thesis by simp
qed

section \<open>The delay axis of the empirical distribution\<close>

lemma arange_excludes_stop: "b \<notin> set (arange a b)"
  by (simp add: arange_def)

lemma process_TT_e2e_file_delay:
  assumes "process_TT_e2e_file interp1d_cubic table = Inr e2e_df"
  shows "delay e2e_df =
         arange \<lceil>Min (set (map (\<lambda>row. process_delay_column (fst row)) table))\<rceil>
                \<lfloor>Max (set (map (\<lambda>row. process_delay_column (fst row)) table))\<rfloor>"
  using assms
  by (auto simp: process_TT_e2e_file_def Let_def delay_def comp_def
      split: if_splits sum.splits)

text \<open>
  C9. The delay axis of the PMF that \<open>process_TT_e2e_file\<close> returns starts at the ceiling of
  the smallest mid point and stops one hour before the floor of the largest mid point: the
  last integer hour of the observed range is not on the axis.
\<close>

theorem e2e_axis_leaves_out_last_hour:
  assumes "process_TT_e2e_file interp1d_cubic table = Inr e2e_df"
  shows "delay e2e_df =
           [\<lceil>Min (set (map (\<lambda>row. process_delay_column (fst row)) table))\<rceil> ..
            \<lfloor>Max (set (map (\<lambda>row. process_delay_column (fst row)) table))\<rfloor> - 1] \<and>
         \<lfloor>Max (set (map (\<lambda>row. process_delay_column (fst row)) table))\<rfloor>
           \<notin> set (delay e2e_df)"
proof
  show "delay e2e_df =
           [\<lceil>Min (set (map (\<lambda>row. process_delay_column (fst row)) table))\<rceil> ..
            \<lfloor>Max (set (map (\<lambda>row. process_delay_column (fst row)) table))\<rfloor> - 1]"
    unfolding process_TT_e2e_file_delay [OF assms] arange_def ..
  show "\<lfloor>Max (set (map (\<lambda>row. process_delay_column (fst row)) table))\<rfloor>
           \<notin> set (delay e2e_df)"
    unfolding process_TT_e2e_file_delay [OF assms] by (rule arange_excludes_stop)
qed

theorem e2e_axis_leaves_out_last_hour_witness:
  "map_sum id delay
     (process_TT_e2e_file (\<lambda>tbl. Inr (\<lambda>x. Fin 1))
        [((0, 2), Fin (1/10)), ((2, 4), Fin (2/5)), ((4, 6), Fin (2/5)),
         ((6, 8), Fin (1/10))]) = Inr [1, 2, 3, 4, 5, 6]"
proof -
  have "process_TT_e2e_file (\<lambda>tbl. Inr (\<lambda>x. Fin 1))
        [((0, 2), Fin (1/10)), ((2, 4), Fin (2/5)), ((4, 6), Fin (2/5)),
         ((6, 8), Fin (1/10))] \<noteq> Inl ValueError"
    by (simp add: process_TT_e2e_file_def Let_def)
  then obtain df where df: "process_TT_e2e_file (\<lambda>tbl. Inr (\<lambda>x. Fin 1))
        [((0, 2), Fin (1/10)), ((2, 4), Fin (2/5)), ((4, 6), Fin (2/5)),
         ((6, 8), Fin (1/10))] = Inr df"
  proof (cases "process_TT_e2e_file (\<lambda>tbl. Inr (\<lambda>x. Fin 1))
        [((0, 2), Fin (1/10)), ((2, 4), Fin (2/5)), ((4, 6), Fin (2/5)),
         ((6, 8), Fin (1/10))]")
    case (Inl e)
    then show ?thesis
      using \<open>_ \<noteq> Inl ValueError\<close> by (cases e) simp
  next
    case (Inr df)
    then show ?thesis
      using that by blast
  qed
  have mn: "Min (set (map (\<lambda>row. process_delay_column (fst row))
                 [((0, 2), Fin (1/10)), ((2, 4), Fin (2/5)), ((4, 6), Fin (2/5)),
                  ((6, 8), Fin (1/10))])) = 1"
    and mx: "Max (set (map (\<lambda>row. process_delay_column (fst row))
                 [((0, 2), Fin (1/10)), ((2, 4), Fin (2/5)), ((4, 6), Fin (2/5)),
                  ((6, 8), Fin (1/10))])) = 7"
    by (simp_all add: process_delay_column_def)
  have "[\<lceil>1::real\<rceil>..\<lfloor>7::real\<rfloor> - 1] = [1, 2, 3, 4, 5, 6]"
    by (simp add: upto_rec1)
  with e2e_axis_leaves_out_last_hour [OF df] have "delay df = [1, 2, 3, 4, 5, 6]"
    unfolding mn mx by (simp only:)
  then show ?thesis
    by (simp add: df)
qed

section \<open>Total mass\<close>

lemma divide_fin_cases:
  assumes "is_fin (x / s)"
  shows "is_fin x \<and> ((\<exists>r. s = Fin r \<and> r \<noteq> 0) \<or> s = PInf \<or> s = NInf)"
  using assms by (cases x; cases s) (simp_all split: if_splits)

lemma sum_list_fin: "\<forall>x\<in>set xs. is_fin x \<Longrightarrow> is_fin (sum_list xs)"
proof -
  assume "\<forall>x\<in>set xs. is_fin x"
  then have "map Fin (map val xs) = xs"
    by (rule all_fin_map_val)
  then show ?thesis
    using sum_list_Fin [of "map val xs"] by (simp del: map_map)
qed

lemma pd_sum_fin: "\<forall>x\<in>set xs. is_fin x \<Longrightarrow> pd_sum xs = sum_list xs"
proof -
  assume "\<forall>x\<in>set xs. is_fin x"
  then have "map Fin (map val xs) = xs"
    by (rule all_fin_map_val)
  then show ?thesis
    using pd_sum_Fin [of "map val xs"] sum_list_Fin [of "map val xs"] by (simp del: map_map)
qed

lemma sum_list_divide_real: "sum_list (map (\<lambda>x. x / r) xs) = sum_list xs / (r::real)"
  by (induction xs) (simp_all add: add_divide_distrib)

lemma normalised_sum_one:
  assumes "xs \<noteq> []"
    and fin: "\<forall>y\<in>set (map (\<lambda>x. x / s) xs). is_fin y"
    and s: "s = pd_sum xs \<or> s = sum_list xs"
  shows "sum_list (map (\<lambda>x. x / s) xs) = Fin 1"
proof -
  have all: "\<forall>x\<in>set xs. is_fin x"
    using fin divide_fin_cases by auto
  then have xs: "map Fin (map val xs) = xs"
    by (rule all_fin_map_val)
  have s': "s = Fin (sum_list (map val xs))"
    using s pd_sum_fin [OF all] sum_list_Fin [of "map val xs"] unfolding xs by auto
  obtain x where "x \<in> set xs"
    using assms(1) by (cases xs) auto
  then have "is_fin (x / s)"
    using fin by simp
  from divide_fin_cases [OF this] s' have nz: "sum_list (map val xs) \<noteq> 0"
    by auto
  have "map (\<lambda>x. x / s) (map Fin (map val xs)) =
        map Fin (map (\<lambda>x. x / sum_list (map val xs)) (map val xs))"
    using nz by (simp add: s')
  then have "sum_list (map (\<lambda>x. x / s) xs) =
             Fin (sum_list (map (\<lambda>x. x / sum_list (map val xs)) (map val xs)))"
    unfolding xs by (simp only: sum_list_Fin)
  also have "\<dots> = Fin 1"
    using nz by (simp only: sum_list_divide_real) simp
  finally show ?thesis .
qed

lemma total_mass_renormalise:
  assumes "df \<noteq> []" "fin_frame (renormalise df)"
  shows "total_mass (renormalise df) = Fin 1"
proof -
  have "frequency df \<noteq> []"
    using assms(1) by (simp add: frequency_def)
  moreover have "\<forall>y\<in>set (map (\<lambda>f. f / pd_sum (frequency df)) (frequency df)). is_fin y"
    using assms(2) by (simp add: fin_frame_def list_all_iff frequency_renormalise)
  ultimately show ?thesis
    unfolding total_mass_def frequency_renormalise
    by (rule normalised_sum_one) simp
qed

lemma frequency_map_snd:
  "frequency (map (\<lambda>row. (fst row, g (snd row))) df) = map g (frequency df)"
  by (simp add: frequency_def comp_def)

lemma total_mass_process_TT_e2e_file:
  assumes "process_TT_e2e_file interp1d_cubic table = Inr e2e_df"
    and "e2e_df \<noteq> []" "fin_frame e2e_df"
  shows "total_mass e2e_df = Fin 1"
proof -
  from assms(1) obtain d where
    e: "e2e_df = map (\<lambda>row. (fst row, snd row / pd_sum (frequency d))) d"
    by (auto simp: process_TT_e2e_file_def Let_def split: if_splits sum.splits)
  have f: "frequency e2e_df = map (\<lambda>f. f / pd_sum (frequency d)) (frequency d)"
    unfolding e by (rule frequency_map_snd)
  have "frequency d \<noteq> []"
    using assms(2) e by (simp add: frequency_def)
  moreover have "\<forall>y\<in>set (map (\<lambda>f. f / pd_sum (frequency d)) (frequency d)). is_fin y"
    using assms(3) by (simp add: fin_frame_def list_all_iff f)
  ultimately show ?thesis
    unfolding total_mass_def f
    by (rule normalised_sum_one) simp
qed

lemma total_mass_symptom_to_onward_he:
  assumes "get_symptom_to_onward_vector_he si ip = Inr s2o"
    and "s2o \<noteq> []" "fin_frame s2o"
  shows "total_mass s2o = Fin 1"
proof -
  from assms(1) obtain d where
    e: "s2o = map (\<lambda>row. (fst row, snd row / pd_sum (frequency d))) d"
    by (auto simp del: map_map simp: get_symptom_to_onward_vector_he_def Let_def
        split: if_splits sum.splits)
  have f: "frequency s2o = map (\<lambda>f. f / pd_sum (frequency d)) (frequency d)"
    unfolding e by (rule frequency_map_snd)
  have "frequency d \<noteq> []"
    using assms(2) e by (simp add: frequency_def)
  moreover have "\<forall>y\<in>set (map (\<lambda>f. f / pd_sum (frequency d)) (frequency d)). is_fin y"
    using assms(3) by (simp add: fin_frame_def list_all_iff f)
  ultimately show ?thesis
    unfolding total_mass_def f
    by (rule normalised_sum_one) simp
qed

lemma sum_list_padd:
  fixes xs ys :: "real list"
  shows "sum_list (padd xs ys) = sum_list xs + sum_list ys"
  by (induction xs ys rule: padd.induct) simp_all

lemma sum_list_conv_full:
  fixes a v :: "real list"
  shows "sum_list (conv_full a v) = sum_list a * sum_list v"
  by (induction a) (simp_all add: sum_list_padd sum_list_const_mult algebra_simps)

lemma padd_nonneg:
  fixes xs ys :: "real list"
  assumes "\<forall>x\<in>set xs. 0 \<le> x" "\<forall>y\<in>set ys. 0 \<le> y"
  shows "\<forall>z\<in>set (padd xs ys). 0 \<le> z"
  using assms by (induction xs ys rule: padd.induct) auto

lemma conv_full_nonneg:
  fixes a v :: "real list"
  assumes "\<forall>x\<in>set a. 0 \<le> x" "\<forall>y\<in>set v. 0 \<le> y"
  shows "\<forall>z\<in>set (conv_full a v). 0 \<le> z"
  using assms
proof (induction a)
  case Nil
  then show ?case by simp
next
  case (Cons x xs)
  have "\<forall>z\<in>set (map (\<lambda>y. x * y) v). 0 \<le> z"
    using Cons.prems by simp
  moreover have "\<forall>z\<in>set (0 # conv_full xs v). 0 \<le> z"
    using Cons by simp
  ultimately show ?case
    unfolding conv_full.simps by (rule padd_nonneg)
qed

lemma same_window_nonneg:
  fixes a v :: "real list"
  assumes "\<forall>x\<in>set a. 0 \<le> x" "\<forall>y\<in>set v. 0 \<le> y"
  shows "\<forall>z\<in>set (same_window a v). 0 \<le> z"
  using conv_full_nonneg [OF assms]
  by (auto simp: same_window_def dest!: in_set_takeD in_set_dropD)

lemma sum_list_take_le:
  fixes xs :: "real list"
  assumes "\<forall>x\<in>set xs. 0 \<le> x"
  shows "sum_list (take n xs) \<le> sum_list xs"
proof -
  have "sum_list xs = sum_list (take n xs) + sum_list (drop n xs)"
    by (metis append_take_drop_id sum_list_append)
  moreover have "0 \<le> sum_list (drop n xs)"
    using assms by (auto intro!: sum_list_nonneg dest: in_set_dropD)
  ultimately show ?thesis by simp
qed

lemma sum_list_drop_le:
  fixes xs :: "real list"
  assumes "\<forall>x\<in>set xs. 0 \<le> x"
  shows "sum_list (drop n xs) \<le> sum_list xs"
proof -
  have "sum_list xs = sum_list (take n xs) + sum_list (drop n xs)"
    by (metis append_take_drop_id sum_list_append)
  moreover have "0 \<le> sum_list (take n xs)"
    using assms by (auto intro!: sum_list_nonneg dest: in_set_takeD)
  ultimately show ?thesis by simp
qed

lemma sum_list_same_window_le:
  fixes a v :: "real list"
  assumes "\<forall>x\<in>set a. 0 \<le> x" "\<forall>y\<in>set v. 0 \<le> y"
  shows "sum_list (same_window a v) \<le> sum_list a * sum_list v"
proof -
  let ?d = "drop ((length v - 1) div 2) (conv_full a v)"
  have full: "\<forall>z\<in>set (conv_full a v). 0 \<le> z"
    by (rule conv_full_nonneg [OF assms])
  then have "\<forall>z\<in>set ?d. 0 \<le> z"
    by (auto dest: in_set_dropD)
  then have "sum_list (take (length a) ?d) \<le> sum_list ?d"
    by (rule sum_list_take_le)
  also have "\<dots> \<le> sum_list (conv_full a v)"
    using full by (rule sum_list_drop_le)
  finally show ?thesis
    by (simp add: same_window_def sum_list_conv_full)
qed

lemma vals_nonneg: "nonneg_frame df \<Longrightarrow> \<forall>x\<in>set (vals df). 0 \<le> x"
  by (auto simp: nonneg_frame_def vals_def list_all_iff nonneg_val)

lemma total_mass_vals: "fin_frame df \<Longrightarrow> total_mass df = Fin (sum_list (vals df))"
  by (simp add: total_mass_def frequency_fin sum_list_Fin)

lemma total_mass_time_to_tertiary:
  assumes "nonneg_frame a" "nonneg_frame b" "b \<noteq> []" "length b = length a"
    and "total_mass a = Fin 1" "total_mass b = Fin 1"
  shows "\<exists>t m. get_time_to_tertiary_infection a b = Inr t \<and>
               total_mass t = Fin m \<and> 0 \<le> m \<and> m \<le> 1"
proof -
  let ?w = "same_window (vals a) (vals b)"
  have fa: "fin_frame a" and fb: "fin_frame b"
    using assms(1,2) by (simp_all add: nonneg_frame_fin)
  have le: "length b \<le> length a"
    using assms(4) by simp
  have sa: "sum_list (vals a) = 1" and sb: "sum_list (vals b) = 1"
    using assms(5,6) by (simp_all add: total_mass_vals fa fb)
  have w: "same_window (frequency a) (frequency b) = map Fin ?w"
    by (simp only: frequency_fin [OF fa] frequency_fin [OF fb] same_window_Fin)
  have "length (delay a) = length (map Fin ?w)"
    using assms(3,4) by (simp add: delay_def length_same_window vals_def frequency_def)
  then have "total_mass (zip (delay a) (map Fin ?w)) = Fin (sum_list ?w)"
    by (simp add: total_mass_def frequency_zip sum_list_Fin)
  moreover have "0 \<le> sum_list ?w"
    using same_window_nonneg [OF vals_nonneg [OF assms(1)] vals_nonneg [OF assms(2)]]
    by (simp add: sum_list_nonneg)
  moreover have "sum_list ?w \<le> 1"
    using sum_list_same_window_le [OF vals_nonneg [OF assms(1)] vals_nonneg [OF assms(2)]]
    by (simp add: sa sb)
  ultimately show ?thesis
    unfolding get_time_to_tertiary_infection_Inr [OF assms(3) le] w by blast
qed

text \<open>
  C3 (as amended). A PMF that comes out of a renormalising step (the column divided by its
  own sum) and is a PMF at all, that is non-empty with finite entries only, has total mass
  exactly 1: this holds after the hard-zeroing and renormalisation in
  \<open>get_symptom_and_contact_success\<close>, for the PMF of \<open>process_TT_e2e_file\<close> and for the
  \<open>'he'\<close> symptom-to-onward PMF. The PMF of \<open>get_time_to_tertiary_infection\<close> is not
  renormalised: for two aligned non-negative PMFs of mass 1 its mass lies between 0 and 1.
\<close>

theorem normalised_pmfs_have_mass_one:
  "(s2t \<noteq> [] \<and> fin_frame (renormalise (zero_negative_delays s2t)) \<longrightarrow>
      total_mass (renormalise (zero_negative_delays s2t)) = Fin 1) \<and>
   (process_TT_e2e_file interp1d_cubic table = Inr e2e_df \<and> e2e_df \<noteq> [] \<and>
      fin_frame e2e_df \<longrightarrow> total_mass e2e_df = Fin 1) \<and>
   (get_symptom_to_onward_vector_he serial_interval_vector incubation_period_vector =
      Inr symptom_to_onward_data \<and> symptom_to_onward_data \<noteq> [] \<and>
      fin_frame symptom_to_onward_data \<longrightarrow> total_mass symptom_to_onward_data = Fin 1) \<and>
   (nonneg_frame secondary_symptoms_to_tertiary \<and> nonneg_frame symptoms_to_symptoms \<and>
      symptoms_to_symptoms \<noteq> [] \<and>
      length symptoms_to_symptoms = length secondary_symptoms_to_tertiary \<and>
      total_mass secondary_symptoms_to_tertiary = Fin 1 \<and>
      total_mass symptoms_to_symptoms = Fin 1 \<longrightarrow>
      (\<exists>t m. get_time_to_tertiary_infection secondary_symptoms_to_tertiary
                 symptoms_to_symptoms = Inr t \<and>
              total_mass t = Fin m \<and> 0 \<le> m \<and> m \<le> 1))"
proof (intro conjI impI)
  assume "s2t \<noteq> [] \<and> fin_frame (renormalise (zero_negative_delays s2t))"
  then show "total_mass (renormalise (zero_negative_delays s2t)) = Fin 1"
    using total_mass_renormalise [of "zero_negative_delays s2t"]
    by (simp add: zero_negative_delays_def)
next
  assume "process_TT_e2e_file interp1d_cubic table = Inr e2e_df \<and> e2e_df \<noteq> [] \<and>
          fin_frame e2e_df"
  then show "total_mass e2e_df = Fin 1"
    using total_mass_process_TT_e2e_file by blast
next
  assume "get_symptom_to_onward_vector_he serial_interval_vector incubation_period_vector =
            Inr symptom_to_onward_data \<and> symptom_to_onward_data \<noteq> [] \<and>
          fin_frame symptom_to_onward_data"
  then show "total_mass symptom_to_onward_data = Fin 1"
    using total_mass_symptom_to_onward_he by blast
next
  assume "nonneg_frame secondary_symptoms_to_tertiary \<and> nonneg_frame symptoms_to_symptoms \<and>
      symptoms_to_symptoms \<noteq> [] \<and>
      length symptoms_to_symptoms = length secondary_symptoms_to_tertiary \<and>
      total_mass secondary_symptoms_to_tertiary = Fin 1 \<and>
      total_mass symptoms_to_symptoms = Fin 1"
  then show "\<exists>t m. get_time_to_tertiary_infection secondary_symptoms_to_tertiary
                 symptoms_to_symptoms = Inr t \<and>
              total_mass t = Fin m \<and> 0 \<le> m \<and> m \<le> 1"
    using total_mass_time_to_tertiary by blast
qed

lemmas eval_defs2 =
  process_TT_e2e_file_def get_symptom_to_onward_vector_he_def process_delay_column_def
  arange_def np_sum_def total_mass_def fin_frame_def nonneg_frame_def nonneg_def

theorem normalised_pmfs_have_mass_one_witness:
  "total_mass (renormalise (zero_negative_delays
       [(- 1, Fin (1/4)), (0, Fin (1/2)), (1, Fin (1/4))])) = Fin 1 \<and>
   map_sum id total_mass
     (process_TT_e2e_file (\<lambda>tbl. Inr (\<lambda>x. Fin 1))
        [((0, 2), Fin (1/10)), ((2, 4), Fin (2/5)), ((4, 6), Fin (2/5)),
         ((6, 8), Fin (1/10))]) = Inr (Fin 1) \<and>
   map_sum id total_mass
     (get_symptom_to_onward_vector_he
        [(- 1, Fin 0), (0, Fin (1/2)), (1, Fin (1/2))]
        [(- 1, Fin 0), (0, Fin 1), (1, Fin 0)]) = Inr (Fin 1) \<and>
   (\<exists>t m. get_time_to_tertiary_infection
             [(- 1, Fin 0), (0, Fin (1/2)), (1, Fin (1/2))]
             [(- 1, Fin 0), (0, Fin (1/2)), (1, Fin (1/2))] = Inr t \<and>
          total_mass t = Fin m \<and> 0 \<le> m \<and> m \<le> 1)"
proof -
  have e: "process_TT_e2e_file (\<lambda>tbl. Inr (\<lambda>x. Fin 1))
        [((0, 2), Fin (1/10)), ((2, 4), Fin (2/5)), ((4, 6), Fin (2/5)),
         ((6, 8), Fin (1/10))] =
        Inr [(1, Fin (1/6)), (2, Fin (1/6)), (3, Fin (1/6)), (4, Fin (1/6)),
             (5, Fin (1/6)), (6, Fin (1/6))]"
    by (simp add: eval_defs2 eval_defs upto_rec1)
  have h: "get_symptom_to_onward_vector_he
        [(- 1, Fin 0), (0, Fin (1/2)), (1, Fin (1/2))]
        [(- 1, Fin 0), (0, Fin 1), (1, Fin 0)] =
        Inr [(- 1, Fin 0), (0, Fin (1/2)), (1, Fin (1/2))]"
    by (simp add: eval_defs2 eval_defs)
  note t = normalised_pmfs_have_mass_one
    [of "[(- 1, Fin (1/4)), (0, Fin (1/2)), (1, Fin (1/4))]"
        "\<lambda>tbl. Inr (\<lambda>x. Fin 1)"
        "[((0, 2), Fin (1/10)), ((2, 4), Fin (2/5)), ((4, 6), Fin (2/5)),
          ((6, 8), Fin (1/10))]"
        "[(1, Fin (1/6)), (2, Fin (1/6)), (3, Fin (1/6)), (4, Fin (1/6)),
          (5, Fin (1/6)), (6, Fin (1/6))]"
        "[(- 1, Fin 0), (0, Fin (1/2)), (1, Fin (1/2))]"
        "[(- 1, Fin 0), (0, Fin 1), (1, Fin 0)]"
        "[(- 1, Fin 0), (0, Fin (1/2)), (1, Fin (1/2))]"
        "[(- 1, Fin 0), (0, Fin (1/2)), (1, Fin (1/2))]"
        "[(- 1, Fin 0), (0, Fin (1/2)), (1, Fin (1/2))]"]
  have 1: "total_mass (renormalise (zero_negative_delays
       [(- 1, Fin (1/4)), (0, Fin (1/2)), (1, Fin (1/4))])) = Fin 1"
    using t by (simp add: eval_defs2 eval_defs)
  have 2: "total_mass [(1, Fin (1/6)), (2, Fin (1/6)), (3, Fin (1/6)), (4, Fin (1/6)),
             (5, Fin (1/6)), (6, Fin (1/6))] = Fin 1"
    using t e by (simp add: fin_frame_def frequency_def)
  have 3: "total_mass [(- 1, Fin 0), (0, Fin (1/2)), (1, Fin (1/2))] = Fin 1"
    using t h by (simp add: fin_frame_def frequency_def)
  have 4: "\<exists>t m. get_time_to_tertiary_infection
             [(- 1, Fin 0), (0, Fin (1/2)), (1, Fin (1/2))]
             [(- 1, Fin 0), (0, Fin (1/2)), (1, Fin (1/2))] = Inr t \<and>
          total_mass t = Fin m \<and> 0 \<le> m \<and> m \<le> 1"
    using t 3 by (simp add: nonneg_frame_def nonneg_def frequency_def)
  show ?thesis
    using 1 2 3 4 by (simp add: e h)
qed

text \<open>
  C3 as the specification states it does not hold for the time-to-tertiary-infection PMF:
  two PMFs of mass 1 give a convolution whose \<open>'same'\<close> window holds only 3/4 of the mass.
\<close>

theorem time_to_tertiary_mass_not_one:
  "total_mass [(- 1, Fin 0), (0, Fin (1/2)), (1, Fin (1/2))] = Fin 1 \<and>
   map_sum id total_mass
     (get_time_to_tertiary_infection
        [(- 1, Fin 0), (0, Fin (1/2)), (1, Fin (1/2))]
        [(- 1, Fin 0), (0, Fin (1/2)), (1, Fin (1/2))]) = Inr (Fin (3/4))"
  by (simp add: total_mass_def eval_defs)

section \<open>Monotonicity in the contact compliance\<close>

lemma padd_mono:
  fixes xs ys :: "real list"
  assumes "list_all2 (\<le>) xs xs'" "list_all2 (\<le>) ys ys'"
  shows "list_all2 (\<le>) (padd xs ys) (padd xs' ys')"
  using assms
proof (induction xs ys arbitrary: xs' ys' rule: padd.induct)
  case (1 ys)
  then show ?case by simp
next
  case (2 x xs)
  then show ?case by (auto simp: list_all2_Cons1)
next
  case (3 x xs y ys)
  then show ?case
    by (auto simp: list_all2_Cons1)
qed

lemma conv_full_mono:
  fixes a v :: "real list"
  assumes "list_all2 (\<le>) a a'" "\<forall>y\<in>set v. 0 \<le> y"
  shows "list_all2 (\<le>) (conv_full a v) (conv_full a' v)"
  using assms(1)
proof (induction rule: list_all2_induct)
  case Nil
  then show ?case by simp
next
  case (Cons x xs y ys)
  have "list_all2 (\<le>) (map (\<lambda>z. x * z) v) (map (\<lambda>z. y * z) v)"
    using Cons.hyps(1) assms(2)
    by (simp add: list_all2_map1 list_all2_map2 list_all2_same mult_right_mono)
  moreover have "list_all2 (\<le>) (0 # conv_full xs v) (0 # conv_full ys v)"
    using Cons.IH by simp
  ultimately show ?case
    unfolding conv_full.simps by (rule padd_mono)
qed

lemma same_window_mono:
  fixes a v :: "real list"
  assumes "list_all2 (\<le>) a a'" "\<forall>y\<in>set v. 0 \<le> y"
  shows "list_all2 (\<le>) (same_window a v) (same_window a' v)"
proof -
  have "length a = length a'"
    using assms(1) by (rule list_all2_lengthD)
  then show ?thesis
    unfolding same_window_def
    by (simp add: list_all2_takeI list_all2_dropI conv_full_mono [OF assms])
qed

lemma tail_sum_mono:
  assumes "list_all2 (\<le>) xs ys"
  shows "tail_sum ds xs \<le> tail_sum ds ys"
  using assms unfolding tail_sum_def
proof (induction arbitrary: ds rule: list_all2_induct)
  case Nil
  then show ?case by simp
next
  case (Cons x xs y ys)
  show ?case
  proof (cases ds)
    case Nil
    then show ?thesis by simp
  next
    case (Cons d ds')
    then show ?thesis
      using Cons.hyps Cons.IH [of ds'] by (simp add: add_mono)
  qed
qed

lemma tail_sum_nonneg:
  assumes "\<forall>x\<in>set xs. 0 \<le> x"
  shows "0 \<le> tail_sum ds xs"
  unfolding tail_sum_def using assms
  by (intro sum_list_nonneg) (auto dest: set_zip_rightD)

lemma padd_scale:
  fixes xs ys :: "real list"
  shows "padd (map ((*) k) xs) (map ((*) k) ys) = map ((*) k) (padd xs ys)"
  by (induction xs ys rule: padd.induct) (simp_all add: algebra_simps)

lemma conv_full_scale:
  fixes a v :: "real list"
  shows "conv_full (map ((*) k) a) v = map ((*) k) (conv_full a v)"
proof (induction a)
  case Nil
  then show ?case by simp
next
  case (Cons x xs)
  have 1: "map (\<lambda>y. k * x * y) v = map ((*) k) (map (\<lambda>y. x * y) v)"
    by (simp add: algebra_simps)
  have 2: "0 # map ((*) k) (conv_full xs v) = map ((*) k) (0 # conv_full xs v)"
    by simp
  have "conv_full (map ((*) k) (x # xs)) v =
        padd (map (\<lambda>y. k * x * y) v) (0 # conv_full (map ((*) k) xs) v)"
    by simp
  also have "\<dots> = padd (map ((*) k) (map (\<lambda>y. x * y) v)) (map ((*) k) (0 # conv_full xs v))"
    unfolding Cons.IH 1 2 ..
  also have "\<dots> = map ((*) k) (conv_full (x # xs) v)"
    by (simp only: padd_scale conv_full.simps)
  finally show ?case .
qed

lemma same_window_scale:
  fixes a v :: "real list"
  shows "same_window (map ((*) k) a) v = map ((*) k) (same_window a v)"
  by (simp add: same_window_def conv_full_scale take_map drop_map)

lemma tail_sum_scale: "tail_sum ds (map ((*) k) xs) = k * tail_sum ds xs"
  unfolding tail_sum_def
  by (induction ds xs rule: list_induct2') (simp_all add: algebra_simps)

lemma zeroed_le_vals: "nonneg_frame df \<Longrightarrow> list_all2 (\<le>) (zeroed df) (vals df)"
  by (induction df)
    (auto simp: nonneg_frame_def zeroed_def vals_def frequency_def nonneg_val)

lemma conditional_impact_bounds:
  assumes "nonneg_frame s2t" "nonneg_frame si" "nonneg_frame ttc"
  shows "0 \<le> conditional_impact s2t si ttc"
    and "sum_list (zeroed s2t) * conditional_impact s2t si ttc \<le>
         tail_sum (delay s2t)
           (same_window (same_window (vals s2t) (vals si)) (rev (vals ttc)))"
proof -
  let ?m = "sum_list (zeroed s2t)"
  let ?S = "vals si" and ?T = "rev (vals ttc)"
  have S: "\<forall>y\<in>set ?S. 0 \<le> y" and T: "\<forall>y\<in>set ?T. 0 \<le> y"
    using vals_nonneg [OF assms(2)] vals_nonneg [OF assms(3)] by simp_all
  have Z: "\<forall>x\<in>set (zeroed s2t). 0 \<le> x"
    by (rule zeroed_nonneg [OF assms(1)])
  then have m: "0 \<le> ?m"
    by (simp add: sum_list_nonneg)
  have sc: "map (\<lambda>x. x / ?m) (zeroed s2t) = map ((*) (1 / ?m)) (zeroed s2t)"
    by simp
  have k: "tail_sum (delay s2t) (same_window (same_window (map (\<lambda>x. x / ?m) (zeroed s2t)) ?S) ?T)
           = (1 / ?m) * tail_sum (delay s2t) (same_window (same_window (zeroed s2t) ?S) ?T)"
    unfolding sc by (simp only: same_window_scale tail_sum_scale)
  have zpos: "0 \<le> tail_sum (delay s2t) (same_window (same_window (zeroed s2t) ?S) ?T)"
    by (intro tail_sum_nonneg same_window_nonneg Z S T)
  have le: "tail_sum (delay s2t) (same_window (same_window (zeroed s2t) ?S) ?T) \<le>
            tail_sum (delay s2t) (same_window (same_window (vals s2t) ?S) ?T)"
    by (intro tail_sum_mono same_window_mono zeroed_le_vals assms(1) S T)
  show "0 \<le> conditional_impact s2t si ttc"
    unfolding conditional_impact_def k using m zpos by simp
  show "?m * conditional_impact s2t si ttc \<le>
        tail_sum (delay s2t) (same_window (same_window (vals s2t) ?S) ?T)"
  proof (cases "?m = 0")
    case True
    then show ?thesis
      using zpos le by (simp add: conditional_impact_def)
  next
    case False
    then show ?thesis
      using le by (simp add: conditional_impact_def k)
  qed
qed

lemma gsacs_nonneg_value:
  assumes "s2t \<noteq> []" "length si = length s2t" "length ttc = length s2t"
    and "nonneg_frame s2t" "fin_frame si" "fin_frame ttc"
  shows "get_symptom_and_contact_success sis sr asr c pn s2t si ttc =
         Inr (sis * sr * asr * pn * c * Fin (conditional_impact s2t si ttc))"
proof (cases "sum_list (zeroed s2t) = 0")
  case True
  from gsacs_degenerate [OF assms(1-3) nonneg_frame_fin [OF assms(4)]
      zeroed_all_zero [OF assms(4) True]]
  show ?thesis
    by (simp add: conditional_impact_def True)
next
  case False
  from gsacs_regular [OF assms(1-3) nonneg_frame_fin [OF assms(4)] assms(5,6) False]
  show ?thesis
    by (simp add: conditional_impact_def False)
qed

lemma TT_model_rum_values:
  assumes "s2t \<noteq> []" "length si = length s2t" "length ttc = length s2t"
    "length ttti = length s2t"
    and "nonneg_frame s2t" "fin_frame si" "fin_frame ttc" "fin_frame ttti"
  shows "metric ''contact_isolation_success''
           (TT_model_rum (Fin asr) (Fin sr) (Fin pn) (Fin ct) (Fin cnt) (Fin c)
              si s2t ttti ttc) =
         Some (Fin (sr * asr * pn * c *
                    tail_sum (delay ttti) (same_window (vals ttti) (rev (vals ttc)))))"
    and "metric ''transmission_averted''
           (TT_model_rum (Fin asr) (Fin sr) (Fin pn) (Fin ct) (Fin cnt) (Fin c)
              si s2t ttti ttc) =
         Some (Fin (sum_list (zeroed s2t) * (sr * asr * ct + (1 - asr) * sr * cnt) +
                    sr * asr * pn * c *
                      tail_sum (delay ttti) (same_window (vals ttti) (rev (vals ttc))) -
                    sum_list (zeroed s2t) * (sr * asr * ct + (1 - asr) * sr * cnt) *
                      sr * asr * pn * c * conditional_impact s2t si ttc))"
proof -
  have ttc: "ttc \<noteq> []" "length ttc \<le> length ttti"
    using assms(1,3,4) by auto
  note a = gcii_fin [OF ttc frequency_fin [OF assms(8)] frequency_fin [OF assms(7)]]
  note g = gsacs_nonneg_value [OF assms(1-3) assms(5-7)]
  note z = sum_zeroed [OF nonneg_frame_fin [OF assms(5)]]
  from TT_model_rum_returns [OF assms(1-4)] obtain r where
    r: "TT_model_rum (Fin asr) (Fin sr) (Fin pn) (Fin ct) (Fin cnt) (Fin c)
          si s2t ttti ttc = Inr r"
    by blast
  show "metric ''contact_isolation_success''
           (TT_model_rum (Fin asr) (Fin sr) (Fin pn) (Fin ct) (Fin cnt) (Fin c)
              si s2t ttti ttc) =
         Some (Fin (sr * asr * pn * c *
                    tail_sum (delay ttti) (same_window (vals ttti) (rev (vals ttc)))))"
    unfolding r
    by (rule TT_model_rum_InrE [OF r]) (auto simp add: metric_def a)
  show "metric ''transmission_averted''
           (TT_model_rum (Fin asr) (Fin sr) (Fin pn) (Fin ct) (Fin cnt) (Fin c)
              si s2t ttti ttc) =
         Some (Fin (sum_list (zeroed s2t) * (sr * asr * ct + (1 - asr) * sr * cnt) +
                    sr * asr * pn * c *
                      tail_sum (delay ttti) (same_window (vals ttti) (rev (vals ttc))) -
                    sum_list (zeroed s2t) * (sr * asr * ct + (1 - asr) * sr * cnt) *
                      sr * asr * pn * c * conditional_impact s2t si ttc))"
    unfolding r
    by (rule TT_model_rum_InrE [OF r]) (auto simp add: metric_def a g z one_pyfloat_def)
qed

lemma contact_success_mono_real:
  fixes sr asr pn c1 c2 t :: real
  assumes "0 \<le> sr" "0 \<le> asr" "0 \<le> pn" "c1 \<le> c2" "0 \<le> t"
  shows "sr * asr * pn * c1 * t \<le> sr * asr * pn * c2 * t"
proof -
  have "0 \<le> sr * asr * pn"
    using assms(1-3) by simp
  then have "sr * asr * pn * c1 \<le> sr * asr * pn * c2"
    using assms(4) by (rule mult_left_mono [rotated])
  then show ?thesis
    using assms(5) by (rule mult_right_mono)
qed

lemma averted_mono_real:
  fixes sr asr pn c1 c2 adh M k t :: real
  assumes "0 \<le> sr" "0 \<le> asr" "0 \<le> pn" "c1 \<le> c2" "adh \<le> 1"
    and "0 \<le> M * k" "M * k \<le> t"
  shows "M * adh + sr * asr * pn * c1 * t - M * adh * sr * asr * pn * c1 * k \<le>
         M * adh + sr * asr * pn * c2 * t - M * adh * sr * asr * pn * c2 * k"
proof -
  have "adh * (M * k) \<le> 1 * (M * k)"
    using assms(5,6) by (rule mult_right_mono)
  then have 1: "0 \<le> t - adh * (M * k)"
    using assms(7) by simp
  have "0 \<le> sr * asr * pn * (c2 - c1)"
    using assms(1-4) by simp
  from this 1 have "0 \<le> sr * asr * pn * (c2 - c1) * (t - adh * (M * k))"
    by (rule mult_nonneg_nonneg)
  then show ?thesis
    by (simp add: algebra_simps)
qed

lemma adherence_le_one:
  fixes sr asr ct cnt :: real
  assumes "0 \<le> asr" "asr \<le> 1" "0 \<le> sr" "sr \<le> 1" "ct \<le> 1" "cnt \<le> 1"
  shows "sr * asr * ct + (1 - asr) * sr * cnt \<le> 1"
proof -
  have "sr * asr * ct \<le> sr * asr * 1"
    using assms(1,3,5) by (intro mult_left_mono) simp_all
  moreover have "(1 - asr) * sr * cnt \<le> (1 - asr) * sr * 1"
    using assms(2,3,6) by (intro mult_left_mono) simp_all
  ultimately have "sr * asr * ct + (1 - asr) * sr * cnt \<le> sr"
    by (simp add: algebra_simps)
  then show ?thesis
    using assms(4) by simp
qed

lemma time_to_tertiary_consistent:
  assumes "s2t \<noteq> []" "length si = length s2t" "nonneg_frame s2t" "nonneg_frame si"
    and "get_time_to_tertiary_infection s2t si = Inr ttti"
  shows "delay ttti = delay s2t" "vals ttti = same_window (vals s2t) (vals si)"
    "fin_frame ttti" "length ttti = length s2t"
proof -
  let ?w = "same_window (vals s2t) (vals si)"
  have si: "si \<noteq> []" "length si \<le> length s2t"
    using assms(1,2) by auto
  have "same_window (frequency s2t) (frequency si) = map Fin ?w"
    by (simp only: frequency_fin [OF nonneg_frame_fin [OF assms(3)]]
        frequency_fin [OF nonneg_frame_fin [OF assms(4)]] same_window_Fin)
  then have t: "ttti = zip (delay s2t) (map Fin ?w)"
    using assms(5) unfolding get_time_to_tertiary_infection_Inr [OF si] by simp
  have len: "length (delay s2t) = length (map Fin ?w)"
    using si by (simp add: delay_def length_same_window vals_def frequency_def)
  show "delay ttti = delay s2t"
    unfolding t by (rule delay_zip [OF len])
  have f: "frequency ttti = map Fin ?w"
    unfolding t by (rule frequency_zip [OF len])
  show "vals ttti = ?w"
    by (simp add: vals_def f comp_def)
  show "fin_frame ttti"
    by (simp add: fin_frame_def f list_all_iff)
  show "length ttti = length s2t"
    unfolding t using len by (simp add: delay_def)
qed

text \<open>
  C2 (as amended). In exact arithmetic, for parameters in \<open>[0,1]\<close> and aligned non-negative
  PMFs, raising \<open>compliance_with_contact_isolation\<close> from \<open>c1\<close> to \<open>c2 \<ge> c1\<close> does not lower
  \<open>contact_isolation_success\<close>; it does not lower \<open>transmission_averted\<close> either when the
  bundle's time-to-tertiary-infection PMF is the one \<open>get_time_to_tertiary_infection\<close>
  computes from the bundle's secondary-symptoms-to-tertiary PMF and serial interval (the
  bundle \<open>calculate_time_distributions\<close> builds). On float64,
  \<open>contact_isolation_success\<close> is not lowered either, whatever non-negative value
  \<open>adherence_contact_isolation_impact\<close> has; \<open>transmission_averted\<close> can fall by a rounding
  error.
\<close>

theorem contact_compliance_monotone:
  assumes "0 \<le> asr" "asr \<le> 1" "0 \<le> sr" "sr \<le> 1" "0 \<le> pn" "pn \<le> 1"
    and "0 \<le> ct" "ct \<le> 1" "0 \<le> cnt" "cnt \<le> 1"
    and "0 \<le> c1" "c1 \<le> c2" "c2 \<le> 1"
    and "s2t \<noteq> []" "length si = length s2t" "length ttc = length s2t"
      "length ttti = length s2t"
    and "nonneg_frame si" "nonneg_frame s2t" "nonneg_frame ttti" "nonneg_frame ttc"
  shows "(\<exists>x1 x2.
            metric ''contact_isolation_success''
              (TT_model_rum (Fin asr) (Fin sr) (Fin pn) (Fin ct) (Fin cnt) (Fin c1)
                 si s2t ttti ttc) = Some (Fin x1) \<and>
            metric ''contact_isolation_success''
              (TT_model_rum (Fin asr) (Fin sr) (Fin pn) (Fin ct) (Fin cnt) (Fin c2)
                 si s2t ttti ttc) = Some (Fin x2) \<and>
            x1 \<le> x2) \<and>
         (get_time_to_tertiary_infection s2t si = Inr ttti \<longrightarrow>
          (\<exists>y1 y2.
            metric ''transmission_averted''
              (TT_model_rum (Fin asr) (Fin sr) (Fin pn) (Fin ct) (Fin cnt) (Fin c1)
                 si s2t ttti ttc) = Some (Fin y1) \<and>
            metric ''transmission_averted''
              (TT_model_rum (Fin asr) (Fin sr) (Fin pn) (Fin ct) (Fin cnt) (Fin c2)
                 si s2t ttti ttc) = Some (Fin y2) \<and>
            y1 \<le> y2)) \<and>
         (\<forall>aci\<ge>0. contact_isolation_success_f64 asr sr pn c1 aci
                    \<le> contact_isolation_success_f64 asr sr pn c2 aci)"
proof (intro conjI impI allI)
  let ?t = "tail_sum (delay ttti) (same_window (vals ttti) (rev (vals ttc)))"
  note fin = nonneg_frame_fin [OF assms(18)] nonneg_frame_fin [OF assms(21)]
    nonneg_frame_fin [OF assms(20)]
  note v = TT_model_rum_values [OF assms(14-17) assms(19) fin]
  have T: "\<forall>y\<in>set (rev (vals ttc)). 0 \<le> y"
    using vals_nonneg [OF assms(21)] by simp
  have t: "0 \<le> ?t"
    by (intro tail_sum_nonneg same_window_nonneg vals_nonneg assms(20) T)
  have "sr * asr * pn * c1 * ?t \<le> sr * asr * pn * c2 * ?t"
    using assms(3,1,5,12) t by (rule contact_success_mono_real)
  then show "\<exists>x1 x2.
            metric ''contact_isolation_success''
              (TT_model_rum (Fin asr) (Fin sr) (Fin pn) (Fin ct) (Fin cnt) (Fin c1)
                 si s2t ttti ttc) = Some (Fin x1) \<and>
            metric ''contact_isolation_success''
              (TT_model_rum (Fin asr) (Fin sr) (Fin pn) (Fin ct) (Fin cnt) (Fin c2)
                 si s2t ttti ttc) = Some (Fin x2) \<and>
            x1 \<le> x2"
    unfolding v(1) by blast
  assume c: "get_time_to_tertiary_infection s2t si = Inr ttti"
  note k = time_to_tertiary_consistent [OF assms(14,15,19,18) c]
  note b = conditional_impact_bounds [OF assms(19,18,21)]
  have m: "0 \<le> sum_list (zeroed s2t)"
    using zeroed_nonneg [OF assms(19)] by (simp add: sum_list_nonneg)
  have 1: "0 \<le> sum_list (zeroed s2t) * conditional_impact s2t si ttc"
    using m b(1) by (rule mult_nonneg_nonneg)
  have 2: "sum_list (zeroed s2t) * conditional_impact s2t si ttc \<le> ?t"
    using b(2) by (simp only: k(1,2))
  have 3: "sr * asr * ct + (1 - asr) * sr * cnt \<le> 1"
    using assms(1,2,3,4,8,10) by (rule adherence_le_one)
  from averted_mono_real [OF assms(3,1,5,12) 3 1 2]
  show "\<exists>y1 y2.
            metric ''transmission_averted''
              (TT_model_rum (Fin asr) (Fin sr) (Fin pn) (Fin ct) (Fin cnt) (Fin c1)
                 si s2t ttti ttc) = Some (Fin y1) \<and>
            metric ''transmission_averted''
              (TT_model_rum (Fin asr) (Fin sr) (Fin pn) (Fin ct) (Fin cnt) (Fin c2)
                 si s2t ttti ttc) = Some (Fin y2) \<and>
            y1 \<le> y2"
    unfolding v(2) by blast
next
  fix aci :: real
  assume "0 \<le> aci"
  with assms(1,3,5,11,12)
  show "contact_isolation_success_f64 asr sr pn c1 aci
        \<le> contact_isolation_success_f64 asr sr pn c2 aci"
    by (rule contact_isolation_success_f64_mono)
qed

theorem contact_compliance_monotone_witness:
  "(\<exists>x1 x2.
      metric ''contact_isolation_success''
        (TT_model_rum (Fin (1/2)) (Fin (7/10)) (Fin (3/5)) (Fin (9/10)) (Fin (3/10))
           (Fin (1/5))
           [(- 1, Fin 0), (0, Fin (1/2)), (1, Fin (1/2))]
           [(- 1, Fin (1/4)), (0, Fin (1/2)), (1, Fin (1/4))]
           [(- 1, Fin (1/8)), (0, Fin (3/8)), (1, Fin (3/8))]
           [(- 1, Fin 0), (0, Fin 1), (1, Fin 0)]) = Some (Fin x1) \<and>
      metric ''contact_isolation_success''
        (TT_model_rum (Fin (1/2)) (Fin (7/10)) (Fin (3/5)) (Fin (9/10)) (Fin (3/10))
           (Fin (4/5))
           [(- 1, Fin 0), (0, Fin (1/2)), (1, Fin (1/2))]
           [(- 1, Fin (1/4)), (0, Fin (1/2)), (1, Fin (1/4))]
           [(- 1, Fin (1/8)), (0, Fin (3/8)), (1, Fin (3/8))]
           [(- 1, Fin 0), (0, Fin 1), (1, Fin 0)]) = Some (Fin x2) \<and>
      x1 \<le> x2) \<and>
   (\<exists>y1 y2.
      metric ''transmission_averted''
        (TT_model_rum (Fin (1/2)) (Fin (7/10)) (Fin (3/5)) (Fin (9/10)) (Fin (3/10))
           (Fin (1/5))
           [(- 1, Fin 0), (0, Fin (1/2)), (1, Fin (1/2))]
           [(- 1, Fin (1/4)), (0, Fin (1/2)), (1, Fin (1/4))]
           [(- 1, Fin (1/8)), (0, Fin (3/8)), (1, Fin (3/8))]
           [(- 1, Fin 0), (0, Fin 1), (1, Fin 0)]) = Some (Fin y1) \<and>
      metric ''transmission_averted''
        (TT_model_rum (Fin (1/2)) (Fin (7/10)) (Fin (3/5)) (Fin (9/10)) (Fin (3/10))
           (Fin (4/5))
           [(- 1, Fin 0), (0, Fin (1/2)), (1, Fin (1/2))]
           [(- 1, Fin (1/4)), (0, Fin (1/2)), (1, Fin (1/4))]
           [(- 1, Fin (1/8)), (0, Fin (3/8)), (1, Fin (3/8))]
           [(- 1, Fin 0), (0, Fin 1), (1, Fin 0)]) = Some (Fin y2) \<and>
      y1 \<le> y2) \<and>
   contact_isolation_success_f64 (1/2) (7/10) (3/5) (1/5) (1/2)
   \<le> contact_isolation_success_f64 (1/2) (7/10) (3/5) (4/5) (1/2)"
proof -
  have c: "get_time_to_tertiary_infection
             [(- 1, Fin (1/4)), (0, Fin (1/2)), (1, Fin (1/4))]
             [(- 1, Fin 0), (0, Fin (1/2)), (1, Fin (1/2))] =
           Inr [(- 1, Fin (1/8)), (0, Fin (3/8)), (1, Fin (3/8))]"
    by (simp add: eval_defs)
  have "(0::real) \<le> 1/2" "(1/2::real) \<le> 1" "(0::real) \<le> 7/10" "(7/10::real) \<le> 1"
    "(0::real) \<le> 3/5" "(3/5::real) \<le> 1" "(0::real) \<le> 9/10" "(9/10::real) \<le> 1"
    "(0::real) \<le> 3/10" "(3/10::real) \<le> 1" "(0::real) \<le> 1/5" "(1/5::real) \<le> 4/5"
    "(4/5::real) \<le> 1"
    "[(- 1, Fin (1/4)), (0, Fin (1/2)), (1, Fin (1/4))] \<noteq> ([]::dataframe)"
    "length [(- 1::int, Fin 0), (0, Fin (1/2)), (1, Fin (1/2))] =
     length [(- 1::int, Fin (1/4)), (0, Fin (1/2)), (1, Fin (1/4))]"
    "length [(- 1::int, Fin 0), (0, Fin 1), (1, Fin 0)] =
     length [(- 1::int, Fin (1/4)), (0, Fin (1/2)), (1, Fin (1/4))]"
    "length [(- 1::int, Fin (1/8)), (0, Fin (3/8)), (1, Fin (3/8))] =
     length [(- 1::int, Fin (1/4)), (0, Fin (1/2)), (1, Fin (1/4))]"
    "nonneg_frame [(- 1, Fin 0), (0, Fin (1/2)), (1, Fin (1/2))]"
    "nonneg_frame [(- 1, Fin (1/4)), (0, Fin (1/2)), (1, Fin (1/4))]"
    "nonneg_frame [(- 1, Fin (1/8)), (0, Fin (3/8)), (1, Fin (3/8))]"
    "nonneg_frame [(- 1, Fin 0), (0, Fin 1), (1, Fin 0)]"
    by (simp_all add: nonneg_frame_def nonneg_def frequency_def)
  from contact_compliance_monotone [OF this] c show ?thesis
    by force
qed

text \<open>
  C2 as the specification states it does not hold on float64. The bundle is made of point
  masses on the axis -1, 0, 1, the time-to-tertiary-infection PMF being the one computed
  from the other two; the three quantities that come out of the distributions are exactly
  1. With all other parameters 1, \<open>transmission_averted\<close> is the float64 value of
  \<open>(1 + c) - c\<close>: 1 for the compliance 0.2 and 0.9999999999999999 for the compliance 0.9.
\<close>

theorem transmission_averted_drops_on_float64:
  "get_time_to_tertiary_infection [(- 1, Fin 0), (0, Fin 0), (1, Fin 1)]
     [(- 1, Fin 0), (0, Fin 1), (1, Fin 0)] = Inr [(- 1, Fin 0), (0, Fin 0), (1, Fin 1)] \<and>
   metric ''adherence_symptom_isolation_impact''
     (TT_model_rum (Fin 1) (Fin 1) (Fin 1) (Fin 1) (Fin 1) (Fin 1)
        [(- 1, Fin 0), (0, Fin 1), (1, Fin 0)]
        [(- 1, Fin 0), (0, Fin 0), (1, Fin 1)]
        [(- 1, Fin 0), (0, Fin 0), (1, Fin 1)]
        [(- 1, Fin 0), (0, Fin 1), (1, Fin 0)]) = Some (Fin 1) \<and>
   metric ''adherence_contact_isolation_impact''
     (TT_model_rum (Fin 1) (Fin 1) (Fin 1) (Fin 1) (Fin 1) (Fin 1)
        [(- 1, Fin 0), (0, Fin 1), (1, Fin 0)]
        [(- 1, Fin 0), (0, Fin 0), (1, Fin 1)]
        [(- 1, Fin 0), (0, Fin 0), (1, Fin 1)]
        [(- 1, Fin 0), (0, Fin 1), (1, Fin 0)]) = Some (Fin 1) \<and>
   get_symptom_and_contact_success (Fin 1) (Fin 1) (Fin 1) (Fin 1) (Fin 1)
     [(- 1, Fin 0), (0, Fin 0), (1, Fin 1)]
     [(- 1, Fin 0), (0, Fin 1), (1, Fin 0)]
     [(- 1, Fin 0), (0, Fin 1), (1, Fin 0)] = Inr (Fin 1) \<and>
   round64 (3602879701896397 / 18014398509481984) = 3602879701896397 / 18014398509481984 \<and>
   round64 (8106479329266893 / 9007199254740992) = 8106479329266893 / 9007199254740992 \<and>
   (3602879701896397 / 18014398509481984 :: real) \<le> 8106479329266893 / 9007199254740992 \<and>
   transmission_averted_f64 1 1 1 1 1 (3602879701896397 / 18014398509481984) 1 1 1 = 1 \<and>
   transmission_averted_f64 1 1 1 1 1 (8106479329266893 / 9007199254740992) 1 1 1 =
     9007199254740991 / 9007199254740992 \<and>
   transmission_averted_f64 1 1 1 1 1 (8106479329266893 / 9007199254740992) 1 1 1 <
   transmission_averted_f64 1 1 1 1 1 (3602879701896397 / 18014398509481984) 1 1 1"
  unfolding transmission_averted_f64_low transmission_averted_f64_high round64_at_11 round64_at_15
  by (simp add: eval_defs)

end
